theory Spec2Isabelle
  imports Complex_Main
begin

section \<open>Data model of \<open>ql/CashFlows/cashflowvectors.cpp\<close>\<close>

text \<open>
  The file builds legs (vectors of cash flows) from a schedule.  The classes it uses
  (\<open>Date\<close>, \<open>Period\<close>, \<open>Calendar\<close>, \<open>Schedule\<close>, \<open>DayCounter\<close>, the coupon classes)
  are declared in headers outside the file; they are modelled here by the plain data
  the builders read and write.  A \<open>Date\<close> is its serial number.  \<open>Real\<close>, \<open>Rate\<close> and
  \<open>Spread\<close> values are only copied from the argument vectors into the coupons, never
  computed with, and are modelled as \<open>real\<close>.  \<open>FloatingRateCouponVector\<close>
  (lines 116-146) only forwards its arguments to \<open>IndexedCouponVector\<close>, which is
  declared outside the file; it is not modelled.
\<close>

type_synonym Date = int
type_synonym Real = real
type_synonym Size = nat

datatype TimeUnit = Days | Weeks | Months | Years

datatype Period = Period int TimeUnit

datatype BusinessDayConvention =
    Unadjusted | Preceding | ModifiedPreceding
  | Following | ModifiedFollowing | MonthEndReference

text \<open>
  A \<open>DayCounter\<close> is either empty (default constructed) or a named convention;
  \<open>operator==\<close> on day counters is equality of these values.
\<close>

datatype DayCounter = NoDayCounter | NamedDayCounter string

definition dc_empty :: "DayCounter \<Rightarrow> bool" where
  "dc_empty dc = (case dc of NoDayCounter \<Rightarrow> True | NamedDayCounter n \<Rightarrow> False)"

text \<open>
  A \<open>Calendar\<close> is an object with the method \<open>adjust(date, convention)\<close>; the dates
  a calendar treats as holidays are outside the file, so the method is a field.
  \<open>Date + Period\<close> and \<open>Date - Period\<close> are calendar arithmetic declared with \<open>Date\<close>;
  the builders receive them in a \<open>DateArith\<close>.
\<close>

record Calendar =
  adjust :: "Date \<Rightarrow> BusinessDayConvention \<Rightarrow> Date"

record DateArith =
  plus_period :: "Date \<Rightarrow> Period \<Rightarrow> Date"
  minus_period :: "Date \<Rightarrow> Period \<Rightarrow> Date"

record Schedule =
  sch_dates :: "Date list"
  sch_isRegular :: "bool list"
  sch_tenor :: Period
  sch_calendar :: Calendar
  sch_businessDayConvention :: BusinessDayConvention

text \<open>Shared objects (\<open>shared_ptr\<close>, \<open>Handle\<close>) are identified by a number.\<close>

type_synonym SwapIndex = nat
type_synonym VanillaCMSCouponPricer = nat
type_synonym SwaptionVolatilityHandle = nat

record FixedRateCoupon =
  frc_nominal :: Real
  frc_paymentDate :: Date
  frc_rate :: Real
  frc_dayCounter :: DayCounter
  frc_accrualStartDate :: Date
  frc_accrualEndDate :: Date
  frc_refPeriodStart :: Date
  frc_refPeriodEnd :: Date

text \<open>
  The swaption volatility of a \<open>CMSCoupon\<close> is kept as the list of the handles that
  \<open>setSwaptionVolatility\<close> has attached so far, newest first (the coupon's current
  handle is the head, a coupon fresh from its constructor has none), so that how
  often a handle was attached can be stated.
\<close>

record CMSCoupon =
  cms_nominal :: Real
  cms_paymentDate :: Date
  cms_index :: SwapIndex
  cms_startDate :: Date
  cms_endDate :: Date
  cms_fixingDays :: int
  cms_dayCounter :: DayCounter
  cms_pricer :: VanillaCMSCouponPricer
  cms_gearing :: Real
  cms_spread :: Real
  cms_cap :: Real
  cms_floor :: Real
  cms_meanReversion :: Real
  cms_refPeriodStart :: Date
  cms_refPeriodEnd :: Date
  cms_isInArrears :: bool
  cms_swaptionVol :: "SwaptionVolatilityHandle list"

datatype CashFlow = FixedRateCoupon FixedRateCoupon | CMSCoupon CMSCoupon

type_synonym Leg = "CashFlow list"

text \<open>
  \<open>QL_REQUIRE\<close> and \<open>QL_FAIL\<close> throw a \<open>QuantLib::Error\<close> with a message.  A failed
  call is the error together with the coupons the builder had pushed onto its local
  \<open>leg\<close> when it threw.
\<close>

datatype error = Error string

type_synonym 'a result = "(error \<times> Leg) + 'a"

subsection \<open>The parameter broadcaster (lines 151-160)\<close>

definition get :: "Real list \<Rightarrow> Size \<Rightarrow> Real \<Rightarrow> Real" where
  "get v i defaultValue =
     (if v = [] then defaultValue
      else if i < length v then v ! i
      else last v)"

subsection \<open>Schedule accessors\<close>

text \<open>
  Modelled from the spec: \<open>Schedule\<close> is declared outside the file.  Its data is
  "an ordered sequence of dates of length N; for each internal index i in [1, N-1]
  a boolean is-this-period-regular flag; a nominal tenor; a calendar and a
  business-day convention".  What \<open>date(i)\<close> and \<open>isRegular(i)\<close> do outside these
  ranges is not said there; here they throw, so that no read out of range passes
  for a value.  On a well-formed schedule (\<open>well_formed\<close> below) the builders make
  no such read.
\<close>

definition sch_size :: "Schedule \<Rightarrow> Size" where
  "sch_size schedule = length (sch_dates schedule)"

definition date :: "Schedule \<Rightarrow> Size \<Rightarrow> error + Date" where
  "date schedule i =
     (if i < length (sch_dates schedule) then Inr (sch_dates schedule ! i)
      else Inl (Error ''date index out of bounds''))"

definition isRegular :: "Schedule \<Rightarrow> Size \<Rightarrow> error + bool" where
  "isRegular schedule i =
     (if 0 < i \<and> i \<le> length (sch_isRegular schedule)
      then Inr (sch_isRegular schedule ! (i - 1))
      else Inl (Error ''regularity index out of bounds''))"

subsection \<open>\<open>FixedRateCouponVector\<close> (lines 31-114)\<close>

text \<open>
  The loop over the regular periods (lines 70-84).  Its state is the loop index, the
  variable \<open>end\<close> and the leg; \<open>start\<close>, \<open>paymentDate\<close>, \<open>rate\<close> and \<open>nominal\<close> are
  assigned in every iteration before they are read.  The loop is entered only after
  \<open>schedule.date(1)\<close> has returned, so \<open>schedule.size() - 1\<close> does not wrap around.
\<close>

function FixedRate_regular_periods ::
  "Schedule \<Rightarrow> BusinessDayConvention \<Rightarrow> Real list \<Rightarrow> Real list \<Rightarrow> DayCounter
   \<Rightarrow> Size \<Rightarrow> Date \<Rightarrow> Leg \<Rightarrow> (Date \<times> Leg) result" where
  "FixedRate_regular_periods schedule paymentAdjustment nominals couponRates dayCount
       i end leg =
     (if i < sch_size schedule - 1 then
        (case date schedule i of
           Inl e \<Rightarrow> Inl (e, leg)
         | Inr d \<Rightarrow>
            (let start = end;
                 end = d;
                 paymentDate = adjust (sch_calendar schedule) end paymentAdjustment;
                 rate = (if i - 1 < length couponRates then couponRates ! (i - 1)
                         else last couponRates);
                 nominal = (if i - 1 < length nominals then nominals ! (i - 1)
                            else last nominals)
             in FixedRate_regular_periods schedule paymentAdjustment nominals
                  couponRates dayCount (i + 1) end
                  (leg @ [FixedRateCoupon
                     \<lparr>frc_nominal = nominal, frc_paymentDate = paymentDate,
                      frc_rate = rate, frc_dayCounter = dayCount,
                      frc_accrualStartDate = start, frc_accrualEndDate = end,
                      frc_refPeriodStart = start, frc_refPeriodEnd = end\<rparr>])))
      else Inr (end, leg))"
  by pat_completeness auto
termination
  by (relation "measure (\<lambda>(schedule, pa, ns, rs, dc, i, e, leg).
        sch_size schedule - 1 - i)")
     auto

text \<open>The first period (lines 46-68), run on the empty leg.\<close>

definition FixedRate_first_period ::
  "DateArith \<Rightarrow> Schedule \<Rightarrow> BusinessDayConvention \<Rightarrow> Real list \<Rightarrow> Real list
   \<Rightarrow> DayCounter \<Rightarrow> DayCounter \<Rightarrow> Leg \<Rightarrow> (Date \<times> Leg) result" where
  "FixedRate_first_period ar schedule paymentAdjustment nominals couponRates dayCount
       firstPeriodDayCount leg =
     (let calendar = sch_calendar schedule in
      case date schedule 0 of Inl e \<Rightarrow> Inl (e, leg) | Inr start \<Rightarrow>
     (case date schedule 1 of Inl e \<Rightarrow> Inl (e, leg) | Inr end \<Rightarrow>
      let paymentDate = adjust calendar end paymentAdjustment;
          rate = couponRates ! 0;
          nominal = nominals ! 0
      in
     (case isRegular schedule 1 of Inl e \<Rightarrow> Inl (e, leg) | Inr regular \<Rightarrow>
      if regular then
        (if dc_empty firstPeriodDayCount \<or> firstPeriodDayCount = dayCount then
           Inr (end, leg @ [FixedRateCoupon
             \<lparr>frc_nominal = nominal, frc_paymentDate = paymentDate,
              frc_rate = rate, frc_dayCounter = dayCount,
              frc_accrualStartDate = start, frc_accrualEndDate = end,
              frc_refPeriodStart = start, frc_refPeriodEnd = end\<rparr>])
         else Inl (Error
           ''regular first coupon does not allow a first-period day count'', leg))
      else
        (let reference = minus_period ar end (sch_tenor schedule);
             reference = adjust calendar reference
                           (sch_businessDayConvention schedule);
             dc = (if dc_empty firstPeriodDayCount then dayCount
                   else firstPeriodDayCount)
         in Inr (end, leg @ [FixedRateCoupon
             \<lparr>frc_nominal = nominal, frc_paymentDate = paymentDate,
              frc_rate = rate, frc_dayCounter = dc,
              frc_accrualStartDate = start, frc_accrualEndDate = end,
              frc_refPeriodStart = reference, frc_refPeriodEnd = end\<rparr>])))))"

text \<open>The last period (lines 85-112).\<close>

definition FixedRate_last_period ::
  "DateArith \<Rightarrow> Schedule \<Rightarrow> BusinessDayConvention \<Rightarrow> Real list \<Rightarrow> Real list
   \<Rightarrow> DayCounter \<Rightarrow> Date \<Rightarrow> Leg \<Rightarrow> Leg result" where
  "FixedRate_last_period ar schedule paymentAdjustment nominals couponRates dayCount
       end leg =
     (if sch_size schedule > 2 then
        (let calendar = sch_calendar schedule;
             N = sch_size schedule;
             start = end in
         case date schedule (N - 1) of Inl e \<Rightarrow> Inl (e, leg) | Inr end \<Rightarrow>
         let paymentDate = adjust calendar end paymentAdjustment;
             rate = (if N - 2 < length couponRates then couponRates ! (N - 2)
                     else last couponRates);
             nominal = (if N - 2 < length nominals then nominals ! (N - 2)
                        else last nominals)
         in
        (case isRegular schedule (N - 1) of Inl e \<Rightarrow> Inl (e, leg) | Inr regular \<Rightarrow>
         if regular then
           Inr (leg @ [FixedRateCoupon
             \<lparr>frc_nominal = nominal, frc_paymentDate = paymentDate,
              frc_rate = rate, frc_dayCounter = dayCount,
              frc_accrualStartDate = start, frc_accrualEndDate = end,
              frc_refPeriodStart = start, frc_refPeriodEnd = end\<rparr>])
         else
           (let reference = plus_period ar start (sch_tenor schedule);
                reference = adjust calendar reference
                              (sch_businessDayConvention schedule)
            in Inr (leg @ [FixedRateCoupon
             \<lparr>frc_nominal = nominal, frc_paymentDate = paymentDate,
              frc_rate = rate, frc_dayCounter = dayCount,
              frc_accrualStartDate = start, frc_accrualEndDate = end,
              frc_refPeriodStart = start, frc_refPeriodEnd = reference\<rparr>]))))
      else Inr leg)"

definition FixedRateCouponVector ::
  "DateArith \<Rightarrow> Schedule \<Rightarrow> BusinessDayConvention \<Rightarrow> Real list \<Rightarrow> Real list
   \<Rightarrow> DayCounter \<Rightarrow> DayCounter \<Rightarrow> Leg result" where
  "FixedRateCouponVector ar schedule paymentAdjustment nominals couponRates dayCount
       firstPeriodDayCount =
     (if couponRates = [] then Inl (Error ''coupon rates not specified'', [])
      else if nominals = [] then Inl (Error ''nominals not specified'', [])
      else
        case FixedRate_first_period ar schedule paymentAdjustment nominals couponRates
               dayCount firstPeriodDayCount []
        of Inl f \<Rightarrow> Inl f | Inr (end, leg) \<Rightarrow>
       (case FixedRate_regular_periods schedule paymentAdjustment nominals couponRates
               dayCount 2 end leg
        of Inl f \<Rightarrow> Inl f | Inr (end, leg) \<Rightarrow>
        FixedRate_last_period ar schedule paymentAdjustment nominals couponRates
          dayCount end leg))"

subsection \<open>CMS coupons\<close>

text \<open>
  Modelled from the spec: \<open>Null<Real>()\<close> is the sentinel for an unset cap, floor
  or mean reversion; its declaration is outside the file.  The value is the one the
  library uses (the largest \<open>float\<close>); nothing below depends on which number it is.
\<close>

definition Null_Real :: Real where
  "Null_Real = 340282346638528859811704183484516925440"

text \<open>
  Modelled from the spec: the constructor of \<open>CMSCoupon\<close> is declared outside the
  file.  Its last parameter is the in-arrears flag; \<open>CMSCouponVector\<close> and
  \<open>CMSZeroCouponVector\<close> omit it, and "the plain CMS builder leaves it unset", so
  the default is \<open>false\<close>.  A new coupon has no swaption volatility attached.
\<close>

definition CMSCoupon_default_isInArrears :: bool where
  "CMSCoupon_default_isInArrears = False"

definition new_CMSCoupon ::
  "Real \<Rightarrow> Date \<Rightarrow> SwapIndex \<Rightarrow> Date \<Rightarrow> Date \<Rightarrow> int \<Rightarrow> DayCounter
   \<Rightarrow> VanillaCMSCouponPricer \<Rightarrow> Real \<Rightarrow> Real \<Rightarrow> Real \<Rightarrow> Real \<Rightarrow> Real
   \<Rightarrow> Date \<Rightarrow> Date \<Rightarrow> bool \<Rightarrow> CashFlow" where
  "new_CMSCoupon nominal paymentDate index startDate endDate fixingDays dayCounter
       pricer gearing spread capRate floorRate meanReversion refPeriodStart refPeriodEnd
       isInArrears =
     CMSCoupon
       \<lparr>cms_nominal = nominal, cms_paymentDate = paymentDate, cms_index = index,
        cms_startDate = startDate, cms_endDate = endDate,
        cms_fixingDays = fixingDays, cms_dayCounter = dayCounter,
        cms_pricer = pricer, cms_gearing = gearing, cms_spread = spread,
        cms_cap = capRate, cms_floor = floorRate, cms_meanReversion = meanReversion,
        cms_refPeriodStart = refPeriodStart, cms_refPeriodEnd = refPeriodEnd,
        cms_isInArrears = isInArrears, cms_swaptionVol = []\<rparr>"

definition setSwaptionVolatility ::
  "CMSCoupon \<Rightarrow> SwaptionVolatilityHandle \<Rightarrow> CMSCoupon" where
  "setSwaptionVolatility c vol = c\<lparr>cms_swaptionVol := vol # cms_swaptionVol c\<rparr>"

text \<open>
  The attachment loop that ends each CMS builder (lines 259-266, 364-371, 473-480,
  the same text three times).  \<open>dynamic_pointer_cast<CMSCoupon>\<close> succeeds on a
  \<open>CMSCoupon\<close> and gives a null pointer on any other cash flow.  Every element of
  the leg is a pointer to an object of its own (each \<open>push_back\<close> has its own
  \<open>new\<close>), so updating the object behind \<open>leg[i]\<close> changes that element only.
\<close>

function attach_swaptionVolatility ::
  "Leg \<Rightarrow> SwaptionVolatilityHandle \<Rightarrow> Size \<Rightarrow> Leg result" where
  "attach_swaptionVolatility leg vol i =
     (if i < length leg then
        (case leg ! i of
           CMSCoupon cmsCoupon \<Rightarrow>
             attach_swaptionVolatility
               (leg[i := CMSCoupon (setSwaptionVolatility cmsCoupon vol)]) vol (i + 1)
         | FixedRateCoupon c \<Rightarrow>
             Inl (Error ''unexpected error when casting to CMSCoupon'', leg))
      else Inr leg)"
  by pat_completeness auto
termination
  by (relation "measure (\<lambda>(leg, vol, i). length leg - i)") auto

subsection \<open>\<open>CMSCouponVector\<close> (lines 164-269)\<close>

function CMS_regular_periods ::
  "Schedule \<Rightarrow> BusinessDayConvention \<Rightarrow> Real list
   \<Rightarrow> SwapIndex \<Rightarrow> int \<Rightarrow> DayCounter
   \<Rightarrow> Real list \<Rightarrow> Real list \<Rightarrow> Real list \<Rightarrow> Real list \<Rightarrow> Real list
   \<Rightarrow> VanillaCMSCouponPricer
   \<Rightarrow> Size \<Rightarrow> Date \<Rightarrow> Leg \<Rightarrow> (Date \<times> Leg) result" where
  "CMS_regular_periods schedule paymentAdjustment nominals index settlementDays dayCounter
      gearings spreads caps floors meanReversions pricer
       i end leg =
     (if i < sch_size schedule - 1 then
        (case date schedule i of
           Inl e \<Rightarrow> Inl (e, leg)
         | Inr d \<Rightarrow>
            (let start = end;
                 end = d;
                 paymentDate = adjust (sch_calendar schedule) end paymentAdjustment
             in CMS_regular_periods schedule paymentAdjustment nominals index
                 settlementDays dayCounter gearings spreads caps floors meanReversions
                 pricer
                  (i + 1) end
                  (leg @ [new_CMSCoupon (get nominals (i - 1) Null_Real) paymentDate index
                            start end settlementDays dayCounter pricer
                            (get gearings (i - 1) 1.0) (get spreads (i - 1) 0.0)
                            (get caps (i - 1) Null_Real) (get floors (i - 1) Null_Real)
                            (get meanReversions (i - 1) Null_Real)
                            start end CMSCoupon_default_isInArrears])))
      else Inr (end, leg))"
  by pat_completeness auto
termination
  by (relation "measure (\<lambda>(schedule, pa, ns, ix, lag, dc, gs, ss, cs, fs, ms, pr, i, e, leg).
        sch_size schedule - 1 - i)")
     auto

definition CMS_first_period ::
  "DateArith \<Rightarrow> Schedule \<Rightarrow> BusinessDayConvention \<Rightarrow> Real list
   \<Rightarrow> SwapIndex \<Rightarrow> int \<Rightarrow> DayCounter
   \<Rightarrow> Real list \<Rightarrow> Real list \<Rightarrow> Real list \<Rightarrow> Real list \<Rightarrow> Real list
   \<Rightarrow> VanillaCMSCouponPricer
   \<Rightarrow> Leg \<Rightarrow> (Date \<times> Leg) result" where
  "CMS_first_period ar schedule paymentAdjustment nominals index settlementDays dayCounter
      gearings spreads caps floors meanReversions pricer leg =
     (let calendar = sch_calendar schedule in
      case date schedule 0 of Inl e \<Rightarrow> Inl (e, leg) | Inr start \<Rightarrow>
     (case date schedule 1 of Inl e \<Rightarrow> Inl (e, leg) | Inr end \<Rightarrow>
      let paymentDate = adjust calendar end paymentAdjustment in
     (case isRegular schedule 1 of Inl e \<Rightarrow> Inl (e, leg) | Inr regular \<Rightarrow>
      if regular then
        Inr (end, leg @ [new_CMSCoupon (get nominals 0 Null_Real) paymentDate index
                           start end settlementDays dayCounter pricer
                           (get gearings 0 1.0) (get spreads 0 0.0)
                           (get caps 0 Null_Real) (get floors 0 Null_Real)
                           (get meanReversions 0 Null_Real)
                           start end CMSCoupon_default_isInArrears])
      else
        (let reference = minus_period ar end (sch_tenor schedule);
             reference = adjust calendar reference paymentAdjustment
         in Inr (end, leg @ [new_CMSCoupon (get nominals 0 Null_Real) paymentDate index
                              start end settlementDays dayCounter pricer
                              (get gearings 0 1.0) (get spreads 0 0.0)
                              (get caps 0 Null_Real) (get floors 0 Null_Real)
                              (get meanReversions 0 Null_Real)
                              reference end CMSCoupon_default_isInArrears])))))"

definition CMS_last_period ::
  "DateArith \<Rightarrow> Schedule \<Rightarrow> BusinessDayConvention \<Rightarrow> Real list
   \<Rightarrow> SwapIndex \<Rightarrow> int \<Rightarrow> DayCounter
   \<Rightarrow> Real list \<Rightarrow> Real list \<Rightarrow> Real list \<Rightarrow> Real list \<Rightarrow> Real list
   \<Rightarrow> VanillaCMSCouponPricer
   \<Rightarrow> Size \<Rightarrow> Date \<Rightarrow> Leg \<Rightarrow> Leg result" where
  "CMS_last_period ar schedule paymentAdjustment nominals index settlementDays dayCounter
      gearings spreads caps floors meanReversions pricer N end leg =
     (if sch_size schedule > 2 then
        (let calendar = sch_calendar schedule;
             start = end in
         case date schedule (N - 1) of Inl e \<Rightarrow> Inl (e, leg) | Inr end \<Rightarrow>
         let paymentDate = adjust calendar end paymentAdjustment in
        (case isRegular schedule (N - 1) of Inl e \<Rightarrow> Inl (e, leg) | Inr regular \<Rightarrow>
         if regular then
           Inr (leg @ [new_CMSCoupon (get nominals (N - 2) Null_Real) paymentDate index
                         start end settlementDays dayCounter pricer
                         (get gearings (N - 2) 1.0) (get spreads (N - 2) 0.0)
                         (get caps (N - 2) Null_Real) (get floors (N - 2) Null_Real)
                         (get meanReversions (N - 2) Null_Real)
                         start end CMSCoupon_default_isInArrears])
         else
           (let reference = plus_period ar start (sch_tenor schedule);
                reference = adjust calendar reference paymentAdjustment
            in Inr (leg @ [new_CMSCoupon (get nominals (N - 2) Null_Real) paymentDate index
                            start end settlementDays dayCounter pricer
                            (get gearings (N - 2) 1.0) (get spreads (N - 2) 0.0)
                            (get caps (N - 2) Null_Real) (get floors (N - 2) Null_Real)
                            (get meanReversions (N - 2) Null_Real)
                            start reference CMSCoupon_default_isInArrears]))))
      else Inr leg)"

definition CMSCouponVector ::
  "DateArith \<Rightarrow> Schedule \<Rightarrow> BusinessDayConvention \<Rightarrow> Real list
   \<Rightarrow> SwapIndex \<Rightarrow> int \<Rightarrow> DayCounter
   \<Rightarrow> Real list \<Rightarrow> Real list \<Rightarrow> Real list \<Rightarrow> Real list \<Rightarrow> Real list
   \<Rightarrow> VanillaCMSCouponPricer
   \<Rightarrow> SwaptionVolatilityHandle \<Rightarrow> Leg result" where
  "CMSCouponVector ar schedule paymentAdjustment nominals index settlementDays dayCounter
      gearings spreads caps floors meanReversions pricer vol =
     (let N = sch_size schedule in
      if nominals = [] then Inl (Error ''no nominal given'', [])
      else
        case CMS_first_period ar schedule paymentAdjustment nominals index settlementDays
            dayCounter gearings spreads caps floors meanReversions pricer []
        of Inl f \<Rightarrow> Inl f | Inr (end, leg) \<Rightarrow>
       (case CMS_regular_periods schedule paymentAdjustment nominals index settlementDays
           dayCounter gearings spreads caps floors meanReversions pricer 2 end leg
        of Inl f \<Rightarrow> Inl f | Inr (end, leg) \<Rightarrow>
       (case CMS_last_period ar schedule paymentAdjustment nominals index settlementDays
           dayCounter gearings spreads caps floors meanReversions pricer N end leg
        of Inl f \<Rightarrow> Inl f | Inr leg \<Rightarrow>
        attach_swaptionVolatility leg vol 0)))"

subsection \<open>\<open>CMSZeroCouponVector\<close> (lines 271-374)\<close>

text \<open>
  The payment date is computed once, from \<open>schedule.date(N-1)\<close>, before the first
  period, and passed to the three stages.  On an empty schedule \<open>N-1\<close> wraps around
  in the source and is 0 here; \<open>date\<close> is out of range in both cases.
\<close>

function CMSZero_regular_periods ::
  "Schedule \<Rightarrow> BusinessDayConvention \<Rightarrow> Date \<Rightarrow> Real list
   \<Rightarrow> SwapIndex \<Rightarrow> int \<Rightarrow> DayCounter
   \<Rightarrow> Real list \<Rightarrow> Real list \<Rightarrow> Real list \<Rightarrow> Real list \<Rightarrow> Real list
   \<Rightarrow> VanillaCMSCouponPricer
   \<Rightarrow> Size \<Rightarrow> Date \<Rightarrow> Leg \<Rightarrow> (Date \<times> Leg) result" where
  "CMSZero_regular_periods schedule paymentAdjustment paymentDate nominals index fixingDays
      dayCounter gearings spreads caps floors meanReversions pricer
       i end leg =
     (if i < sch_size schedule - 1 then
        (case date schedule i of
           Inl e \<Rightarrow> Inl (e, leg)
         | Inr d \<Rightarrow>
            (let start = end;
                 end = d
             in CMSZero_regular_periods schedule paymentAdjustment paymentDate nominals
                 index fixingDays dayCounter gearings spreads caps floors meanReversions
                 pricer
                  (i + 1) end
                  (leg @ [new_CMSCoupon (get nominals (i - 1) Null_Real) paymentDate index
                            start end fixingDays dayCounter pricer
                            (get gearings (i - 1) 1.0) (get spreads (i - 1) 0.0)
                            (get caps (i - 1) Null_Real) (get floors (i - 1) Null_Real)
                            (get meanReversions (i - 1) Null_Real)
                            start end CMSCoupon_default_isInArrears])))
      else Inr (end, leg))"
  by pat_completeness auto
termination
  by (relation "measure (\<lambda>(schedule, pa, pd, ns, ix, lag, dc, gs, ss, cs, fs, ms, pr, i, e, leg).
        sch_size schedule - 1 - i)")
     auto

definition CMSZero_first_period ::
  "DateArith \<Rightarrow> Schedule \<Rightarrow> BusinessDayConvention \<Rightarrow> Date \<Rightarrow> Real list
   \<Rightarrow> SwapIndex \<Rightarrow> int \<Rightarrow> DayCounter
   \<Rightarrow> Real list \<Rightarrow> Real list \<Rightarrow> Real list \<Rightarrow> Real list \<Rightarrow> Real list
   \<Rightarrow> VanillaCMSCouponPricer
   \<Rightarrow> Leg \<Rightarrow> (Date \<times> Leg) result" where
  "CMSZero_first_period ar schedule paymentAdjustment paymentDate nominals index fixingDays
      dayCounter gearings spreads caps floors meanReversions pricer leg =
     (let calendar = sch_calendar schedule in
      case date schedule 0 of Inl e \<Rightarrow> Inl (e, leg) | Inr start \<Rightarrow>
     (case date schedule 1 of Inl e \<Rightarrow> Inl (e, leg) | Inr end \<Rightarrow>
     (case isRegular schedule 1 of Inl e \<Rightarrow> Inl (e, leg) | Inr regular \<Rightarrow>
      if regular then
        Inr (end, leg @ [new_CMSCoupon (get nominals 0 Null_Real) paymentDate index
                           start end fixingDays dayCounter pricer
                           (get gearings 0 1.0) (get spreads 0 0.0)
                           (get caps 0 Null_Real) (get floors 0 Null_Real)
                           (get meanReversions 0 Null_Real)
                           start end CMSCoupon_default_isInArrears])
      else
        (let reference = minus_period ar end (sch_tenor schedule);
             reference = adjust calendar reference paymentAdjustment
         in Inr (end, leg @ [new_CMSCoupon (get nominals 0 Null_Real) paymentDate index
                              start end fixingDays dayCounter pricer
                              (get gearings 0 1.0) (get spreads 0 0.0)
                              (get caps 0 Null_Real) (get floors 0 Null_Real)
                              (get meanReversions 0 Null_Real)
                              reference end CMSCoupon_default_isInArrears])))))"

definition CMSZero_last_period ::
  "DateArith \<Rightarrow> Schedule \<Rightarrow> BusinessDayConvention \<Rightarrow> Date \<Rightarrow> Real list
   \<Rightarrow> SwapIndex \<Rightarrow> int \<Rightarrow> DayCounter
   \<Rightarrow> Real list \<Rightarrow> Real list \<Rightarrow> Real list \<Rightarrow> Real list \<Rightarrow> Real list
   \<Rightarrow> VanillaCMSCouponPricer
   \<Rightarrow> Size \<Rightarrow> Date \<Rightarrow> Leg \<Rightarrow> Leg result" where
  "CMSZero_last_period ar schedule paymentAdjustment paymentDate nominals index fixingDays
      dayCounter gearings spreads caps floors meanReversions pricer N end leg =
     (if sch_size schedule > 2 then
        (let calendar = sch_calendar schedule;
             start = end in
         case date schedule (N - 1) of Inl e \<Rightarrow> Inl (e, leg) | Inr end \<Rightarrow>
        (case isRegular schedule (N - 1) of Inl e \<Rightarrow> Inl (e, leg) | Inr regular \<Rightarrow>
         if regular then
           Inr (leg @ [new_CMSCoupon (get nominals (N - 2) Null_Real) paymentDate index
                         start end fixingDays dayCounter pricer
                         (get gearings (N - 2) 1.0) (get spreads (N - 2) 0.0)
                         (get caps (N - 2) Null_Real) (get floors (N - 2) Null_Real)
                         (get meanReversions (N - 2) Null_Real)
                         start end CMSCoupon_default_isInArrears])
         else
           (let reference = plus_period ar start (sch_tenor schedule);
                reference = adjust calendar reference paymentAdjustment
            in Inr (leg @ [new_CMSCoupon (get nominals (N - 2) Null_Real) paymentDate index
                            start end fixingDays dayCounter pricer
                            (get gearings (N - 2) 1.0) (get spreads (N - 2) 0.0)
                            (get caps (N - 2) Null_Real) (get floors (N - 2) Null_Real)
                            (get meanReversions (N - 2) Null_Real)
                            start reference CMSCoupon_default_isInArrears]))))
      else Inr leg)"

definition CMSZeroCouponVector ::
  "DateArith \<Rightarrow> Schedule \<Rightarrow> BusinessDayConvention \<Rightarrow> Real list
   \<Rightarrow> SwapIndex \<Rightarrow> int \<Rightarrow> DayCounter
   \<Rightarrow> Real list \<Rightarrow> Real list \<Rightarrow> Real list \<Rightarrow> Real list \<Rightarrow> Real list
   \<Rightarrow> VanillaCMSCouponPricer
   \<Rightarrow> SwaptionVolatilityHandle \<Rightarrow> Leg result" where
  "CMSZeroCouponVector ar schedule paymentAdjustment nominals index fixingDays dayCounter
      gearings spreads caps floors meanReversions pricer vol =
     (let N = sch_size schedule in
      if nominals = [] then Inl (Error ''no nominal given'', [])
      else
        case date schedule (N - 1) of Inl e \<Rightarrow> Inl (e, []) | Inr d \<Rightarrow>
        let paymentDate = adjust (sch_calendar schedule) d paymentAdjustment in
       (case CMSZero_first_period ar schedule paymentAdjustment paymentDate nominals index
           fixingDays dayCounter gearings spreads caps floors meanReversions pricer []
        of Inl f \<Rightarrow> Inl f | Inr (end, leg) \<Rightarrow>
       (case CMSZero_regular_periods schedule paymentAdjustment paymentDate nominals index
           fixingDays dayCounter gearings spreads caps floors meanReversions pricer 2 end
           leg
        of Inl f \<Rightarrow> Inl f | Inr (end, leg) \<Rightarrow>
       (case CMSZero_last_period ar schedule paymentAdjustment paymentDate nominals index
           fixingDays dayCounter gearings spreads caps floors meanReversions pricer N end
           leg
        of Inl f \<Rightarrow> Inl f | Inr leg \<Rightarrow>
        attach_swaptionVolatility leg vol 0))))"

subsection \<open>\<open>CMSInArrearsCouponVector\<close> (lines 378-483)\<close>

function CMSInArrears_regular_periods ::
  "Schedule \<Rightarrow> BusinessDayConvention \<Rightarrow> Real list
   \<Rightarrow> SwapIndex \<Rightarrow> int \<Rightarrow> DayCounter
   \<Rightarrow> Real list \<Rightarrow> Real list \<Rightarrow> Real list \<Rightarrow> Real list \<Rightarrow> Real list
   \<Rightarrow> VanillaCMSCouponPricer
   \<Rightarrow> Size \<Rightarrow> Date \<Rightarrow> Leg \<Rightarrow> (Date \<times> Leg) result" where
  "CMSInArrears_regular_periods schedule paymentAdjustment nominals index fixingDays
      dayCounter gearings spreads caps floors meanReversions pricer
       i end leg =
     (if i < sch_size schedule - 1 then
        (case date schedule i of
           Inl e \<Rightarrow> Inl (e, leg)
         | Inr d \<Rightarrow>
            (let start = end;
                 end = d;
                 paymentDate = adjust (sch_calendar schedule) end paymentAdjustment
             in CMSInArrears_regular_periods schedule paymentAdjustment nominals index
                 fixingDays dayCounter gearings spreads caps floors meanReversions pricer
                  (i + 1) end
                  (leg @ [new_CMSCoupon (get nominals (i - 1) Null_Real) paymentDate index
                            start end fixingDays dayCounter pricer
                            (get gearings (i - 1) 1.0) (get spreads (i - 1) 0.0)
                            (get caps (i - 1) Null_Real) (get floors (i - 1) Null_Real)
                            (get meanReversions (i - 1) Null_Real)
                            start end True])))
      else Inr (end, leg))"
  by pat_completeness auto
termination
  by (relation "measure (\<lambda>(schedule, pa, ns, ix, lag, dc, gs, ss, cs, fs, ms, pr, i, e, leg).
        sch_size schedule - 1 - i)")
     auto

definition CMSInArrears_first_period ::
  "DateArith \<Rightarrow> Schedule \<Rightarrow> BusinessDayConvention \<Rightarrow> Real list
   \<Rightarrow> SwapIndex \<Rightarrow> int \<Rightarrow> DayCounter
   \<Rightarrow> Real list \<Rightarrow> Real list \<Rightarrow> Real list \<Rightarrow> Real list \<Rightarrow> Real list
   \<Rightarrow> VanillaCMSCouponPricer
   \<Rightarrow> Leg \<Rightarrow> (Date \<times> Leg) result" where
  "CMSInArrears_first_period ar schedule paymentAdjustment nominals index fixingDays
      dayCounter gearings spreads caps floors meanReversions pricer leg =
     (let calendar = sch_calendar schedule in
      case date schedule 0 of Inl e \<Rightarrow> Inl (e, leg) | Inr start \<Rightarrow>
     (case date schedule 1 of Inl e \<Rightarrow> Inl (e, leg) | Inr end \<Rightarrow>
      let paymentDate = adjust calendar end paymentAdjustment in
     (case isRegular schedule 1 of Inl e \<Rightarrow> Inl (e, leg) | Inr regular \<Rightarrow>
      if regular then
        Inr (end, leg @ [new_CMSCoupon (get nominals 0 Null_Real) paymentDate index
                           start end fixingDays dayCounter pricer
                           (get gearings 0 1.0) (get spreads 0 0.0)
                           (get caps 0 Null_Real) (get floors 0 Null_Real)
                           (get meanReversions 0 Null_Real)
                           start end True])
      else
        (let reference = minus_period ar end (sch_tenor schedule);
             reference = adjust calendar reference paymentAdjustment
         in Inr (end, leg @ [new_CMSCoupon (get nominals 0 Null_Real) paymentDate index
                              start end fixingDays dayCounter pricer
                              (get gearings 0 1.0) (get spreads 0 0.0)
                              (get caps 0 Null_Real) (get floors 0 Null_Real)
                              (get meanReversions 0 Null_Real)
                              reference end True])))))"

definition CMSInArrears_last_period ::
  "DateArith \<Rightarrow> Schedule \<Rightarrow> BusinessDayConvention \<Rightarrow> Real list
   \<Rightarrow> SwapIndex \<Rightarrow> int \<Rightarrow> DayCounter
   \<Rightarrow> Real list \<Rightarrow> Real list \<Rightarrow> Real list \<Rightarrow> Real list \<Rightarrow> Real list
   \<Rightarrow> VanillaCMSCouponPricer
   \<Rightarrow> Size \<Rightarrow> Date \<Rightarrow> Leg \<Rightarrow> Leg result" where
  "CMSInArrears_last_period ar schedule paymentAdjustment nominals index fixingDays
      dayCounter gearings spreads caps floors meanReversions pricer N end leg =
     (if sch_size schedule > 2 then
        (let calendar = sch_calendar schedule;
             start = end in
         case date schedule (N - 1) of Inl e \<Rightarrow> Inl (e, leg) | Inr end \<Rightarrow>
         let paymentDate = adjust calendar end paymentAdjustment in
        (case isRegular schedule (N - 1) of Inl e \<Rightarrow> Inl (e, leg) | Inr regular \<Rightarrow>
         if regular then
           Inr (leg @ [new_CMSCoupon (get nominals (N - 2) Null_Real) paymentDate index
                         start end fixingDays dayCounter pricer
                         (get gearings (N - 2) 1.0) (get spreads (N - 2) 0.0)
                         (get caps (N - 2) Null_Real) (get floors (N - 2) Null_Real)
                         (get meanReversions (N - 2) Null_Real)
                         start end True])
         else
           (let reference = plus_period ar start (sch_tenor schedule);
                reference = adjust calendar reference paymentAdjustment
            in Inr (leg @ [new_CMSCoupon (get nominals (N - 2) Null_Real) paymentDate index
                            start end fixingDays dayCounter pricer
                            (get gearings (N - 2) 1.0) (get spreads (N - 2) 0.0)
                            (get caps (N - 2) Null_Real) (get floors (N - 2) Null_Real)
                            (get meanReversions (N - 2) Null_Real)
                            start reference True]))))
      else Inr leg)"

definition CMSInArrearsCouponVector ::
  "DateArith \<Rightarrow> Schedule \<Rightarrow> BusinessDayConvention \<Rightarrow> Real list
   \<Rightarrow> SwapIndex \<Rightarrow> int \<Rightarrow> DayCounter
   \<Rightarrow> Real list \<Rightarrow> Real list \<Rightarrow> Real list \<Rightarrow> Real list \<Rightarrow> Real list
   \<Rightarrow> VanillaCMSCouponPricer
   \<Rightarrow> SwaptionVolatilityHandle \<Rightarrow> Leg result" where
  "CMSInArrearsCouponVector ar schedule paymentAdjustment nominals index fixingDays
      dayCounter gearings spreads caps floors meanReversions pricer vol =
     (let N = sch_size schedule in
      if nominals = [] then Inl (Error ''no nominal given'', [])
      else
        case CMSInArrears_first_period ar schedule paymentAdjustment nominals index
            fixingDays dayCounter gearings spreads caps floors meanReversions pricer []
        of Inl f \<Rightarrow> Inl f | Inr (end, leg) \<Rightarrow>
       (case CMSInArrears_regular_periods schedule paymentAdjustment nominals index
           fixingDays dayCounter gearings spreads caps floors meanReversions pricer 2 end
           leg
        of Inl f \<Rightarrow> Inl f | Inr (end, leg) \<Rightarrow>
       (case CMSInArrears_last_period ar schedule paymentAdjustment nominals index
           fixingDays dayCounter gearings spreads caps floors meanReversions pricer N end
           leg
        of Inl f \<Rightarrow> Inl f | Inr leg \<Rightarrow>
        attach_swaptionVolatility leg vol 0)))"

section \<open>The period sequencer, in closed form\<close>

text \<open>
  A schedule the builders are meant for: at least two dates, and one regularity flag
  for each period.  Nothing below needs the dates to be increasing.
\<close>

definition well_formed :: "Schedule \<Rightarrow> bool" where
  "well_formed schedule =
     (2 \<le> length (sch_dates schedule) \<and>
      length (sch_isRegular schedule) = length (sch_dates schedule) - 1)"

text \<open>
  The coupon of period \<open>j\<close> (0-based) as the specification describes it: accrual
  from \<open>date[j]\<close> to \<open>date[j+1]\<close>, parameters broadcast at index \<open>j\<close>, a reference
  start moved on an irregular first period, a reference end moved on an irregular
  last period of a schedule with more than two dates.
\<close>

definition first_stub :: "Schedule \<Rightarrow> nat \<Rightarrow> bool" where
  "first_stub schedule j = (j = 0 \<and> \<not> sch_isRegular schedule ! 0)"

definition last_stub :: "Schedule \<Rightarrow> nat \<Rightarrow> bool" where
  "last_stub schedule j =
     (0 < j \<and> j = length (sch_dates schedule) - 2 \<and> \<not> sch_isRegular schedule ! j)"

definition spec_refStart ::
  "DateArith \<Rightarrow> Schedule \<Rightarrow> BusinessDayConvention \<Rightarrow> nat \<Rightarrow> Date" where
  "spec_refStart ar schedule convention j =
     (if first_stub schedule j
      then adjust (sch_calendar schedule)
             (minus_period ar (sch_dates schedule ! 1) (sch_tenor schedule)) convention
      else sch_dates schedule ! j)"

definition spec_refEnd ::
  "DateArith \<Rightarrow> Schedule \<Rightarrow> BusinessDayConvention \<Rightarrow> nat \<Rightarrow> Date" where
  "spec_refEnd ar schedule convention j =
     (if last_stub schedule j
      then adjust (sch_calendar schedule)
             (plus_period ar (sch_dates schedule ! j) (sch_tenor schedule)) convention
      else sch_dates schedule ! (j + 1))"

definition spec_FixedRate_coupon ::
  "DateArith \<Rightarrow> Schedule \<Rightarrow> BusinessDayConvention \<Rightarrow> Real list \<Rightarrow> Real list
   \<Rightarrow> DayCounter \<Rightarrow> DayCounter \<Rightarrow> nat \<Rightarrow> CashFlow" where
  "spec_FixedRate_coupon ar schedule paymentAdjustment nominals couponRates dayCount
       firstPeriodDayCount j =
     FixedRateCoupon
       \<lparr>frc_nominal = get nominals j 0,
        frc_paymentDate =
          adjust (sch_calendar schedule) (sch_dates schedule ! (j + 1)) paymentAdjustment,
        frc_rate = get couponRates j 0,
        frc_dayCounter =
          (if first_stub schedule j \<and> \<not> dc_empty firstPeriodDayCount
           then firstPeriodDayCount else dayCount),
        frc_accrualStartDate = sch_dates schedule ! j,
        frc_accrualEndDate = sch_dates schedule ! (j + 1),
        frc_refPeriodStart =
          spec_refStart ar schedule (sch_businessDayConvention schedule) j,
        frc_refPeriodEnd =
          spec_refEnd ar schedule (sch_businessDayConvention schedule) j\<rparr>"

text \<open>
  The CMS coupon of period \<open>j\<close>.  \<open>zero\<close> selects the payment date of the
  zero-coupon variant (the adjusted final schedule date), \<open>arrears\<close> is the value of
  the in-arrears flag and \<open>vols\<close> the handles attached to the coupon.
\<close>

definition spec_CMS_coupon ::
  "DateArith \<Rightarrow> Schedule \<Rightarrow> BusinessDayConvention \<Rightarrow> Real list \<Rightarrow> SwapIndex \<Rightarrow> int
   \<Rightarrow> DayCounter \<Rightarrow> Real list \<Rightarrow> Real list \<Rightarrow> Real list \<Rightarrow> Real list \<Rightarrow> Real list
   \<Rightarrow> VanillaCMSCouponPricer \<Rightarrow> bool \<Rightarrow> bool \<Rightarrow> SwaptionVolatilityHandle list
   \<Rightarrow> nat \<Rightarrow> CashFlow" where
  "spec_CMS_coupon ar schedule paymentAdjustment nominals index fixingDays dayCounter
       gearings spreads caps floors meanReversions pricer zero arrears vols j =
     CMSCoupon
       \<lparr>cms_nominal = get nominals j Null_Real,
        cms_paymentDate =
          adjust (sch_calendar schedule)
            (sch_dates schedule !
               (if zero then length (sch_dates schedule) - 1 else j + 1))
            paymentAdjustment,
        cms_index = index,
        cms_startDate = sch_dates schedule ! j,
        cms_endDate = sch_dates schedule ! (j + 1),
        cms_fixingDays = fixingDays, cms_dayCounter = dayCounter,
        cms_pricer = pricer,
        cms_gearing = get gearings j 1, cms_spread = get spreads j 0,
        cms_cap = get caps j Null_Real, cms_floor = get floors j Null_Real,
        cms_meanReversion = get meanReversions j Null_Real,
        cms_refPeriodStart = spec_refStart ar schedule paymentAdjustment j,
        cms_refPeriodEnd = spec_refEnd ar schedule paymentAdjustment j,
        cms_isInArrears = arrears, cms_swaptionVol = vols\<rparr>"

text \<open>One pass of the attachment loop over a cash flow that is a CMS coupon.\<close>

fun attached :: "SwaptionVolatilityHandle \<Rightarrow> CashFlow \<Rightarrow> CashFlow" where
  "attached vol (CMSCoupon c) = CMSCoupon (setSwaptionVolatility c vol)"
| "attached vol (FixedRateCoupon c) = FixedRateCoupon c"

fun is_CMSCoupon :: "CashFlow \<Rightarrow> bool" where
  "is_CMSCoupon (CMSCoupon c) = True"
| "is_CMSCoupon (FixedRateCoupon c) = False"

text \<open>
  A CMS coupon as its constructor leaves it (no volatility attached yet), and a CMS
  coupon to which the handle \<open>vol\<close> and nothing else has been attached, once.
\<close>

fun fresh_CMSCoupon :: "CashFlow \<Rightarrow> bool" where
  "fresh_CMSCoupon (CMSCoupon c) = (cms_swaptionVol c = [])"
| "fresh_CMSCoupon (FixedRateCoupon c) = False"

fun attached_once :: "SwaptionVolatilityHandle \<Rightarrow> CashFlow \<Rightarrow> bool" where
  "attached_once vol (CMSCoupon c) = (cms_swaptionVol c = [vol])"
| "attached_once vol (FixedRateCoupon c) = False"

definition cast_failure :: error where
  "cast_failure = Error ''unexpected error when casting to CMSCoupon''"

text \<open>
  What a stage of a CMS builder may do: fail with an error other than the cast
  failure, or hand on a leg of fresh CMS coupons.
\<close>

definition stage_pushes_CMSCoupons :: "(Date \<times> Leg) result \<Rightarrow> bool" where
  "stage_pushes_CMSCoupons r =
     (case r of
        Inl (e, l) \<Rightarrow> e \<noteq> cast_failure
      | Inr (d, leg) \<Rightarrow> list_all fresh_CMSCoupon leg)"

section \<open>Reading a cash flow\<close>

text \<open>
  The inspectors every coupon inherits from \<open>Coupon\<close>: \<open>nominal()\<close>, \<open>date()\<close> (the
  payment date), the accrual period and the reference period.
\<close>

fun cf_nominal :: "CashFlow \<Rightarrow> Real" where
  "cf_nominal (FixedRateCoupon c) = frc_nominal c"
| "cf_nominal (CMSCoupon c) = cms_nominal c"

fun cf_paymentDate :: "CashFlow \<Rightarrow> Date" where
  "cf_paymentDate (FixedRateCoupon c) = frc_paymentDate c"
| "cf_paymentDate (CMSCoupon c) = cms_paymentDate c"

fun cf_accrualStartDate :: "CashFlow \<Rightarrow> Date" where
  "cf_accrualStartDate (FixedRateCoupon c) = frc_accrualStartDate c"
| "cf_accrualStartDate (CMSCoupon c) = cms_startDate c"

fun cf_accrualEndDate :: "CashFlow \<Rightarrow> Date" where
  "cf_accrualEndDate (FixedRateCoupon c) = frc_accrualEndDate c"
| "cf_accrualEndDate (CMSCoupon c) = cms_endDate c"

fun cf_referencePeriodStart :: "CashFlow \<Rightarrow> Date" where
  "cf_referencePeriodStart (FixedRateCoupon c) = frc_refPeriodStart c"
| "cf_referencePeriodStart (CMSCoupon c) = cms_refPeriodStart c"

fun cf_referencePeriodEnd :: "CashFlow \<Rightarrow> Date" where
  "cf_referencePeriodEnd (FixedRateCoupon c) = frc_refPeriodEnd c"
| "cf_referencePeriodEnd (CMSCoupon c) = cms_refPeriodEnd c"

text \<open>
  The reference period of the coupon of period \<open>j\<close> as the specification words it,
  with the business-day convention used for the stub as a parameter: on an irregular
  first period the reference end is the accrual end and the reference start is the
  adjusted accrual end minus the tenor; on an irregular last period (of a schedule
  with more than two dates) the reference start is the accrual start and the
  reference end is the adjusted accrual start plus the tenor; everywhere else the
  reference period is the accrual period.
\<close>

definition reference_period_as_specified ::
  "DateArith \<Rightarrow> Schedule \<Rightarrow> BusinessDayConvention \<Rightarrow> nat \<Rightarrow> CashFlow \<Rightarrow> bool" where
  "reference_period_as_specified ar schedule convention j cf =
     (let N = length (sch_dates schedule);
          regular = sch_isRegular schedule ! j;
          accrualStart = cf_accrualStartDate cf;
          accrualEnd = cf_accrualEndDate cf;
          calendar = sch_calendar schedule;
          tenor = sch_tenor schedule
      in accrualStart = sch_dates schedule ! j \<and>
         accrualEnd = sch_dates schedule ! (j + 1) \<and>
         (if j = 0 then
            (if regular then
               cf_referencePeriodStart cf = accrualStart \<and>
               cf_referencePeriodEnd cf = accrualEnd
             else
               cf_referencePeriodEnd cf = accrualEnd \<and>
               cf_referencePeriodStart cf =
                 adjust calendar (minus_period ar accrualEnd tenor) convention)
          else if j = N - 2 then
            (if regular then
               cf_referencePeriodStart cf = accrualStart \<and>
               cf_referencePeriodEnd cf = accrualEnd
             else
               cf_referencePeriodStart cf = accrualStart \<and>
               cf_referencePeriodEnd cf =
                 adjust calendar (plus_period ar accrualStart tenor) convention)
          else
            cf_referencePeriodStart cf = accrualStart \<and>
            cf_referencePeriodEnd cf = accrualEnd))"

section \<open>Concrete inputs\<close>

text \<open>
  A calendar whose only holidays are weekends (serial numbers 5 and 6 modulo 7),
  date arithmetic with months of 30 days, and two schedules: one of five dates with a
  short first and a short last period, whose first reference date falls on a Saturday,
  and one of two dates with a regular period.
\<close>

definition weekend_adjust :: "Date \<Rightarrow> BusinessDayConvention \<Rightarrow> Date" where
  "weekend_adjust d c =
     (case c of
        Unadjusted \<Rightarrow> d
      | MonthEndReference \<Rightarrow> d
      | Following \<Rightarrow> (if d mod 7 = 5 then d + 2 else if d mod 7 = 6 then d + 1 else d)
      | ModifiedFollowing \<Rightarrow>
          (if d mod 7 = 5 then d + 2 else if d mod 7 = 6 then d + 1 else d)
      | Preceding \<Rightarrow> (if d mod 7 = 5 then d - 1 else if d mod 7 = 6 then d - 2 else d)
      | ModifiedPreceding \<Rightarrow>
          (if d mod 7 = 5 then d - 1 else if d mod 7 = 6 then d - 2 else d))"

definition weekend_calendar :: Calendar where
  "weekend_calendar = \<lparr>adjust = weekend_adjust\<rparr>"

fun period_days :: "Period \<Rightarrow> int" where
  "period_days (Period n Days) = n"
| "period_days (Period n Weeks) = 7 * n"
| "period_days (Period n Months) = 30 * n"
| "period_days (Period n Years) = 360 * n"

definition thirty_day_months :: DateArith where
  "thirty_day_months =
     \<lparr>plus_period = (\<lambda>d p. d + period_days p),
      minus_period = (\<lambda>d p. d - period_days p)\<rparr>"

definition stub_schedule :: Schedule where
  "stub_schedule =
     \<lparr>sch_dates = [40010, 40058, 40148, 40238, 40278],
      sch_isRegular = [False, True, True, False],
      sch_tenor = Period 3 Months,
      sch_calendar = weekend_calendar,
      sch_businessDayConvention = Following\<rparr>"

definition single_period_schedule :: Schedule where
  "single_period_schedule =
     \<lparr>sch_dates = [40058, 40148],
      sch_isRegular = [True],
      sch_tenor = Period 3 Months,
      sch_calendar = weekend_calendar,
      sch_businessDayConvention = Following\<rparr>"

section \<open>Properties\<close>

subsection \<open>\<open>FixedRateCouponVector\<close> builds the coupons of the specification\<close>

declare FixedRate_regular_periods.simps [simp del]

lemma date_in_range:
  "i < length (sch_dates schedule) \<Longrightarrow> date schedule i = Inr (sch_dates schedule ! i)"
  by (simp add: date_def)

lemma get_nonempty:
  "v \<noteq> [] \<Longrightarrow> get v i d = (if i < length v then v ! i else last v)"
  by (simp add: get_def)

lemma spec_FixedRate_middle:
  "0 < j \<Longrightarrow> j < length (sch_dates schedule) - 2 \<Longrightarrow> nominals \<noteq> [] \<Longrightarrow> couponRates \<noteq> [] \<Longrightarrow>
   spec_FixedRate_coupon ar schedule pa nominals couponRates dayCount fpdc j =
   FixedRateCoupon
     \<lparr>frc_nominal = (if j < length nominals then nominals ! j else last nominals),
      frc_paymentDate = adjust (sch_calendar schedule) (sch_dates schedule ! (j + 1)) pa,
      frc_rate = (if j < length couponRates then couponRates ! j else last couponRates),
      frc_dayCounter = dayCount,
      frc_accrualStartDate = sch_dates schedule ! j,
      frc_accrualEndDate = sch_dates schedule ! (j + 1),
      frc_refPeriodStart = sch_dates schedule ! j,
      frc_refPeriodEnd = sch_dates schedule ! (j + 1)\<rparr>"
  by (simp add: spec_FixedRate_coupon_def spec_refStart_def spec_refEnd_def
      first_stub_def last_stub_def get_nonempty)

lemma FixedRate_regular_periods_closed:
  assumes ne: "nominals \<noteq> []" "couponRates \<noteq> []"
  shows "Suc j + k = length (sch_dates schedule) - 1 \<Longrightarrow> 0 < j \<Longrightarrow>
    FixedRate_regular_periods schedule pa nominals couponRates dayCount (Suc j)
      (sch_dates schedule ! j) leg =
    Inr (sch_dates schedule ! (length (sch_dates schedule) - 2),
         leg @ map (spec_FixedRate_coupon ar schedule pa nominals couponRates dayCount fpdc)
                 [j ..< length (sch_dates schedule) - 2])"
proof (induction k arbitrary: j leg)
  case 0
  then have "\<not> Suc j < sch_size schedule - 1" "j = length (sch_dates schedule) - 2"
    by (simp_all add: sch_size_def)
  then show ?case
    by (subst FixedRate_regular_periods.simps) simp
next
  case (Suc k)
  let ?N = "length (sch_dates schedule)"
  from Suc.prems have lt: "Suc j < sch_size schedule - 1" and iN: "Suc j < ?N"
    and j: "0 < j" "j < ?N - 2"
    by (simp_all add: sch_size_def)
  have range: "[j ..< ?N - 2] = j # [Suc j ..< ?N - 2]"
    using j by (simp add: upt_conv_Cons)
  have step: "FixedRate_regular_periods schedule pa nominals couponRates dayCount (Suc j)
      (sch_dates schedule ! j) leg =
    FixedRate_regular_periods schedule pa nominals couponRates dayCount (Suc (Suc j))
      (sch_dates schedule ! Suc j)
      (leg @ [spec_FixedRate_coupon ar schedule pa nominals couponRates dayCount fpdc j])"
    using lt date_in_range [OF iN]
    by (subst FixedRate_regular_periods.simps)
       (simp add: Let_def spec_FixedRate_middle [OF j ne])
  show ?case
    using Suc.IH [of "Suc j" "leg @ [spec_FixedRate_coupon ar schedule pa nominals
        couponRates dayCount fpdc j]"] Suc.prems
    by (simp add: step range)
qed


lemma FixedRate_first_period_closed:
  assumes wf: "well_formed schedule" and ne: "nominals \<noteq> []" "couponRates \<noteq> []"
    and fp: "sch_isRegular schedule ! 0 \<longrightarrow> dc_empty fpdc \<or> fpdc = dayCount"
  shows "FixedRate_first_period ar schedule pa nominals couponRates dayCount fpdc [] =
    Inr (sch_dates schedule ! 1,
         [spec_FixedRate_coupon ar schedule pa nominals couponRates dayCount fpdc 0])"
proof -
  from wf have d0: "date schedule 0 = Inr (sch_dates schedule ! 0)"
    and d1: "date schedule 1 = Inr (sch_dates schedule ! 1)"
    and r1: "isRegular schedule 1 = Inr (sch_isRegular schedule ! 0)"
    by (auto simp add: well_formed_def date_def isRegular_def)
  show ?thesis
    using fp ne d0 d1 r1
    by (auto simp add: FixedRate_first_period_def Let_def
        spec_FixedRate_coupon_def spec_refStart_def spec_refEnd_def first_stub_def
        last_stub_def get_def)
qed

lemma FixedRate_last_period_closed:
  assumes wf: "well_formed schedule" and ne: "nominals \<noteq> []" "couponRates \<noteq> []"
    and N: "2 < length (sch_dates schedule)"
  shows "FixedRate_last_period ar schedule pa nominals couponRates dayCount
      (sch_dates schedule ! (length (sch_dates schedule) - 2)) leg =
    Inr (leg @ [spec_FixedRate_coupon ar schedule pa nominals couponRates dayCount fpdc
                  (length (sch_dates schedule) - 2)])"
proof -
  let ?N = "length (sch_dates schedule)"
  from wf N have dN: "date schedule (?N - 1) = Inr (sch_dates schedule ! (?N - 1))"
    and rN: "isRegular schedule (?N - 1) = Inr (sch_isRegular schedule ! (?N - 2))"
    by (auto simp add: well_formed_def date_def isRegular_def numeral_2_eq_2)
  from N have suc: "Suc (?N - 2) = ?N - 1" by simp
  show ?thesis
    using ne N dN rN suc
    by (simp add: FixedRate_last_period_def sch_size_def Let_def
        spec_FixedRate_coupon_def spec_refStart_def spec_refEnd_def first_stub_def
        last_stub_def get_def)
qed

lemma FixedRateCouponVector_closed:
  assumes wf: "well_formed schedule" and ne: "nominals \<noteq> []" "couponRates \<noteq> []"
    and fp: "sch_isRegular schedule ! 0 \<longrightarrow> dc_empty fpdc \<or> fpdc = dayCount"
  shows "FixedRateCouponVector ar schedule pa nominals couponRates dayCount fpdc =
    Inr (map (spec_FixedRate_coupon ar schedule pa nominals couponRates dayCount fpdc)
           [0 ..< length (sch_dates schedule) - 1])"
proof (cases "2 < length (sch_dates schedule)")
  case True
  let ?N = "length (sch_dates schedule)"
  let ?spec = "spec_FixedRate_coupon ar schedule pa nominals couponRates dayCount fpdc"
  from True have k: "Suc 1 + (?N - 3) = ?N - 1" by simp
  have range: "[0 ..< ?N - 1] = 0 # [1 ..< ?N - 2] @ [?N - 2]"
  proof -
    from True have "?N - 1 = Suc (?N - 2)" by simp
    then have "[0 ..< ?N - 1] = [0 ..< ?N - 2] @ [?N - 2]" by simp
    moreover from True have "[0 ..< ?N - 2] = 0 # [1 ..< ?N - 2]"
      by (simp add: upt_conv_Cons)
    ultimately show ?thesis by simp
  qed
  have first: "FixedRate_first_period ar schedule pa nominals couponRates dayCount fpdc [] =
      Inr (sch_dates schedule ! 1, [?spec 0])"
    by (rule FixedRate_first_period_closed [OF wf ne fp])
  have loop: "FixedRate_regular_periods schedule pa nominals couponRates dayCount 2
      (sch_dates schedule ! 1) [?spec 0] =
      Inr (sch_dates schedule ! (?N - 2), [?spec 0] @ map ?spec [1 ..< ?N - 2])"
    using FixedRate_regular_periods_closed [OF ne k, of pa dayCount "[?spec 0]" ar fpdc]
    by (simp add: numeral_2_eq_2)
  have last: "FixedRate_last_period ar schedule pa nominals couponRates dayCount
      (sch_dates schedule ! (?N - 2)) ([?spec 0] @ map ?spec [1 ..< ?N - 2]) =
      Inr (([?spec 0] @ map ?spec [1 ..< ?N - 2]) @ [?spec (?N - 2)])"
    by (rule FixedRate_last_period_closed [OF wf ne True])
  have "FixedRateCouponVector ar schedule pa nominals couponRates dayCount fpdc =
      Inr (([?spec 0] @ map ?spec [1 ..< ?N - 2]) @ [?spec (?N - 2)])"
    unfolding FixedRateCouponVector_def using ne
    by (simp only: first loop last if_False sum.case prod.case)
  then show ?thesis
    unfolding range by simp
next
  case False
  let ?spec = "spec_FixedRate_coupon ar schedule pa nominals couponRates dayCount fpdc"
  from False wf have N: "length (sch_dates schedule) = 2" by (simp add: well_formed_def)
  then have stop: "\<not> 2 < sch_size schedule - 1" "\<not> 2 < sch_size schedule"
    by (simp_all add: sch_size_def)
  have first: "FixedRate_first_period ar schedule pa nominals couponRates dayCount fpdc [] =
      Inr (sch_dates schedule ! 1, [?spec 0])"
    by (rule FixedRate_first_period_closed [OF wf ne fp])
  have loop: "FixedRate_regular_periods schedule pa nominals couponRates dayCount 2 e leg =
      Inr (e, leg)" for e leg
    using stop by (subst FixedRate_regular_periods.simps) simp
  have last: "FixedRate_last_period ar schedule pa nominals couponRates dayCount e leg =
      Inr leg" for e leg
    using stop by (simp add: FixedRate_last_period_def)
  have "FixedRateCouponVector ar schedule pa nominals couponRates dayCount fpdc =
      Inr [?spec 0]"
    unfolding FixedRateCouponVector_def using ne
    by (simp only: first loop last if_False sum.case prod.case)
  then show ?thesis
    by (simp add: N)
qed

subsection \<open>The attachment loop\<close>

declare attach_swaptionVolatility.simps [simp del]

lemma first_middle_last:
  "2 < n \<Longrightarrow> [0 ..< n - 1] = 0 # [1 ..< n - 2] @ [n - 2]"
proof -
  assume n: "2 < (n::nat)"
  then have "n - 1 = Suc (n - 2)" by simp
  then have "[0 ..< n - 1] = [0 ..< n - 2] @ [n - 2]" by simp
  moreover from n have "[0 ..< n - 2] = 0 # [1 ..< n - 2]"
    by (simp add: upt_conv_Cons)
  ultimately show ?thesis by simp
qed

lemma attach_swaptionVolatility_from:
  "i + k = length leg \<Longrightarrow> \<forall>c \<in> set (drop i leg). is_CMSCoupon c \<Longrightarrow>
   attach_swaptionVolatility leg vol i = Inr (take i leg @ map (attached vol) (drop i leg))"
proof (induction k arbitrary: i leg)
  case 0
  then show ?case
    by (subst attach_swaptionVolatility.simps) simp
next
  case (Suc k)
  then have i: "i < length leg" by simp
  with Suc.prems have "is_CMSCoupon (leg ! i)"
    by (simp add: Cons_nth_drop_Suc [symmetric])
  then obtain c where c: "leg ! i = CMSCoupon c"
    by (cases "leg ! i") simp_all
  let ?leg = "leg[i := CMSCoupon (setSwaptionVolatility c vol)]"
  have step: "attach_swaptionVolatility leg vol i = attach_swaptionVolatility ?leg vol (Suc i)"
    using i c by (subst attach_swaptionVolatility.simps) simp
  have rest: "\<forall>c \<in> set (drop (Suc i) ?leg). is_CMSCoupon c"
    using Suc.prems(2) i by (simp add: Cons_nth_drop_Suc [symmetric])
  have "attach_swaptionVolatility ?leg vol (Suc i) =
      Inr (take (Suc i) ?leg @ map (attached vol) (drop (Suc i) ?leg))"
    using Suc.IH [of "Suc i" ?leg] Suc.prems(1) rest by simp
  also have "take (Suc i) ?leg = take i leg @ [attached vol (leg ! i)]"
    using i c by (simp add: take_Suc_conv_app_nth)
  also have "drop (Suc i) ?leg = drop (Suc i) leg"
    by simp
  finally show ?case
    using i by (simp add: step Cons_nth_drop_Suc [symmetric])
qed

lemma attach_swaptionVolatility_all:
  "\<forall>c \<in> set leg. is_CMSCoupon c \<Longrightarrow>
   attach_swaptionVolatility leg vol 0 = Inr (map (attached vol) leg)"
  using attach_swaptionVolatility_from [of 0 "length leg" leg vol] by simp

subsection \<open>\<open>CMSCouponVector\<close> builds the coupons of the specification\<close>

declare CMS_regular_periods.simps [simp del]

lemma CMS_regular_periods_closed:
  "Suc j + k = length (sch_dates schedule) - 1 \<Longrightarrow> 0 < j \<Longrightarrow>
    CMS_regular_periods schedule pa nominals index settlementDays dayCounter gearings
        spreads caps floors meanReversions pricer (Suc j)
      (sch_dates schedule ! j) leg =
    Inr (sch_dates schedule ! (length (sch_dates schedule) - 2),
         leg @ map (spec_CMS_coupon ar schedule pa nominals index settlementDays dayCounter
             gearings spreads caps floors meanReversions pricer False False [])
                 [j ..< length (sch_dates schedule) - 2])"
proof (induction k arbitrary: j leg)
  case 0
  then have "\<not> Suc j < sch_size schedule - 1" "j = length (sch_dates schedule) - 2"
    by (simp_all add: sch_size_def)
  then show ?case
    by (subst CMS_regular_periods.simps) simp
next
  case (Suc k)
  let ?N = "length (sch_dates schedule)"
  let ?spec = "spec_CMS_coupon ar schedule pa nominals index settlementDays dayCounter
      gearings spreads caps floors meanReversions pricer False False []"
  from Suc.prems have lt: "Suc j < sch_size schedule - 1" and iN: "Suc j < ?N"
    and j: "0 < j" "j < ?N - 2"
    by (simp_all add: sch_size_def)
  have range: "[j ..< ?N - 2] = j # [Suc j ..< ?N - 2]"
    using j by (simp add: upt_conv_Cons)
  have step: "CMS_regular_periods schedule pa nominals index settlementDays dayCounter
      gearings spreads caps floors meanReversions pricer (Suc j)
      (sch_dates schedule ! j) leg =
    CMS_regular_periods schedule pa nominals index settlementDays dayCounter gearings
        spreads caps floors meanReversions pricer (Suc (Suc j))
      (sch_dates schedule ! Suc j) (leg @ [?spec j])"
    using lt date_in_range [OF iN] j
    by (subst CMS_regular_periods.simps)
       (simp add: Let_def spec_CMS_coupon_def spec_refStart_def spec_refEnd_def first_stub_def
        last_stub_def new_CMSCoupon_def CMSCoupon_default_isInArrears_def)
  show ?case
    unfolding step range
    using Suc.IH [of "Suc j" "leg @ [?spec j]"] Suc.prems
    by simp
qed

lemma CMS_first_period_closed:
  assumes wf: "well_formed schedule"
  shows "CMS_first_period ar schedule pa nominals index settlementDays dayCounter gearings
      spreads caps floors meanReversions pricer [] =
    Inr (sch_dates schedule ! 1, [spec_CMS_coupon ar schedule pa nominals index
        settlementDays dayCounter gearings spreads caps floors meanReversions pricer False
        False [] 0])"
proof -
  from wf have d0: "date schedule 0 = Inr (sch_dates schedule ! 0)"
    and d1: "date schedule 1 = Inr (sch_dates schedule ! 1)"
    and r1: "isRegular schedule 1 = Inr (sch_isRegular schedule ! 0)"
    by (auto simp add: well_formed_def date_def isRegular_def)
  show ?thesis
    using d0 d1 r1
    by (simp add: CMS_first_period_def Let_def spec_CMS_coupon_def spec_refStart_def
        spec_refEnd_def first_stub_def
        last_stub_def new_CMSCoupon_def CMSCoupon_default_isInArrears_def)
qed

lemma CMS_last_period_closed:
  assumes wf: "well_formed schedule" and N: "2 < length (sch_dates schedule)"
  shows "CMS_last_period ar schedule pa nominals index settlementDays dayCounter gearings
      spreads caps floors meanReversions pricer (length (sch_dates schedule))
      (sch_dates schedule ! (length (sch_dates schedule) - 2)) leg =
    Inr (leg @ [spec_CMS_coupon ar schedule pa nominals index settlementDays dayCounter
        gearings spreads caps floors meanReversions pricer False False [] (length
        (sch_dates schedule) - 2)])"
proof -
  let ?N = "length (sch_dates schedule)"
  from wf N have dN: "date schedule (?N - 1) = Inr (sch_dates schedule ! (?N - 1))"
    and rN: "isRegular schedule (?N - 1) = Inr (sch_isRegular schedule ! (?N - 2))"
    by (auto simp add: well_formed_def date_def isRegular_def numeral_2_eq_2)
  from N have suc: "Suc (?N - 2) = ?N - 1" by simp
  show ?thesis
    using N dN rN suc
    by (simp add: CMS_last_period_def sch_size_def Let_def spec_CMS_coupon_def
        spec_refStart_def spec_refEnd_def first_stub_def
        last_stub_def new_CMSCoupon_def CMSCoupon_default_isInArrears_def)
qed

lemma CMSCouponVector_closed:
  assumes wf: "well_formed schedule" and ne: "nominals \<noteq> []"
  shows "CMSCouponVector ar schedule pa nominals index settlementDays dayCounter gearings
      spreads caps floors meanReversions pricer vol =
    Inr (map (spec_CMS_coupon ar schedule pa nominals index settlementDays dayCounter
        gearings spreads caps floors meanReversions pricer False False [vol])
           [0 ..< length (sch_dates schedule) - 1])"
proof -
  let ?N = "length (sch_dates schedule)"
  let ?spec = "spec_CMS_coupon ar schedule pa nominals index settlementDays dayCounter
      gearings spreads caps floors meanReversions pricer False False []"
  have dN: "date schedule (?N - 1) = Inr (sch_dates schedule ! (?N - 1))"
    using wf by (auto simp add: well_formed_def date_def)
  have first: "CMS_first_period ar schedule pa nominals index settlementDays dayCounter
      gearings spreads caps floors meanReversions pricer [] =
      Inr (sch_dates schedule ! 1, [?spec 0])"
    by (rule CMS_first_period_closed [OF wf])
  have built: "(case CMS_regular_periods schedule pa nominals index settlementDays
      dayCounter gearings spreads caps floors meanReversions pricer 2
                  (sch_dates schedule ! 1) [?spec 0]
       of Inl f \<Rightarrow> Inl f
        | Inr (e, leg) \<Rightarrow>
           (case CMS_last_period ar schedule pa nominals index settlementDays dayCounter
               gearings spreads caps floors meanReversions pricer ?N e leg
            of Inl f \<Rightarrow> Inl f | Inr leg \<Rightarrow> attach_swaptionVolatility leg vol 0)) =
      attach_swaptionVolatility (map ?spec [0 ..< ?N - 1]) vol 0"
  proof (cases "2 < ?N")
    case True
    from True have k: "Suc 1 + (?N - 3) = ?N - 1" by simp
    have range: "[0 ..< ?N - 1] = 0 # [1 ..< ?N - 2] @ [?N - 2]"
      by (rule first_middle_last [OF True])
    have loop: "CMS_regular_periods schedule pa nominals index settlementDays dayCounter
        gearings spreads caps floors meanReversions pricer 2
        (sch_dates schedule ! 1) [?spec 0] =
        Inr (sch_dates schedule ! (?N - 2), [?spec 0] @ map ?spec [1 ..< ?N - 2])"
      using CMS_regular_periods_closed [OF k, of pa nominals index settlementDays
          dayCounter gearings spreads caps floors meanReversions pricer "[?spec 0]" ar]
      by (simp add: numeral_2_eq_2)
    have last: "CMS_last_period ar schedule pa nominals index settlementDays dayCounter
        gearings spreads caps floors meanReversions pricer ?N
        (sch_dates schedule ! (?N - 2)) ([?spec 0] @ map ?spec [1 ..< ?N - 2]) =
        Inr (([?spec 0] @ map ?spec [1 ..< ?N - 2]) @ [?spec (?N - 2)])"
      by (rule CMS_last_period_closed [OF wf True])
    show ?thesis
      unfolding range by (simp only: loop last sum.case prod.case) simp
  next
    case False
    with wf have N: "?N = 2" by (simp add: well_formed_def)
    then have stop: "\<not> 2 < sch_size schedule - 1" "\<not> 2 < sch_size schedule"
      by (simp_all add: sch_size_def)
    have loop: "CMS_regular_periods schedule pa nominals index settlementDays dayCounter
        gearings spreads caps floors meanReversions pricer 2 e leg =
        Inr (e, leg)" for e leg
      using stop by (subst CMS_regular_periods.simps) simp
    have last: "CMS_last_period ar schedule pa nominals index settlementDays dayCounter
        gearings spreads caps floors meanReversions pricer n e leg =
        Inr leg" for n e leg
      using stop by (simp add: CMS_last_period_def)
    show ?thesis
      by (simp only: loop last sum.case prod.case) (simp add: N)
  qed
  have attach: "attach_swaptionVolatility (map ?spec [0 ..< ?N - 1]) vol 0 =
      Inr (map (attached vol) (map ?spec [0 ..< ?N - 1]))"
    by (rule attach_swaptionVolatility_all) (auto simp add: spec_CMS_coupon_def)
  have att: "attached vol \<circ> ?spec =
      spec_CMS_coupon ar schedule pa nominals index settlementDays dayCounter gearings
          spreads caps floors meanReversions pricer False False [vol]"
    by (rule ext) (simp add: spec_CMS_coupon_def setSwaptionVolatility_def)
  have "CMSCouponVector ar schedule pa nominals index settlementDays dayCounter gearings
      spreads caps floors meanReversions pricer vol =
      Inr (map (attached vol) (map ?spec [0 ..< ?N - 1]))"
    unfolding CMSCouponVector_def sch_size_def Let_def using ne
    by (simp only: first built attach if_False sum.case prod.case)
  then show ?thesis
    by (simp only: map_map att)
qed

subsection \<open>\<open>CMSZeroCouponVector\<close> builds the coupons of the specification\<close>

declare CMSZero_regular_periods.simps [simp del]

lemma CMSZero_regular_periods_closed:
  "Suc j + k = length (sch_dates schedule) - 1 \<Longrightarrow> 0 < j \<Longrightarrow>
    CMSZero_regular_periods schedule pa (adjust (sch_calendar schedule) (sch_dates schedule
        ! (length (sch_dates schedule) - 1)) pa) nominals index fixingDays dayCounter
        gearings spreads caps floors meanReversions pricer (Suc j)
      (sch_dates schedule ! j) leg =
    Inr (sch_dates schedule ! (length (sch_dates schedule) - 2),
         leg @ map (spec_CMS_coupon ar schedule pa nominals index fixingDays dayCounter
             gearings spreads caps floors meanReversions pricer True False [])
                 [j ..< length (sch_dates schedule) - 2])"
proof (induction k arbitrary: j leg)
  case 0
  then have "\<not> Suc j < sch_size schedule - 1" "j = length (sch_dates schedule) - 2"
    by (simp_all add: sch_size_def)
  then show ?case
    by (subst CMSZero_regular_periods.simps) simp
next
  case (Suc k)
  let ?N = "length (sch_dates schedule)"
  let ?spec = "spec_CMS_coupon ar schedule pa nominals index fixingDays dayCounter gearings
      spreads caps floors meanReversions pricer True False []"
  from Suc.prems have lt: "Suc j < sch_size schedule - 1" and iN: "Suc j < ?N"
    and j: "0 < j" "j < ?N - 2"
    by (simp_all add: sch_size_def)
  have range: "[j ..< ?N - 2] = j # [Suc j ..< ?N - 2]"
    using j by (simp add: upt_conv_Cons)
  have step: "CMSZero_regular_periods schedule pa (adjust (sch_calendar schedule)
      (sch_dates schedule ! (length (sch_dates schedule) - 1)) pa) nominals index
      fixingDays dayCounter gearings spreads caps floors meanReversions pricer (Suc j)
      (sch_dates schedule ! j) leg =
    CMSZero_regular_periods schedule pa (adjust (sch_calendar schedule) (sch_dates schedule
        ! (length (sch_dates schedule) - 1)) pa) nominals index fixingDays dayCounter
        gearings spreads caps floors meanReversions pricer (Suc (Suc j))
      (sch_dates schedule ! Suc j) (leg @ [?spec j])"
    using lt date_in_range [OF iN] j
    by (subst CMSZero_regular_periods.simps)
       (simp add: Let_def spec_CMS_coupon_def spec_refStart_def spec_refEnd_def first_stub_def
        last_stub_def new_CMSCoupon_def CMSCoupon_default_isInArrears_def)
  show ?case
    unfolding step range
    using Suc.IH [of "Suc j" "leg @ [?spec j]"] Suc.prems
    by simp
qed

lemma CMSZero_first_period_closed:
  assumes wf: "well_formed schedule"
  shows "CMSZero_first_period ar schedule pa (adjust (sch_calendar schedule) (sch_dates
      schedule ! (length (sch_dates schedule) - 1)) pa) nominals index fixingDays
      dayCounter gearings spreads caps floors meanReversions pricer [] =
    Inr (sch_dates schedule ! 1, [spec_CMS_coupon ar schedule pa nominals index fixingDays
        dayCounter gearings spreads caps floors meanReversions pricer True False [] 0])"
proof -
  from wf have d0: "date schedule 0 = Inr (sch_dates schedule ! 0)"
    and d1: "date schedule 1 = Inr (sch_dates schedule ! 1)"
    and r1: "isRegular schedule 1 = Inr (sch_isRegular schedule ! 0)"
    by (auto simp add: well_formed_def date_def isRegular_def)
  show ?thesis
    using d0 d1 r1
    by (simp add: CMSZero_first_period_def Let_def spec_CMS_coupon_def spec_refStart_def
        spec_refEnd_def first_stub_def
        last_stub_def new_CMSCoupon_def CMSCoupon_default_isInArrears_def)
qed

lemma CMSZero_last_period_closed:
  assumes wf: "well_formed schedule" and N: "2 < length (sch_dates schedule)"
  shows "CMSZero_last_period ar schedule pa (adjust (sch_calendar schedule) (sch_dates
      schedule ! (length (sch_dates schedule) - 1)) pa) nominals index fixingDays
      dayCounter gearings spreads caps floors meanReversions pricer (length (sch_dates
      schedule))
      (sch_dates schedule ! (length (sch_dates schedule) - 2)) leg =
    Inr (leg @ [spec_CMS_coupon ar schedule pa nominals index fixingDays dayCounter
        gearings spreads caps floors meanReversions pricer True False [] (length (sch_dates
        schedule) - 2)])"
proof -
  let ?N = "length (sch_dates schedule)"
  from wf N have dN: "date schedule (?N - 1) = Inr (sch_dates schedule ! (?N - 1))"
    and rN: "isRegular schedule (?N - 1) = Inr (sch_isRegular schedule ! (?N - 2))"
    by (auto simp add: well_formed_def date_def isRegular_def numeral_2_eq_2)
  from N have suc: "Suc (?N - 2) = ?N - 1" by simp
  show ?thesis
    using N dN rN suc
    by (simp add: CMSZero_last_period_def sch_size_def Let_def spec_CMS_coupon_def
        spec_refStart_def spec_refEnd_def first_stub_def
        last_stub_def new_CMSCoupon_def CMSCoupon_default_isInArrears_def)
qed

lemma CMSZeroCouponVector_closed:
  assumes wf: "well_formed schedule" and ne: "nominals \<noteq> []"
  shows "CMSZeroCouponVector ar schedule pa nominals index fixingDays dayCounter gearings
      spreads caps floors meanReversions pricer vol =
    Inr (map (spec_CMS_coupon ar schedule pa nominals index fixingDays dayCounter gearings
        spreads caps floors meanReversions pricer True False [vol])
           [0 ..< length (sch_dates schedule) - 1])"
proof -
  let ?N = "length (sch_dates schedule)"
  let ?spec = "spec_CMS_coupon ar schedule pa nominals index fixingDays dayCounter gearings
      spreads caps floors meanReversions pricer True False []"
  have dN: "date schedule (?N - 1) = Inr (sch_dates schedule ! (?N - 1))"
    using wf by (auto simp add: well_formed_def date_def)
  have first: "CMSZero_first_period ar schedule pa (adjust (sch_calendar schedule)
      (sch_dates schedule ! (length (sch_dates schedule) - 1)) pa) nominals index
      fixingDays dayCounter gearings spreads caps floors meanReversions pricer [] =
      Inr (sch_dates schedule ! 1, [?spec 0])"
    by (rule CMSZero_first_period_closed [OF wf])
  have built: "(case CMSZero_regular_periods schedule pa (adjust (sch_calendar schedule)
      (sch_dates schedule ! (length (sch_dates schedule) - 1)) pa) nominals index
      fixingDays dayCounter gearings spreads caps floors meanReversions pricer 2
                  (sch_dates schedule ! 1) [?spec 0]
       of Inl f \<Rightarrow> Inl f
        | Inr (e, leg) \<Rightarrow>
           (case CMSZero_last_period ar schedule pa (adjust (sch_calendar schedule)
               (sch_dates schedule ! (length (sch_dates schedule) - 1)) pa) nominals index
               fixingDays dayCounter gearings spreads caps floors meanReversions pricer ?N
               e leg
            of Inl f \<Rightarrow> Inl f | Inr leg \<Rightarrow> attach_swaptionVolatility leg vol 0)) =
      attach_swaptionVolatility (map ?spec [0 ..< ?N - 1]) vol 0"
  proof (cases "2 < ?N")
    case True
    from True have k: "Suc 1 + (?N - 3) = ?N - 1" by simp
    have range: "[0 ..< ?N - 1] = 0 # [1 ..< ?N - 2] @ [?N - 2]"
      by (rule first_middle_last [OF True])
    have loop: "CMSZero_regular_periods schedule pa (adjust (sch_calendar schedule)
        (sch_dates schedule ! (length (sch_dates schedule) - 1)) pa) nominals index
        fixingDays dayCounter gearings spreads caps floors meanReversions pricer 2
        (sch_dates schedule ! 1) [?spec 0] =
        Inr (sch_dates schedule ! (?N - 2), [?spec 0] @ map ?spec [1 ..< ?N - 2])"
      using CMSZero_regular_periods_closed [OF k, of pa nominals index fixingDays
          dayCounter gearings spreads caps floors meanReversions pricer "[?spec 0]" ar]
      by (simp add: numeral_2_eq_2)
    have last: "CMSZero_last_period ar schedule pa (adjust (sch_calendar schedule)
        (sch_dates schedule ! (length (sch_dates schedule) - 1)) pa) nominals index
        fixingDays dayCounter gearings spreads caps floors meanReversions pricer ?N
        (sch_dates schedule ! (?N - 2)) ([?spec 0] @ map ?spec [1 ..< ?N - 2]) =
        Inr (([?spec 0] @ map ?spec [1 ..< ?N - 2]) @ [?spec (?N - 2)])"
      by (rule CMSZero_last_period_closed [OF wf True])
    show ?thesis
      unfolding range by (simp only: loop last sum.case prod.case) simp
  next
    case False
    with wf have N: "?N = 2" by (simp add: well_formed_def)
    then have stop: "\<not> 2 < sch_size schedule - 1" "\<not> 2 < sch_size schedule"
      by (simp_all add: sch_size_def)
    have loop: "CMSZero_regular_periods schedule pa (adjust (sch_calendar schedule)
        (sch_dates schedule ! (length (sch_dates schedule) - 1)) pa) nominals index
        fixingDays dayCounter gearings spreads caps floors meanReversions pricer 2 e leg =
        Inr (e, leg)" for e leg
      using stop by (subst CMSZero_regular_periods.simps) simp
    have last: "CMSZero_last_period ar schedule pa (adjust (sch_calendar schedule)
        (sch_dates schedule ! (length (sch_dates schedule) - 1)) pa) nominals index
        fixingDays dayCounter gearings spreads caps floors meanReversions pricer n e leg =
        Inr leg" for n e leg
      using stop by (simp add: CMSZero_last_period_def)
    show ?thesis
      by (simp only: loop last sum.case prod.case) (simp add: N)
  qed
  have attach: "attach_swaptionVolatility (map ?spec [0 ..< ?N - 1]) vol 0 =
      Inr (map (attached vol) (map ?spec [0 ..< ?N - 1]))"
    by (rule attach_swaptionVolatility_all) (auto simp add: spec_CMS_coupon_def)
  have att: "attached vol \<circ> ?spec =
      spec_CMS_coupon ar schedule pa nominals index fixingDays dayCounter gearings spreads
          caps floors meanReversions pricer True False [vol]"
    by (rule ext) (simp add: spec_CMS_coupon_def setSwaptionVolatility_def)
  have "CMSZeroCouponVector ar schedule pa nominals index fixingDays dayCounter gearings
      spreads caps floors meanReversions pricer vol =
      Inr (map (attached vol) (map ?spec [0 ..< ?N - 1]))"
    unfolding CMSZeroCouponVector_def sch_size_def Let_def using ne
    by (simp only: dN first built attach if_False sum.case prod.case)
  then show ?thesis
    by (simp only: map_map att)
qed

subsection \<open>\<open>CMSInArrearsCouponVector\<close> builds the coupons of the specification\<close>

declare CMSInArrears_regular_periods.simps [simp del]

lemma CMSInArrears_regular_periods_closed:
  "Suc j + k = length (sch_dates schedule) - 1 \<Longrightarrow> 0 < j \<Longrightarrow>
    CMSInArrears_regular_periods schedule pa nominals index fixingDays dayCounter gearings
        spreads caps floors meanReversions pricer (Suc j)
      (sch_dates schedule ! j) leg =
    Inr (sch_dates schedule ! (length (sch_dates schedule) - 2),
         leg @ map (spec_CMS_coupon ar schedule pa nominals index fixingDays dayCounter
             gearings spreads caps floors meanReversions pricer False True [])
                 [j ..< length (sch_dates schedule) - 2])"
proof (induction k arbitrary: j leg)
  case 0
  then have "\<not> Suc j < sch_size schedule - 1" "j = length (sch_dates schedule) - 2"
    by (simp_all add: sch_size_def)
  then show ?case
    by (subst CMSInArrears_regular_periods.simps) simp
next
  case (Suc k)
  let ?N = "length (sch_dates schedule)"
  let ?spec = "spec_CMS_coupon ar schedule pa nominals index fixingDays dayCounter gearings
      spreads caps floors meanReversions pricer False True []"
  from Suc.prems have lt: "Suc j < sch_size schedule - 1" and iN: "Suc j < ?N"
    and j: "0 < j" "j < ?N - 2"
    by (simp_all add: sch_size_def)
  have range: "[j ..< ?N - 2] = j # [Suc j ..< ?N - 2]"
    using j by (simp add: upt_conv_Cons)
  have step: "CMSInArrears_regular_periods schedule pa nominals index fixingDays dayCounter
      gearings spreads caps floors meanReversions pricer (Suc j)
      (sch_dates schedule ! j) leg =
    CMSInArrears_regular_periods schedule pa nominals index fixingDays dayCounter gearings
        spreads caps floors meanReversions pricer (Suc (Suc j))
      (sch_dates schedule ! Suc j) (leg @ [?spec j])"
    using lt date_in_range [OF iN] j
    by (subst CMSInArrears_regular_periods.simps)
       (simp add: Let_def spec_CMS_coupon_def spec_refStart_def spec_refEnd_def first_stub_def
        last_stub_def new_CMSCoupon_def CMSCoupon_default_isInArrears_def)
  show ?case
    unfolding step range
    using Suc.IH [of "Suc j" "leg @ [?spec j]"] Suc.prems
    by simp
qed

lemma CMSInArrears_first_period_closed:
  assumes wf: "well_formed schedule"
  shows "CMSInArrears_first_period ar schedule pa nominals index fixingDays dayCounter
      gearings spreads caps floors meanReversions pricer [] =
    Inr (sch_dates schedule ! 1, [spec_CMS_coupon ar schedule pa nominals index fixingDays
        dayCounter gearings spreads caps floors meanReversions pricer False True [] 0])"
proof -
  from wf have d0: "date schedule 0 = Inr (sch_dates schedule ! 0)"
    and d1: "date schedule 1 = Inr (sch_dates schedule ! 1)"
    and r1: "isRegular schedule 1 = Inr (sch_isRegular schedule ! 0)"
    by (auto simp add: well_formed_def date_def isRegular_def)
  show ?thesis
    using d0 d1 r1
    by (simp add: CMSInArrears_first_period_def Let_def spec_CMS_coupon_def
        spec_refStart_def spec_refEnd_def first_stub_def
        last_stub_def new_CMSCoupon_def CMSCoupon_default_isInArrears_def)
qed

lemma CMSInArrears_last_period_closed:
  assumes wf: "well_formed schedule" and N: "2 < length (sch_dates schedule)"
  shows "CMSInArrears_last_period ar schedule pa nominals index fixingDays dayCounter
      gearings spreads caps floors meanReversions pricer (length (sch_dates schedule))
      (sch_dates schedule ! (length (sch_dates schedule) - 2)) leg =
    Inr (leg @ [spec_CMS_coupon ar schedule pa nominals index fixingDays dayCounter
        gearings spreads caps floors meanReversions pricer False True [] (length (sch_dates
        schedule) - 2)])"
proof -
  let ?N = "length (sch_dates schedule)"
  from wf N have dN: "date schedule (?N - 1) = Inr (sch_dates schedule ! (?N - 1))"
    and rN: "isRegular schedule (?N - 1) = Inr (sch_isRegular schedule ! (?N - 2))"
    by (auto simp add: well_formed_def date_def isRegular_def numeral_2_eq_2)
  from N have suc: "Suc (?N - 2) = ?N - 1" by simp
  show ?thesis
    using N dN rN suc
    by (simp add: CMSInArrears_last_period_def sch_size_def Let_def spec_CMS_coupon_def
        spec_refStart_def spec_refEnd_def first_stub_def
        last_stub_def new_CMSCoupon_def CMSCoupon_default_isInArrears_def)
qed

lemma CMSInArrearsCouponVector_closed:
  assumes wf: "well_formed schedule" and ne: "nominals \<noteq> []"
  shows "CMSInArrearsCouponVector ar schedule pa nominals index fixingDays dayCounter
      gearings spreads caps floors meanReversions pricer vol =
    Inr (map (spec_CMS_coupon ar schedule pa nominals index fixingDays dayCounter gearings
        spreads caps floors meanReversions pricer False True [vol])
           [0 ..< length (sch_dates schedule) - 1])"
proof -
  let ?N = "length (sch_dates schedule)"
  let ?spec = "spec_CMS_coupon ar schedule pa nominals index fixingDays dayCounter gearings
      spreads caps floors meanReversions pricer False True []"
  have dN: "date schedule (?N - 1) = Inr (sch_dates schedule ! (?N - 1))"
    using wf by (auto simp add: well_formed_def date_def)
  have first: "CMSInArrears_first_period ar schedule pa nominals index fixingDays
      dayCounter gearings spreads caps floors meanReversions pricer [] =
      Inr (sch_dates schedule ! 1, [?spec 0])"
    by (rule CMSInArrears_first_period_closed [OF wf])
  have built: "(case CMSInArrears_regular_periods schedule pa nominals index fixingDays
      dayCounter gearings spreads caps floors meanReversions pricer 2
                  (sch_dates schedule ! 1) [?spec 0]
       of Inl f \<Rightarrow> Inl f
        | Inr (e, leg) \<Rightarrow>
           (case CMSInArrears_last_period ar schedule pa nominals index fixingDays
               dayCounter gearings spreads caps floors meanReversions pricer ?N e leg
            of Inl f \<Rightarrow> Inl f | Inr leg \<Rightarrow> attach_swaptionVolatility leg vol 0)) =
      attach_swaptionVolatility (map ?spec [0 ..< ?N - 1]) vol 0"
  proof (cases "2 < ?N")
    case True
    from True have k: "Suc 1 + (?N - 3) = ?N - 1" by simp
    have range: "[0 ..< ?N - 1] = 0 # [1 ..< ?N - 2] @ [?N - 2]"
      by (rule first_middle_last [OF True])
    have loop: "CMSInArrears_regular_periods schedule pa nominals index fixingDays
        dayCounter gearings spreads caps floors meanReversions pricer 2
        (sch_dates schedule ! 1) [?spec 0] =
        Inr (sch_dates schedule ! (?N - 2), [?spec 0] @ map ?spec [1 ..< ?N - 2])"
      using CMSInArrears_regular_periods_closed [OF k, of pa nominals index fixingDays
          dayCounter gearings spreads caps floors meanReversions pricer "[?spec 0]" ar]
      by (simp add: numeral_2_eq_2)
    have last: "CMSInArrears_last_period ar schedule pa nominals index fixingDays
        dayCounter gearings spreads caps floors meanReversions pricer ?N
        (sch_dates schedule ! (?N - 2)) ([?spec 0] @ map ?spec [1 ..< ?N - 2]) =
        Inr (([?spec 0] @ map ?spec [1 ..< ?N - 2]) @ [?spec (?N - 2)])"
      by (rule CMSInArrears_last_period_closed [OF wf True])
    show ?thesis
      unfolding range by (simp only: loop last sum.case prod.case) simp
  next
    case False
    with wf have N: "?N = 2" by (simp add: well_formed_def)
    then have stop: "\<not> 2 < sch_size schedule - 1" "\<not> 2 < sch_size schedule"
      by (simp_all add: sch_size_def)
    have loop: "CMSInArrears_regular_periods schedule pa nominals index fixingDays
        dayCounter gearings spreads caps floors meanReversions pricer 2 e leg =
        Inr (e, leg)" for e leg
      using stop by (subst CMSInArrears_regular_periods.simps) simp
    have last: "CMSInArrears_last_period ar schedule pa nominals index fixingDays
        dayCounter gearings spreads caps floors meanReversions pricer n e leg =
        Inr leg" for n e leg
      using stop by (simp add: CMSInArrears_last_period_def)
    show ?thesis
      by (simp only: loop last sum.case prod.case) (simp add: N)
  qed
  have attach: "attach_swaptionVolatility (map ?spec [0 ..< ?N - 1]) vol 0 =
      Inr (map (attached vol) (map ?spec [0 ..< ?N - 1]))"
    by (rule attach_swaptionVolatility_all) (auto simp add: spec_CMS_coupon_def)
  have att: "attached vol \<circ> ?spec =
      spec_CMS_coupon ar schedule pa nominals index fixingDays dayCounter gearings spreads
          caps floors meanReversions pricer False True [vol]"
    by (rule ext) (simp add: spec_CMS_coupon_def setSwaptionVolatility_def)
  have "CMSInArrearsCouponVector ar schedule pa nominals index fixingDays dayCounter
      gearings spreads caps floors meanReversions pricer vol =
      Inr (map (attached vol) (map ?spec [0 ..< ?N - 1]))"
    unfolding CMSInArrearsCouponVector_def sch_size_def Let_def using ne
    by (simp only: first built attach if_False sum.case prod.case)
  then show ?thesis
    by (simp only: map_map att)
qed

subsection \<open>Failed and successful calls\<close>

lemma FixedRateCouponVector_no_rates:
  "FixedRateCouponVector ar schedule pa nominals [] dayCount fpdc =
   Inl (Error ''coupon rates not specified'', [])"
  by (simp add: FixedRateCouponVector_def)

lemma FixedRateCouponVector_no_nominals:
  "couponRates \<noteq> [] \<Longrightarrow>
   FixedRateCouponVector ar schedule pa [] couponRates dayCount fpdc =
   Inl (Error ''nominals not specified'', [])"
  by (simp add: FixedRateCouponVector_def)

lemma FixedRateCouponVector_first_day_count:
  assumes wf: "well_formed schedule" and ne: "nominals \<noteq> []" "couponRates \<noteq> []"
    and reg: "sch_isRegular schedule ! 0"
    and fp: "\<not> dc_empty fpdc" "fpdc \<noteq> dayCount"
  shows "FixedRateCouponVector ar schedule pa nominals couponRates dayCount fpdc =
    Inl (Error ''regular first coupon does not allow a first-period day count'', [])"
proof -
  from wf have d0: "date schedule 0 = Inr (sch_dates schedule ! 0)"
    and d1: "date schedule 1 = Inr (sch_dates schedule ! 1)"
    and r1: "isRegular schedule 1 = Inr (sch_isRegular schedule ! 0)"
    by (auto simp add: well_formed_def date_def isRegular_def)
  have "FixedRate_first_period ar schedule pa nominals couponRates dayCount fpdc [] =
    Inl (Error ''regular first coupon does not allow a first-period day count'', [])"
    using d0 d1 r1 reg fp by (simp add: FixedRate_first_period_def Let_def)
  then show ?thesis
    using ne by (simp add: FixedRateCouponVector_def)
qed

lemma FixedRateCouponVector_Inr:
  assumes wf: "well_formed schedule"
    and ok: "FixedRateCouponVector ar schedule pa nominals couponRates dayCount fpdc = Inr leg"
  shows "couponRates \<noteq> [] \<and> nominals \<noteq> [] \<and>
    (sch_isRegular schedule ! 0 \<longrightarrow> dc_empty fpdc \<or> fpdc = dayCount) \<and>
    leg = map (spec_FixedRate_coupon ar schedule pa nominals couponRates dayCount fpdc)
            [0 ..< length (sch_dates schedule) - 1]"
proof -
  from ok have r: "couponRates \<noteq> []"
    using FixedRateCouponVector_no_rates [of ar schedule pa nominals dayCount fpdc] by auto
  with ok have n: "nominals \<noteq> []"
    using FixedRateCouponVector_no_nominals [of couponRates ar schedule pa dayCount fpdc]
    by auto
  from ok have fp: "sch_isRegular schedule ! 0 \<longrightarrow> dc_empty fpdc \<or> fpdc = dayCount"
    using FixedRateCouponVector_first_day_count [OF wf n r, of fpdc dayCount ar pa] by auto
  from ok FixedRateCouponVector_closed [OF wf n r fp, of ar pa] r n fp show ?thesis
    by simp
qed

lemma CMSCouponVector_no_nominals:
  "CMSCouponVector ar schedule pa [] index settlementDays dayCounter gearings spreads
     caps floors meanReversions pricer vol = Inl (Error ''no nominal given'', [])"
  by (simp add: CMSCouponVector_def)

lemma CMSZeroCouponVector_no_nominals:
  "CMSZeroCouponVector ar schedule pa [] index fixingDays dayCounter gearings spreads
     caps floors meanReversions pricer vol = Inl (Error ''no nominal given'', [])"
  by (simp add: CMSZeroCouponVector_def)

lemma CMSInArrearsCouponVector_no_nominals:
  "CMSInArrearsCouponVector ar schedule pa [] index fixingDays dayCounter gearings spreads
     caps floors meanReversions pricer vol = Inl (Error ''no nominal given'', [])"
  by (simp add: CMSInArrearsCouponVector_def)

lemma CMSCouponVector_Inr:
  assumes wf: "well_formed schedule"
    and ok: "CMSCouponVector ar schedule pa nominals index settlementDays dayCounter
      gearings spreads caps floors meanReversions pricer vol = Inr leg"
  shows "nominals \<noteq> [] \<and>
    leg = map (spec_CMS_coupon ar schedule pa nominals index settlementDays dayCounter
                 gearings spreads caps floors meanReversions pricer False False [vol])
            [0 ..< length (sch_dates schedule) - 1]"
proof -
  from ok have n: "nominals \<noteq> []"
    using CMSCouponVector_no_nominals [of ar schedule pa index settlementDays dayCounter
      gearings spreads caps floors meanReversions pricer vol] by auto
  from ok CMSCouponVector_closed [OF wf n, of ar pa index settlementDays dayCounter
      gearings spreads caps floors meanReversions pricer vol] n
  show ?thesis by simp
qed

lemma CMSZeroCouponVector_Inr:
  assumes wf: "well_formed schedule"
    and ok: "CMSZeroCouponVector ar schedule pa nominals index fixingDays dayCounter
      gearings spreads caps floors meanReversions pricer vol = Inr leg"
  shows "nominals \<noteq> [] \<and>
    leg = map (spec_CMS_coupon ar schedule pa nominals index fixingDays dayCounter
                 gearings spreads caps floors meanReversions pricer True False [vol])
            [0 ..< length (sch_dates schedule) - 1]"
proof -
  from ok have n: "nominals \<noteq> []"
    using CMSZeroCouponVector_no_nominals [of ar schedule pa index fixingDays dayCounter
      gearings spreads caps floors meanReversions pricer vol] by auto
  from ok CMSZeroCouponVector_closed [OF wf n, of ar pa index fixingDays dayCounter
      gearings spreads caps floors meanReversions pricer vol] n
  show ?thesis by simp
qed

lemma CMSInArrearsCouponVector_Inr:
  assumes wf: "well_formed schedule"
    and ok: "CMSInArrearsCouponVector ar schedule pa nominals index fixingDays dayCounter
      gearings spreads caps floors meanReversions pricer vol = Inr leg"
  shows "nominals \<noteq> [] \<and>
    leg = map (spec_CMS_coupon ar schedule pa nominals index fixingDays dayCounter
                 gearings spreads caps floors meanReversions pricer False True [vol])
            [0 ..< length (sch_dates schedule) - 1]"
proof -
  from ok have n: "nominals \<noteq> []"
    using CMSInArrearsCouponVector_no_nominals [of ar schedule pa index fixingDays
      dayCounter gearings spreads caps floors meanReversions pricer vol] by auto
  from ok CMSInArrearsCouponVector_closed [OF wf n, of ar pa index fixingDays dayCounter
      gearings spreads caps floors meanReversions pricer vol] n
  show ?thesis by simp
qed

subsection \<open>Every cash flow a CMS builder pushes is a fresh CMS coupon\<close>

lemma fresh_is_CMSCoupon: "fresh_CMSCoupon c \<Longrightarrow> is_CMSCoupon c"
  by (cases c) simp_all

lemma fresh_attached_once: "fresh_CMSCoupon c \<Longrightarrow> attached_once vol (attached vol c)"
  by (cases c) (simp_all add: setSwaptionVolatility_def)

lemma CMS_first_period_pushes:
  "list_all fresh_CMSCoupon leg \<Longrightarrow>
   stage_pushes_CMSCoupons (CMS_first_period ar schedule pa nominals index settlementDays
       dayCounter gearings spreads caps floors meanReversions pricer leg)"
  by (simp add: CMS_first_period_def stage_pushes_CMSCoupons_def Let_def date_def
      isRegular_def new_CMSCoupon_def cast_failure_def)

lemma CMS_regular_periods_pushes:
  "list_all fresh_CMSCoupon leg \<Longrightarrow>
   stage_pushes_CMSCoupons (CMS_regular_periods schedule pa nominals index settlementDays
       dayCounter gearings spreads caps floors meanReversions pricer i e leg)"
proof (induction "sch_size schedule - 1 - i" arbitrary: i e leg)
  case 0
  then have "\<not> i < sch_size schedule - 1" by simp
  with 0 show ?case
    by (subst CMS_regular_periods.simps) (simp add: stage_pushes_CMSCoupons_def)
next
  case (Suc k)
  then have lt: "i < sch_size schedule - 1" by simp
  show ?case
  proof (cases "date schedule i")
    case (Inl err)
    then have "err \<noteq> cast_failure"
      by (auto simp add: date_def cast_failure_def split: if_splits)
    with Inl lt show ?thesis
      by (subst CMS_regular_periods.simps) (simp add: stage_pushes_CMSCoupons_def)
  next
    case (Inr d)
    let ?c = "new_CMSCoupon (get nominals (i - 1) Null_Real) (adjust (sch_calendar
        schedule) d pa) index
                e d settlementDays dayCounter pricer
                (get gearings (i - 1) 1.0) (get spreads (i - 1) 0.0)
                (get caps (i - 1) Null_Real) (get floors (i - 1) Null_Real)
                (get meanReversions (i - 1) Null_Real)
                e d CMSCoupon_default_isInArrears"
    have step: "CMS_regular_periods schedule pa nominals index settlementDays dayCounter
        gearings spreads caps floors meanReversions pricer i e leg =
        CMS_regular_periods schedule pa nominals index settlementDays dayCounter gearings
            spreads caps floors meanReversions pricer (i + 1) d (leg @ [?c])"
      using lt Inr by (subst CMS_regular_periods.simps) (simp add: Let_def)
    have "list_all fresh_CMSCoupon (leg @ [?c])"
      using Suc.prems by (simp add: new_CMSCoupon_def)
    moreover from Suc.hyps(2) have "k = sch_size schedule - 1 - (i + 1)" by simp
    ultimately show ?thesis
      unfolding step by (rule Suc.hyps(1) [rotated])
  qed
qed

lemma CMS_last_period_pushes:
  "list_all fresh_CMSCoupon leg \<Longrightarrow>
   (case CMS_last_period ar schedule pa nominals index settlementDays dayCounter gearings
       spreads caps floors meanReversions pricer N e leg of
      Inl (err, l) \<Rightarrow> err \<noteq> cast_failure
    | Inr leg' \<Rightarrow> list_all fresh_CMSCoupon leg')"
  by (simp add: CMS_last_period_def Let_def date_def isRegular_def new_CMSCoupon_def
      cast_failure_def)

lemma CMSCouponVector_attaches:
  "case CMSCouponVector ar schedule pa nominals index settlementDays dayCounter gearings
      spreads caps floors meanReversions pricer vol of
     Inl (err, l) \<Rightarrow> err \<noteq> cast_failure
   | Inr leg \<Rightarrow> list_all (attached_once vol) leg"
proof (cases "nominals = []")
  case True
  then show ?thesis
    by (simp add: CMSCouponVector_def cast_failure_def)
next
  case ne: False
  show ?thesis
  proof -
    have first: "stage_pushes_CMSCoupons
        (CMS_first_period ar schedule pa nominals index settlementDays dayCounter gearings
            spreads caps floors meanReversions pricer [])"
      by (rule CMS_first_period_pushes) simp
    show ?thesis
    proof (cases "CMS_first_period ar schedule pa nominals index settlementDays dayCounter
        gearings spreads caps floors meanReversions pricer []")
      case (Inl f)
      with first ne show ?thesis
        by (simp add: CMSCouponVector_def Let_def stage_pushes_CMSCoupons_def split: prod.splits)
    next
      case r1: (Inr r)
      obtain e1 leg1 where r: "r = (e1, leg1)" by (cases r)
      with first r1 have fresh1: "list_all fresh_CMSCoupon leg1"
        by (simp add: stage_pushes_CMSCoupons_def)
      have loop: "stage_pushes_CMSCoupons
          (CMS_regular_periods schedule pa nominals index settlementDays dayCounter
              gearings spreads caps floors meanReversions pricer 2 e1 leg1)"
        by (rule CMS_regular_periods_pushes [OF fresh1])
      show ?thesis
      proof (cases "CMS_regular_periods schedule pa nominals index settlementDays
          dayCounter gearings spreads caps floors meanReversions pricer 2 e1 leg1")
        case (Inl f)
        with loop ne r1 r show ?thesis
          by (simp add: CMSCouponVector_def Let_def stage_pushes_CMSCoupons_def split:
              prod.splits)
      next
        case r2: (Inr r')
        obtain e2 leg2 where r': "r' = (e2, leg2)" by (cases r')
        with loop r2 have fresh2: "list_all fresh_CMSCoupon leg2"
          by (simp add: stage_pushes_CMSCoupons_def)
        note last = CMS_last_period_pushes [OF fresh2, of ar schedule pa nominals index
            settlementDays dayCounter gearings spreads caps floors meanReversions pricer
            "sch_size schedule" e2]
        show ?thesis
        proof (cases "CMS_last_period ar schedule pa nominals index settlementDays
            dayCounter gearings spreads caps floors meanReversions pricer
            (sch_size schedule) e2 leg2")
          case (Inl f)
          with last ne r1 r r2 r' show ?thesis
            by (simp add: CMSCouponVector_def Let_def split: prod.splits)
        next
          case r3: (Inr leg3)
          with last have fresh3: "list_all fresh_CMSCoupon leg3" by simp
          have "attach_swaptionVolatility leg3 vol 0 = Inr (map (attached vol) leg3)"
            by (rule attach_swaptionVolatility_all)
               (use fresh3 in \<open>auto simp add: list_all_iff dest: fresh_is_CMSCoupon\<close>)
          moreover have "list_all (attached_once vol) (map (attached vol) leg3)"
            using fresh3 by (auto simp add: list_all_iff dest: fresh_attached_once)
          ultimately show ?thesis
            using ne r1 r r2 r' r3 by (simp add: CMSCouponVector_def Let_def)
        qed
      qed
    qed
  qed
qed

lemma CMSZero_first_period_pushes:
  "list_all fresh_CMSCoupon leg \<Longrightarrow>
   stage_pushes_CMSCoupons (CMSZero_first_period ar schedule pa paymentDate nominals index
       fixingDays dayCounter gearings spreads caps floors meanReversions pricer leg)"
  by (simp add: CMSZero_first_period_def stage_pushes_CMSCoupons_def Let_def date_def
      isRegular_def new_CMSCoupon_def cast_failure_def)

lemma CMSZero_regular_periods_pushes:
  "list_all fresh_CMSCoupon leg \<Longrightarrow>
   stage_pushes_CMSCoupons (CMSZero_regular_periods schedule pa paymentDate nominals index
       fixingDays dayCounter gearings spreads caps floors meanReversions pricer i e leg)"
proof (induction "sch_size schedule - 1 - i" arbitrary: i e leg)
  case 0
  then have "\<not> i < sch_size schedule - 1" by simp
  with 0 show ?case
    by (subst CMSZero_regular_periods.simps) (simp add: stage_pushes_CMSCoupons_def)
next
  case (Suc k)
  then have lt: "i < sch_size schedule - 1" by simp
  show ?case
  proof (cases "date schedule i")
    case (Inl err)
    then have "err \<noteq> cast_failure"
      by (auto simp add: date_def cast_failure_def split: if_splits)
    with Inl lt show ?thesis
      by (subst CMSZero_regular_periods.simps) (simp add: stage_pushes_CMSCoupons_def)
  next
    case (Inr d)
    let ?c = "new_CMSCoupon (get nominals (i - 1) Null_Real) paymentDate index
                e d fixingDays dayCounter pricer
                (get gearings (i - 1) 1.0) (get spreads (i - 1) 0.0)
                (get caps (i - 1) Null_Real) (get floors (i - 1) Null_Real)
                (get meanReversions (i - 1) Null_Real)
                e d CMSCoupon_default_isInArrears"
    have step: "CMSZero_regular_periods schedule pa paymentDate nominals index fixingDays
        dayCounter gearings spreads caps floors meanReversions pricer i e leg =
        CMSZero_regular_periods schedule pa paymentDate nominals index fixingDays
            dayCounter gearings spreads caps floors meanReversions pricer (i + 1) d (leg @
            [?c])"
      using lt Inr by (subst CMSZero_regular_periods.simps) (simp add: Let_def)
    have "list_all fresh_CMSCoupon (leg @ [?c])"
      using Suc.prems by (simp add: new_CMSCoupon_def)
    moreover from Suc.hyps(2) have "k = sch_size schedule - 1 - (i + 1)" by simp
    ultimately show ?thesis
      unfolding step by (rule Suc.hyps(1) [rotated])
  qed
qed

lemma CMSZero_last_period_pushes:
  "list_all fresh_CMSCoupon leg \<Longrightarrow>
   (case CMSZero_last_period ar schedule pa paymentDate nominals index fixingDays
       dayCounter gearings spreads caps floors meanReversions pricer N e leg of
      Inl (err, l) \<Rightarrow> err \<noteq> cast_failure
    | Inr leg' \<Rightarrow> list_all fresh_CMSCoupon leg')"
  by (simp add: CMSZero_last_period_def Let_def date_def isRegular_def new_CMSCoupon_def
      cast_failure_def)

lemma CMSZeroCouponVector_attaches:
  "case CMSZeroCouponVector ar schedule pa nominals index fixingDays dayCounter gearings
      spreads caps floors meanReversions pricer vol of
     Inl (err, l) \<Rightarrow> err \<noteq> cast_failure
   | Inr leg \<Rightarrow> list_all (attached_once vol) leg"
proof (cases "nominals = []")
  case True
  then show ?thesis
    by (simp add: CMSZeroCouponVector_def cast_failure_def)
next
  case ne: False
  show ?thesis
  proof (cases "date schedule (sch_size schedule - 1)")
    case (Inl e)
    then show ?thesis
      using ne by (auto simp add: CMSZeroCouponVector_def Let_def date_def cast_failure_def
          split: if_splits)
  next
    case (Inr d)
    let ?pd = "adjust (sch_calendar schedule) d pa"
    note dN = Inr
    have first: "stage_pushes_CMSCoupons
        (CMSZero_first_period ar schedule pa ?pd nominals index fixingDays dayCounter
            gearings spreads caps floors meanReversions pricer [])"
      by (rule CMSZero_first_period_pushes) simp
    show ?thesis
    proof (cases "CMSZero_first_period ar schedule pa ?pd nominals index fixingDays
        dayCounter gearings spreads caps floors meanReversions pricer []")
      case (Inl f)
      with first ne dN show ?thesis
        by (simp add: CMSZeroCouponVector_def Let_def stage_pushes_CMSCoupons_def split:
            prod.splits)
    next
      case r1: (Inr r)
      obtain e1 leg1 where r: "r = (e1, leg1)" by (cases r)
      with first r1 have fresh1: "list_all fresh_CMSCoupon leg1"
        by (simp add: stage_pushes_CMSCoupons_def)
      have loop: "stage_pushes_CMSCoupons
          (CMSZero_regular_periods schedule pa ?pd nominals index fixingDays dayCounter
              gearings spreads caps floors meanReversions pricer 2 e1 leg1)"
        by (rule CMSZero_regular_periods_pushes [OF fresh1])
      show ?thesis
      proof (cases "CMSZero_regular_periods schedule pa ?pd nominals index fixingDays
          dayCounter gearings spreads caps floors meanReversions pricer 2 e1 leg1")
        case (Inl f)
        with loop ne r1 r dN show ?thesis
          by (simp add: CMSZeroCouponVector_def Let_def stage_pushes_CMSCoupons_def split:
              prod.splits)
      next
        case r2: (Inr r')
        obtain e2 leg2 where r': "r' = (e2, leg2)" by (cases r')
        with loop r2 have fresh2: "list_all fresh_CMSCoupon leg2"
          by (simp add: stage_pushes_CMSCoupons_def)
        note last = CMSZero_last_period_pushes [OF fresh2, of ar schedule pa ?pd nominals
            index fixingDays dayCounter gearings spreads caps floors meanReversions pricer
            "sch_size schedule" e2]
        show ?thesis
        proof (cases "CMSZero_last_period ar schedule pa ?pd nominals index fixingDays
            dayCounter gearings spreads caps floors meanReversions pricer
            (sch_size schedule) e2 leg2")
          case (Inl f)
          with last ne r1 r r2 r' dN show ?thesis
            by (simp add: CMSZeroCouponVector_def Let_def split: prod.splits)
        next
          case r3: (Inr leg3)
          with last have fresh3: "list_all fresh_CMSCoupon leg3" by simp
          have "attach_swaptionVolatility leg3 vol 0 = Inr (map (attached vol) leg3)"
            by (rule attach_swaptionVolatility_all)
               (use fresh3 in \<open>auto simp add: list_all_iff dest: fresh_is_CMSCoupon\<close>)
          moreover have "list_all (attached_once vol) (map (attached vol) leg3)"
            using fresh3 by (auto simp add: list_all_iff dest: fresh_attached_once)
          ultimately show ?thesis
            using ne r1 r r2 r' r3 dN by (simp add: CMSZeroCouponVector_def Let_def)
        qed
      qed
    qed
  qed
qed

lemma CMSInArrears_first_period_pushes:
  "list_all fresh_CMSCoupon leg \<Longrightarrow>
   stage_pushes_CMSCoupons (CMSInArrears_first_period ar schedule pa nominals index
       fixingDays dayCounter gearings spreads caps floors meanReversions pricer leg)"
  by (simp add: CMSInArrears_first_period_def stage_pushes_CMSCoupons_def Let_def date_def
      isRegular_def new_CMSCoupon_def cast_failure_def)

lemma CMSInArrears_regular_periods_pushes:
  "list_all fresh_CMSCoupon leg \<Longrightarrow>
   stage_pushes_CMSCoupons (CMSInArrears_regular_periods schedule pa nominals index
       fixingDays dayCounter gearings spreads caps floors meanReversions pricer i e leg)"
proof (induction "sch_size schedule - 1 - i" arbitrary: i e leg)
  case 0
  then have "\<not> i < sch_size schedule - 1" by simp
  with 0 show ?case
    by (subst CMSInArrears_regular_periods.simps) (simp add: stage_pushes_CMSCoupons_def)
next
  case (Suc k)
  then have lt: "i < sch_size schedule - 1" by simp
  show ?case
  proof (cases "date schedule i")
    case (Inl err)
    then have "err \<noteq> cast_failure"
      by (auto simp add: date_def cast_failure_def split: if_splits)
    with Inl lt show ?thesis
      by (subst CMSInArrears_regular_periods.simps) (simp add: stage_pushes_CMSCoupons_def)
  next
    case (Inr d)
    let ?c = "new_CMSCoupon (get nominals (i - 1) Null_Real) (adjust (sch_calendar
        schedule) d pa) index
                e d fixingDays dayCounter pricer
                (get gearings (i - 1) 1.0) (get spreads (i - 1) 0.0)
                (get caps (i - 1) Null_Real) (get floors (i - 1) Null_Real)
                (get meanReversions (i - 1) Null_Real)
                e d True"
    have step: "CMSInArrears_regular_periods schedule pa nominals index fixingDays
        dayCounter gearings spreads caps floors meanReversions pricer i e leg =
        CMSInArrears_regular_periods schedule pa nominals index fixingDays dayCounter
            gearings spreads caps floors meanReversions pricer (i + 1) d (leg @ [?c])"
      using lt Inr by (subst CMSInArrears_regular_periods.simps) (simp add: Let_def)
    have "list_all fresh_CMSCoupon (leg @ [?c])"
      using Suc.prems by (simp add: new_CMSCoupon_def)
    moreover from Suc.hyps(2) have "k = sch_size schedule - 1 - (i + 1)" by simp
    ultimately show ?thesis
      unfolding step by (rule Suc.hyps(1) [rotated])
  qed
qed

lemma CMSInArrears_last_period_pushes:
  "list_all fresh_CMSCoupon leg \<Longrightarrow>
   (case CMSInArrears_last_period ar schedule pa nominals index fixingDays dayCounter
       gearings spreads caps floors meanReversions pricer N e leg of
      Inl (err, l) \<Rightarrow> err \<noteq> cast_failure
    | Inr leg' \<Rightarrow> list_all fresh_CMSCoupon leg')"
  by (simp add: CMSInArrears_last_period_def Let_def date_def isRegular_def new_CMSCoupon_def
      cast_failure_def)

lemma CMSInArrearsCouponVector_attaches:
  "case CMSInArrearsCouponVector ar schedule pa nominals index fixingDays dayCounter
      gearings spreads caps floors meanReversions pricer vol of
     Inl (err, l) \<Rightarrow> err \<noteq> cast_failure
   | Inr leg \<Rightarrow> list_all (attached_once vol) leg"
proof (cases "nominals = []")
  case True
  then show ?thesis
    by (simp add: CMSInArrearsCouponVector_def cast_failure_def)
next
  case ne: False
  show ?thesis
  proof -
    have first: "stage_pushes_CMSCoupons
        (CMSInArrears_first_period ar schedule pa nominals index fixingDays dayCounter
            gearings spreads caps floors meanReversions pricer [])"
      by (rule CMSInArrears_first_period_pushes) simp
    show ?thesis
    proof (cases "CMSInArrears_first_period ar schedule pa nominals index fixingDays
        dayCounter gearings spreads caps floors meanReversions pricer []")
      case (Inl f)
      with first ne show ?thesis
        by (simp add: CMSInArrearsCouponVector_def Let_def stage_pushes_CMSCoupons_def
            split: prod.splits)
    next
      case r1: (Inr r)
      obtain e1 leg1 where r: "r = (e1, leg1)" by (cases r)
      with first r1 have fresh1: "list_all fresh_CMSCoupon leg1"
        by (simp add: stage_pushes_CMSCoupons_def)
      have loop: "stage_pushes_CMSCoupons
          (CMSInArrears_regular_periods schedule pa nominals index fixingDays dayCounter
              gearings spreads caps floors meanReversions pricer 2 e1 leg1)"
        by (rule CMSInArrears_regular_periods_pushes [OF fresh1])
      show ?thesis
      proof (cases "CMSInArrears_regular_periods schedule pa nominals index fixingDays
          dayCounter gearings spreads caps floors meanReversions pricer 2 e1 leg1")
        case (Inl f)
        with loop ne r1 r show ?thesis
          by (simp add: CMSInArrearsCouponVector_def Let_def stage_pushes_CMSCoupons_def
              split: prod.splits)
      next
        case r2: (Inr r')
        obtain e2 leg2 where r': "r' = (e2, leg2)" by (cases r')
        with loop r2 have fresh2: "list_all fresh_CMSCoupon leg2"
          by (simp add: stage_pushes_CMSCoupons_def)
        note last = CMSInArrears_last_period_pushes [OF fresh2, of ar schedule pa nominals
            index fixingDays dayCounter gearings spreads caps floors meanReversions pricer
            "sch_size schedule" e2]
        show ?thesis
        proof (cases "CMSInArrears_last_period ar schedule pa nominals index fixingDays
            dayCounter gearings spreads caps floors meanReversions pricer
            (sch_size schedule) e2 leg2")
          case (Inl f)
          with last ne r1 r r2 r' show ?thesis
            by (simp add: CMSInArrearsCouponVector_def Let_def split: prod.splits)
        next
          case r3: (Inr leg3)
          with last have fresh3: "list_all fresh_CMSCoupon leg3" by simp
          have "attach_swaptionVolatility leg3 vol 0 = Inr (map (attached vol) leg3)"
            by (rule attach_swaptionVolatility_all)
               (use fresh3 in \<open>auto simp add: list_all_iff dest: fresh_is_CMSCoupon\<close>)
          moreover have "list_all (attached_once vol) (map (attached vol) leg3)"
            using fresh3 by (auto simp add: list_all_iff dest: fresh_attached_once)
          ultimately show ?thesis
            using ne r1 r r2 r' r3 by (simp add: CMSInArrearsCouponVector_def Let_def)
        qed
      qed
    qed
  qed
qed

subsection \<open>The builders on the example schedule\<close>

lemma well_formed_stub_schedule: "well_formed stub_schedule"
  by (simp add: well_formed_def stub_schedule_def)

lemma well_formed_single_period_schedule: "well_formed single_period_schedule"
  by (simp add: well_formed_def single_period_schedule_def)

lemma length_stub_schedule: "length (sch_dates stub_schedule) = 5"
  by (simp add: stub_schedule_def)

lemma stub_FixedRate_returns:
  "\<exists>leg. FixedRateCouponVector thirty_day_months stub_schedule pa [1000] [0.03, 0.035]
     dayCount NoDayCounter = Inr leg"
  using FixedRateCouponVector_closed [OF well_formed_stub_schedule,
      of "[1000]" "[0.03, 0.035]" NoDayCounter dayCount thirty_day_months pa]
  by (simp add: dc_empty_def)

lemma stub_CMS_returns:
  "\<exists>leg. CMSCouponVector thirty_day_months stub_schedule pa [1000] index lag dayCount
     gearings spreads caps floors meanReversions pricer vol = Inr leg"
  using CMSCouponVector_closed [OF well_formed_stub_schedule, of "[1000]"] by simp

lemma stub_CMSZero_returns:
  "\<exists>leg. CMSZeroCouponVector thirty_day_months stub_schedule pa [1000] index lag dayCount
     gearings spreads caps floors meanReversions pricer vol = Inr leg"
  using CMSZeroCouponVector_closed [OF well_formed_stub_schedule, of "[1000]"] by simp

lemma stub_CMSInArrears_returns:
  "\<exists>leg. CMSInArrearsCouponVector thirty_day_months stub_schedule pa [1000] index lag
     dayCount gearings spreads caps floors meanReversions pricer vol = Inr leg"
  using CMSInArrearsCouponVector_closed [OF well_formed_stub_schedule, of "[1000]"] by simp

section \<open>The claims\<close>

text \<open>
  C2.  The broadcaster \<open>get\<close> returns the default on an empty vector, the element
  at the index when the index is in range, and the last element otherwise.  It is a
  total function: each of its vector reads is guarded by the test that makes it in
  range, so its value is always the default or an element of the vector.
\<close>

theorem get_broadcasts:
  "(length v = 0 \<longrightarrow> get v i d = d) \<and>
   (i < length v \<longrightarrow> get v i d = v ! i) \<and>
   (0 < length v \<and> length v \<le> i \<longrightarrow> get v i d = v ! (length v - 1)) \<and>
   (get v i d = d \<or> get v i d \<in> set v)"
  by (auto simp add: get_def last_conv_nth)

theorem get_broadcasts_witness:
  "get [] 3 7 = 7 \<and> get [1000, 2000] 1 7 = 2000 \<and> get [1000, 2000] 3 7 = 2000"
  using get_broadcasts [of "[]" 3 7] get_broadcasts [of "[1000, 2000]" 1 7]
    get_broadcasts [of "[1000, 2000]" 3 7]
  by simp

text \<open>
  C1.  On a schedule of \<open>N \<ge> 2\<close> dates with its \<open>N - 1\<close> regularity flags, each of
  the four builders returns a leg when its preconditions hold, and every leg a
  builder returns has exactly \<open>N - 1\<close> coupons.  When \<open>N = 2\<close> the leg is the one
  coupon the first-period branch has pushed (with the volatility attached, for the
  CMS builders), and the last-period branch hands the leg on unchanged.
\<close>

theorem one_coupon_per_period:
  assumes wf: "well_formed schedule"
  shows
    "(couponRates \<noteq> [] \<and> nominals \<noteq> [] \<and>
      (sch_isRegular schedule ! 0 \<longrightarrow> dc_empty fpdc \<or> fpdc = dayCount) \<longrightarrow>
      (\<exists>leg. FixedRateCouponVector ar schedule pa nominals couponRates dayCount fpdc
               = Inr leg)) \<and>
     (nominals \<noteq> [] \<longrightarrow>
      (\<exists>leg. CMSCouponVector ar schedule pa nominals index lag dayCount gearings spreads
               caps floors meanReversions pricer vol = Inr leg) \<and>
      (\<exists>leg. CMSZeroCouponVector ar schedule pa nominals index lag dayCount gearings
               spreads caps floors meanReversions pricer vol = Inr leg) \<and>
      (\<exists>leg. CMSInArrearsCouponVector ar schedule pa nominals index lag dayCount gearings
               spreads caps floors meanReversions pricer vol = Inr leg)) \<and>
     (\<forall>leg. FixedRateCouponVector ar schedule pa nominals couponRates dayCount fpdc
              = Inr leg \<longrightarrow>
        length leg = length (sch_dates schedule) - 1 \<and>
        (length (sch_dates schedule) = 2 \<longrightarrow>
           (\<exists>e. FixedRate_first_period ar schedule pa nominals couponRates dayCount fpdc []
                  = Inr (e, leg) \<and>
                FixedRate_last_period ar schedule pa nominals couponRates dayCount e leg
                  = Inr leg))) \<and>
     (\<forall>leg. CMSCouponVector ar schedule pa nominals index lag dayCount gearings spreads
              caps floors meanReversions pricer vol = Inr leg \<longrightarrow>
        length leg = length (sch_dates schedule) - 1 \<and>
        (length (sch_dates schedule) = 2 \<longrightarrow>
           (\<exists>e c. CMS_first_period ar schedule pa nominals index lag dayCount gearings
                    spreads caps floors meanReversions pricer [] = Inr (e, [c]) \<and>
                  CMS_last_period ar schedule pa nominals index lag dayCount gearings
                    spreads caps floors meanReversions pricer 2 e [c] = Inr [c] \<and>
                  leg = [attached vol c]))) \<and>
     (\<forall>leg. CMSZeroCouponVector ar schedule pa nominals index lag dayCount gearings
              spreads caps floors meanReversions pricer vol = Inr leg \<longrightarrow>
        length leg = length (sch_dates schedule) - 1 \<and>
        (length (sch_dates schedule) = 2 \<longrightarrow>
           (\<exists>e c. CMSZero_first_period ar schedule pa
                    (adjust (sch_calendar schedule) (sch_dates schedule ! 1) pa)
                    nominals index lag dayCount gearings
                    spreads caps floors meanReversions pricer [] = Inr (e, [c]) \<and>
                  CMSZero_last_period ar schedule pa
                    (adjust (sch_calendar schedule) (sch_dates schedule ! 1) pa)
                    nominals index lag dayCount gearings
                    spreads caps floors meanReversions pricer 2 e [c] = Inr [c] \<and>
                  leg = [attached vol c]))) \<and>
     (\<forall>leg. CMSInArrearsCouponVector ar schedule pa nominals index lag dayCount gearings
              spreads caps floors meanReversions pricer vol = Inr leg \<longrightarrow>
        length leg = length (sch_dates schedule) - 1 \<and>
        (length (sch_dates schedule) = 2 \<longrightarrow>
           (\<exists>e c. CMSInArrears_first_period ar schedule pa nominals index lag dayCount
                    gearings spreads caps floors meanReversions pricer [] = Inr (e, [c]) \<and>
                  CMSInArrears_last_period ar schedule pa nominals index lag dayCount
                    gearings spreads caps floors meanReversions pricer 2 e [c] = Inr [c] \<and>
                  leg = [attached vol c])))"
    (is "?F_returns \<and> ?C_return \<and> ?F \<and> ?C \<and> ?Z \<and> ?A")
proof -
  let ?N = "length (sch_dates schedule)"
  have skip: "?N = 2 \<Longrightarrow> \<not> 2 < sch_size schedule"
    by (simp add: sch_size_def)
  have att: "attached vol
      (spec_CMS_coupon ar schedule pa nominals index lag dayCount gearings spreads caps
         floors meanReversions pricer z a [] 0) =
      spec_CMS_coupon ar schedule pa nominals index lag dayCount gearings spreads caps
         floors meanReversions pricer z a [vol] 0" for z a
    by (simp add: spec_CMS_coupon_def setSwaptionVolatility_def)
  have one: "?N = 2 \<Longrightarrow> map f [0 ..< ?N - 1] = [f 0]" for f :: "nat \<Rightarrow> CashFlow"
    by simp
  have ?F_returns
    using FixedRateCouponVector_closed [OF wf, of nominals couponRates fpdc dayCount ar pa]
    by simp
  moreover have ?C_return
    using CMSCouponVector_closed [OF wf, of nominals ar pa index lag dayCount gearings
        spreads caps floors meanReversions pricer vol]
      CMSZeroCouponVector_closed [OF wf, of nominals ar pa index lag dayCount gearings
        spreads caps floors meanReversions pricer vol]
      CMSInArrearsCouponVector_closed [OF wf, of nominals ar pa index lag dayCount gearings
        spreads caps floors meanReversions pricer vol]
    by simp
  moreover have ?F
  proof (intro allI impI conjI)
    fix leg
    assume ok: "FixedRateCouponVector ar schedule pa nominals couponRates dayCount fpdc
      = Inr leg"
    note r = FixedRateCouponVector_Inr [OF wf ok]
    from r show "length leg = ?N - 1" by simp
    assume N: "?N = 2"
    from r have first: "FixedRate_first_period ar schedule pa nominals couponRates dayCount
        fpdc [] = Inr (sch_dates schedule ! 1, leg)"
      using FixedRate_first_period_closed [OF wf, of nominals couponRates fpdc dayCount ar pa]
        one [OF N] by simp
    have "FixedRate_last_period ar schedule pa nominals couponRates dayCount
        (sch_dates schedule ! 1) leg = Inr leg"
      using skip [OF N] by (simp add: FixedRate_last_period_def)
    with first show "\<exists>e. FixedRate_first_period ar schedule pa nominals couponRates
        dayCount fpdc [] = Inr (e, leg) \<and>
        FixedRate_last_period ar schedule pa nominals couponRates dayCount e leg = Inr leg"
      by blast
  qed
  moreover have ?C
  proof (intro allI impI conjI)
    fix leg
    assume ok: "CMSCouponVector ar schedule pa nominals index lag dayCount gearings spreads
      caps floors meanReversions pricer vol = Inr leg"
    note r = CMSCouponVector_Inr [OF wf ok]
    from r show "length leg = ?N - 1" by simp
    assume N: "?N = 2"
    let ?c = "spec_CMS_coupon ar schedule pa nominals index lag dayCount gearings spreads
      caps floors meanReversions pricer False False [] 0"
    have "CMS_first_period ar schedule pa nominals index lag dayCount gearings
        spreads caps floors meanReversions pricer [] = Inr (sch_dates schedule ! 1, [?c])"
      by (rule CMS_first_period_closed [OF wf])
    moreover have "CMS_last_period ar schedule pa nominals index lag dayCount gearings
        spreads caps floors meanReversions pricer 2 (sch_dates schedule ! 1) [?c] = Inr [?c]"
      using skip [OF N] by (simp add: CMS_last_period_def)
    moreover from r have "leg = [attached vol ?c]"
      using one [OF N] by (simp add: att)
    ultimately show "\<exists>e c. CMS_first_period ar schedule pa nominals index lag dayCount
        gearings spreads caps floors meanReversions pricer [] = Inr (e, [c]) \<and>
        CMS_last_period ar schedule pa nominals index lag dayCount gearings
          spreads caps floors meanReversions pricer 2 e [c] = Inr [c] \<and>
        leg = [attached vol c]"
      by blast
  qed
  moreover have ?Z
  proof (intro allI impI conjI)
    fix leg
    assume ok: "CMSZeroCouponVector ar schedule pa nominals index lag dayCount gearings
      spreads caps floors meanReversions pricer vol = Inr leg"
    note r = CMSZeroCouponVector_Inr [OF wf ok]
    from r show "length leg = ?N - 1" by simp
    assume N: "?N = 2"
    let ?c = "spec_CMS_coupon ar schedule pa nominals index lag dayCount gearings spreads
      caps floors meanReversions pricer True False [] 0"
    let ?pd = "adjust (sch_calendar schedule) (sch_dates schedule ! 1) pa"
    have "CMSZero_first_period ar schedule pa ?pd nominals index lag dayCount gearings
        spreads caps floors meanReversions pricer [] = Inr (sch_dates schedule ! 1, [?c])"
      using CMSZero_first_period_closed [OF wf, of ar pa nominals index lag dayCount
          gearings spreads caps floors meanReversions pricer] N
      by simp
    moreover have "CMSZero_last_period ar schedule pa ?pd nominals index lag dayCount
        gearings spreads caps floors meanReversions pricer 2 (sch_dates schedule ! 1) [?c]
        = Inr [?c]"
      using skip [OF N] by (simp add: CMSZero_last_period_def)
    moreover from r have "leg = [attached vol ?c]"
      using one [OF N] by (simp add: att)
    ultimately show "\<exists>e c. CMSZero_first_period ar schedule pa ?pd nominals index lag
        dayCount gearings spreads caps floors meanReversions pricer [] = Inr (e, [c]) \<and>
        CMSZero_last_period ar schedule pa ?pd nominals index lag dayCount gearings
          spreads caps floors meanReversions pricer 2 e [c] = Inr [c] \<and>
        leg = [attached vol c]"
      by blast
  qed
  moreover have ?A
  proof (intro allI impI conjI)
    fix leg
    assume ok: "CMSInArrearsCouponVector ar schedule pa nominals index lag dayCount
      gearings spreads caps floors meanReversions pricer vol = Inr leg"
    note r = CMSInArrearsCouponVector_Inr [OF wf ok]
    from r show "length leg = ?N - 1" by simp
    assume N: "?N = 2"
    let ?c = "spec_CMS_coupon ar schedule pa nominals index lag dayCount gearings spreads
      caps floors meanReversions pricer False True [] 0"
    have "CMSInArrears_first_period ar schedule pa nominals index lag dayCount gearings
        spreads caps floors meanReversions pricer [] = Inr (sch_dates schedule ! 1, [?c])"
      by (rule CMSInArrears_first_period_closed [OF wf])
    moreover have "CMSInArrears_last_period ar schedule pa nominals index lag dayCount
        gearings spreads caps floors meanReversions pricer 2 (sch_dates schedule ! 1) [?c]
        = Inr [?c]"
      using skip [OF N] by (simp add: CMSInArrears_last_period_def)
    moreover from r have "leg = [attached vol ?c]"
      using one [OF N] by (simp add: att)
    ultimately show "\<exists>e c. CMSInArrears_first_period ar schedule pa nominals index lag
        dayCount gearings spreads caps floors meanReversions pricer [] = Inr (e, [c]) \<and>
        CMSInArrears_last_period ar schedule pa nominals index lag dayCount gearings
          spreads caps floors meanReversions pricer 2 e [c] = Inr [c] \<and>
        leg = [attached vol c]"
      by blast
  qed
  ultimately show ?thesis
    by (intro conjI)
qed

theorem one_coupon_per_period_witness:
  "well_formed stub_schedule \<and> well_formed single_period_schedule \<and>
   (\<exists>leg. FixedRateCouponVector thirty_day_months stub_schedule Following [1000]
            [0.03, 0.035] (NamedDayCounter ''Actual/360'') NoDayCounter = Inr leg \<and>
          length leg = 4) \<and>
   (\<exists>leg. CMSCouponVector thirty_day_months stub_schedule Following [1000] 1 2
            (NamedDayCounter ''Actual/360'') [] [] [] [] [] 1 7 = Inr leg \<and>
          length leg = 4) \<and>
   (\<exists>leg. CMSZeroCouponVector thirty_day_months stub_schedule Following [1000] 1 2
            (NamedDayCounter ''Actual/360'') [] [] [] [] [] 1 7 = Inr leg \<and>
          length leg = 4) \<and>
   (\<exists>leg. CMSInArrearsCouponVector thirty_day_months stub_schedule Following [1000] 1 2
            (NamedDayCounter ''Actual/360'') [] [] [] [] [] 1 7 = Inr leg \<and>
          length leg = 4) \<and>
   (\<exists>leg. FixedRateCouponVector thirty_day_months single_period_schedule Following [1000]
            [0.03, 0.035] (NamedDayCounter ''Actual/360'') NoDayCounter = Inr leg \<and>
          length leg = 1) \<and>
   (\<exists>leg. CMSCouponVector thirty_day_months single_period_schedule Following [1000] 1 2
            (NamedDayCounter ''Actual/360'') [] [] [] [] [] 1 7 = Inr leg \<and>
          length leg = 1)"
proof -
  have wf: "well_formed stub_schedule" "well_formed single_period_schedule"
    by (simp_all add: well_formed_def stub_schedule_def single_period_schedule_def)
  have n: "length (sch_dates stub_schedule) - 1 = 4"
    "length (sch_dates single_period_schedule) - 1 = 1"
    by (simp_all add: stub_schedule_def single_period_schedule_def)
  have dc: "dc_empty NoDayCounter"
    by (simp add: dc_empty_def)
  show ?thesis
    using wf n dc
      one_coupon_per_period [OF wf(1), where nominals = "[1000]"
        and couponRates = "[0.03, 0.035]" and fpdc = NoDayCounter
        and dayCount = "NamedDayCounter ''Actual/360''" and ar = thirty_day_months
        and pa = Following and index = 1 and lag = 2 and gearings = "[]"
        and spreads = "[]" and caps = "[]" and floors = "[]" and meanReversions = "[]"
        and pricer = 1 and vol = 7]
      one_coupon_per_period [OF wf(2), where nominals = "[1000]"
        and couponRates = "[0.03, 0.035]" and fpdc = NoDayCounter
        and dayCount = "NamedDayCounter ''Actual/360''" and ar = thirty_day_months
        and pa = Following and index = 1 and lag = 2 and gearings = "[]"
        and spreads = "[]" and caps = "[]" and floors = "[]" and meanReversions = "[]"
        and pricer = 1 and vol = 7]
    by (simp del: One_nat_def) blast
qed

text \<open>
  C3.  In the leg of every builder the coupon of period \<open>j\<close> (0-based) carries the
  nominal and the rate parameters that the broadcast rule gives at index \<open>j\<close>: the
  first period reads index 0, the loop at source index \<open>i\<close> builds period \<open>i - 1\<close>
  and reads index \<open>i - 1\<close>, the last period reads \<open>N - 2\<close>.  The fixed-rate builder
  requires its two arrays to be non-empty, so the default of the broadcast rule does
  not matter there.  Each builder returns such a leg whenever its preconditions hold
  (non-empty arrays and, for the fixed-rate builder, an accepted first-period day
  count).
\<close>

theorem parameters_read_at_period_index:
  assumes wf: "well_formed schedule" and j: "j < length (sch_dates schedule) - 1"
  shows
    "(\<forall>leg. FixedRateCouponVector ar schedule pa nominals couponRates dayCount fpdc
              = Inr leg \<longrightarrow>
        (\<exists>c. leg ! j = FixedRateCoupon c \<and>
              frc_nominal c = get nominals j dn \<and> frc_rate c = get couponRates j dr)) \<and>
     (\<forall>leg. CMSCouponVector ar schedule pa nominals index lag dayCount gearings spreads
              caps floors meanReversions pricer vol = Inr leg \<longrightarrow>
        (\<exists>c. leg ! j = CMSCoupon c \<and>
              cms_nominal c = get nominals j Null_Real \<and>
              cms_gearing c = get gearings j 1.0 \<and>
              cms_spread c = get spreads j 0.0 \<and>
              cms_cap c = get caps j Null_Real \<and>
              cms_floor c = get floors j Null_Real \<and>
              cms_meanReversion c = get meanReversions j Null_Real)) \<and>
     (\<forall>leg. CMSZeroCouponVector ar schedule pa nominals index lag dayCount gearings
              spreads caps floors meanReversions pricer vol = Inr leg \<longrightarrow>
        (\<exists>c. leg ! j = CMSCoupon c \<and>
              cms_nominal c = get nominals j Null_Real \<and>
              cms_gearing c = get gearings j 1.0 \<and>
              cms_spread c = get spreads j 0.0 \<and>
              cms_cap c = get caps j Null_Real \<and>
              cms_floor c = get floors j Null_Real \<and>
              cms_meanReversion c = get meanReversions j Null_Real)) \<and>
     (\<forall>leg. CMSInArrearsCouponVector ar schedule pa nominals index lag dayCount gearings
              spreads caps floors meanReversions pricer vol = Inr leg \<longrightarrow>
        (\<exists>c. leg ! j = CMSCoupon c \<and>
              cms_nominal c = get nominals j Null_Real \<and>
              cms_gearing c = get gearings j 1.0 \<and>
              cms_spread c = get spreads j 0.0 \<and>
              cms_cap c = get caps j Null_Real \<and>
              cms_floor c = get floors j Null_Real \<and>
              cms_meanReversion c = get meanReversions j Null_Real)) \<and>
     (couponRates \<noteq> [] \<and> nominals \<noteq> [] \<and>
      (sch_isRegular schedule ! 0 \<longrightarrow> dc_empty fpdc \<or> fpdc = dayCount) \<longrightarrow>
      (\<exists>leg. FixedRateCouponVector ar schedule pa nominals couponRates dayCount fpdc
               = Inr leg)) \<and>
     (nominals \<noteq> [] \<longrightarrow>
      (\<exists>leg. CMSCouponVector ar schedule pa nominals index lag dayCount gearings
               spreads caps floors meanReversions pricer vol = Inr leg) \<and>
      (\<exists>leg. CMSZeroCouponVector ar schedule pa nominals index lag dayCount gearings
               spreads caps floors meanReversions pricer vol = Inr leg) \<and>
      (\<exists>leg. CMSInArrearsCouponVector ar schedule pa nominals index lag dayCount gearings
               spreads caps floors meanReversions pricer vol = Inr leg))"
    (is "?F \<and> ?C \<and> ?Z \<and> ?A \<and> ?RF \<and> ?RC")
proof -
  have nth: "map f [0 ..< length (sch_dates schedule) - 1] ! j = f j"
    for f :: "nat \<Rightarrow> CashFlow"
    using j by simp
  have ?F
  proof (intro allI impI)
    fix leg
    assume ok: "FixedRateCouponVector ar schedule pa nominals couponRates dayCount fpdc
      = Inr leg"
    note r = FixedRateCouponVector_Inr [OF wf ok]
    from r have "get nominals j dn = get nominals j 0"
      "get couponRates j dr = get couponRates j 0"
      by (simp_all add: get_def)
    moreover from r have "leg ! j =
        spec_FixedRate_coupon ar schedule pa nominals couponRates dayCount fpdc j"
      by (simp only: nth)
    ultimately show "\<exists>c. leg ! j = FixedRateCoupon c \<and>
        frc_nominal c = get nominals j dn \<and> frc_rate c = get couponRates j dr"
      by (simp add: spec_FixedRate_coupon_def)
  qed
  moreover have ?C
  proof (intro allI impI)
    fix leg
    assume ok: "CMSCouponVector ar schedule pa nominals index lag dayCount gearings spreads
      caps floors meanReversions pricer vol = Inr leg"
    from CMSCouponVector_Inr [OF wf ok] have "leg ! j =
        spec_CMS_coupon ar schedule pa nominals index lag dayCount gearings spreads
          caps floors meanReversions pricer False False [vol] j"
      by (simp only: nth)
    then show "\<exists>c. leg ! j = CMSCoupon c \<and>
        cms_nominal c = get nominals j Null_Real \<and>
        cms_gearing c = get gearings j 1.0 \<and>
        cms_spread c = get spreads j 0.0 \<and>
        cms_cap c = get caps j Null_Real \<and>
        cms_floor c = get floors j Null_Real \<and>
        cms_meanReversion c = get meanReversions j Null_Real"
      by (simp add: spec_CMS_coupon_def)
  qed
  moreover have ?Z
  proof (intro allI impI)
    fix leg
    assume ok: "CMSZeroCouponVector ar schedule pa nominals index lag dayCount gearings
      spreads caps floors meanReversions pricer vol = Inr leg"
    from CMSZeroCouponVector_Inr [OF wf ok] have "leg ! j =
        spec_CMS_coupon ar schedule pa nominals index lag dayCount gearings spreads
          caps floors meanReversions pricer True False [vol] j"
      by (simp only: nth)
    then show "\<exists>c. leg ! j = CMSCoupon c \<and>
        cms_nominal c = get nominals j Null_Real \<and>
        cms_gearing c = get gearings j 1.0 \<and>
        cms_spread c = get spreads j 0.0 \<and>
        cms_cap c = get caps j Null_Real \<and>
        cms_floor c = get floors j Null_Real \<and>
        cms_meanReversion c = get meanReversions j Null_Real"
      by (simp add: spec_CMS_coupon_def)
  qed
  moreover have ?A
  proof (intro allI impI)
    fix leg
    assume ok: "CMSInArrearsCouponVector ar schedule pa nominals index lag dayCount
      gearings spreads caps floors meanReversions pricer vol = Inr leg"
    from CMSInArrearsCouponVector_Inr [OF wf ok] have "leg ! j =
        spec_CMS_coupon ar schedule pa nominals index lag dayCount gearings spreads
          caps floors meanReversions pricer False True [vol] j"
      by (simp only: nth)
    then show "\<exists>c. leg ! j = CMSCoupon c \<and>
        cms_nominal c = get nominals j Null_Real \<and>
        cms_gearing c = get gearings j 1.0 \<and>
        cms_spread c = get spreads j 0.0 \<and>
        cms_cap c = get caps j Null_Real \<and>
        cms_floor c = get floors j Null_Real \<and>
        cms_meanReversion c = get meanReversions j Null_Real"
      by (simp add: spec_CMS_coupon_def)
  qed
  moreover have ?RF
    using FixedRateCouponVector_closed [OF wf, of nominals couponRates fpdc dayCount ar pa]
    by simp
  moreover have ?RC
    using CMSCouponVector_closed [OF wf, of nominals ar pa index lag dayCount gearings
        spreads caps floors meanReversions pricer vol]
      CMSZeroCouponVector_closed [OF wf, of nominals ar pa index lag dayCount gearings
        spreads caps floors meanReversions pricer vol]
      CMSInArrearsCouponVector_closed [OF wf, of nominals ar pa index lag dayCount gearings
        spreads caps floors meanReversions pricer vol]
    by simp
  ultimately show ?thesis
    by (intro conjI)
qed

theorem parameters_read_at_period_index_witness:
  "well_formed stub_schedule \<and> (3::nat) < length (sch_dates stub_schedule) - 1 \<and>
   (\<exists>leg c. FixedRateCouponVector thirty_day_months stub_schedule Following [1000]
        [0.03, 0.035] (NamedDayCounter ''Actual/360'') NoDayCounter = Inr leg \<and>
      leg ! 3 = FixedRateCoupon c \<and> frc_nominal c = 1000 \<and> frc_rate c = 0.035) \<and>
   (\<exists>leg c. CMSCouponVector thirty_day_months stub_schedule Following [1000] 1 2
        (NamedDayCounter ''Actual/360'') [2, 3] [] [] [] [] 1 7 = Inr leg \<and>
      leg ! 3 = CMSCoupon c \<and> cms_nominal c = 1000 \<and> cms_gearing c = 3 \<and>
      cms_spread c = 0 \<and> cms_cap c = Null_Real) \<and>
   (\<exists>leg c. CMSZeroCouponVector thirty_day_months stub_schedule Following [1000] 1 2
        (NamedDayCounter ''Actual/360'') [2, 3] [] [] [] [] 1 7 = Inr leg \<and>
      leg ! 3 = CMSCoupon c \<and> cms_nominal c = 1000 \<and> cms_gearing c = 3 \<and>
      cms_spread c = 0 \<and> cms_cap c = Null_Real) \<and>
   (\<exists>leg c. CMSInArrearsCouponVector thirty_day_months stub_schedule Following [1000] 1 2
        (NamedDayCounter ''Actual/360'') [2, 3] [] [] [] [] 1 7 = Inr leg \<and>
      leg ! 3 = CMSCoupon c \<and> cms_nominal c = 1000 \<and> cms_gearing c = 3 \<and>
      cms_spread c = 0 \<and> cms_cap c = Null_Real)"
proof -
  have j: "(3::nat) < length (sch_dates stub_schedule) - 1"
    by (simp add: length_stub_schedule)
  have ne: "[1000::real] \<noteq> []" "[0.03, 0.035::real] \<noteq> []"
    by simp_all
  have dc: "dc_empty NoDayCounter"
    by (simp add: dc_empty_def)
  note inst = parameters_read_at_period_index [OF well_formed_stub_schedule j,
      where ar = thirty_day_months
      and pa = Following and nominals = "[1000]"
      and couponRates = "[0.03, 0.035]" and dayCount = "NamedDayCounter ''Actual/360''"
      and fpdc = NoDayCounter and index = 1 and lag = 2 and gearings = "[2, 3]"
      and spreads = "[]" and caps = "[]" and floors = "[]" and meanReversions = "[]"
      and pricer = 1 and vol = 7 and dn = 0 and dr = 0]
  from inst ne dc obtain legF where F: "FixedRateCouponVector thirty_day_months stub_schedule Following [1000]
        [0.03, 0.035] (NamedDayCounter ''Actual/360'') NoDayCounter = Inr legF"
    by blast
  from inst ne dc obtain legC where C: "CMSCouponVector thirty_day_months stub_schedule Following [1000] 1 2
        (NamedDayCounter ''Actual/360'') [2, 3] [] [] [] [] 1 7 = Inr legC"
    by blast
  from inst ne dc obtain legZ where Z: "CMSZeroCouponVector thirty_day_months stub_schedule Following [1000] 1 2
        (NamedDayCounter ''Actual/360'') [2, 3] [] [] [] [] 1 7 = Inr legZ"
    by blast
  from inst ne dc obtain legA where A: "CMSInArrearsCouponVector thirty_day_months stub_schedule Following [1000] 1 2
        (NamedDayCounter ''Actual/360'') [2, 3] [] [] [] [] 1 7 = Inr legA"
    by blast
  from inst F obtain c where cF: "legF ! 3 = FixedRateCoupon c"
    "frc_nominal c = get [1000] 3 0" "frc_rate c = get [0.03, 0.035] 3 0"
    by blast
  from inst C obtain cC where cC: "legC ! 3 = CMSCoupon cC"
    "cms_nominal cC = get [1000] 3 Null_Real" "cms_gearing cC = get [2, 3] 3 1.0"
    "cms_spread cC = get [] 3 0.0" "cms_cap cC = get [] 3 Null_Real"
    by blast
  from inst Z obtain cZ where cZ: "legZ ! 3 = CMSCoupon cZ"
    "cms_nominal cZ = get [1000] 3 Null_Real" "cms_gearing cZ = get [2, 3] 3 1.0"
    "cms_spread cZ = get [] 3 0.0" "cms_cap cZ = get [] 3 Null_Real"
    by blast
  from inst A obtain cA where cA: "legA ! 3 = CMSCoupon cA"
    "cms_nominal cA = get [1000] 3 Null_Real" "cms_gearing cA = get [2, 3] 3 1.0"
    "cms_spread cA = get [] 3 0.0" "cms_cap cA = get [] 3 Null_Real"
    by blast
  from cF cC cZ cA show ?thesis
    using F C Z A j well_formed_stub_schedule by (simp add: get_def)
qed

text \<open>
  C4.  In the legs of \<open>FixedRateCouponVector\<close>, \<open>CMSCouponVector\<close> and
  \<open>CMSInArrearsCouponVector\<close> the payment date of every coupon is its accrual end,
  adjusted on the schedule's calendar with \<open>paymentAdjustment\<close>.  In the leg of
  \<open>CMSZeroCouponVector\<close> the payment date of every coupon is the adjusted last date
  of the schedule, whatever the coupon's own accrual end is.  Each builder returns
  such a leg whenever its preconditions hold.
\<close>

theorem payment_dates:
  assumes wf: "well_formed schedule" and j: "j < length (sch_dates schedule) - 1"
  shows
    "(\<forall>leg. FixedRateCouponVector ar schedule pa nominals couponRates dayCount
              fpdc = Inr leg \<longrightarrow>
        cf_accrualEndDate (leg ! j) = sch_dates schedule ! (j + 1) \<and>
        cf_paymentDate (leg ! j) =
          adjust (sch_calendar schedule) (cf_accrualEndDate (leg ! j)) pa) \<and>
     (\<forall>leg. CMSCouponVector ar schedule pa nominals index lag dayCount gearings
              spreads caps floors meanReversions pricer vol = Inr leg \<longrightarrow>
        cf_accrualEndDate (leg ! j) = sch_dates schedule ! (j + 1) \<and>
        cf_paymentDate (leg ! j) =
          adjust (sch_calendar schedule) (cf_accrualEndDate (leg ! j)) pa) \<and>
     (\<forall>leg. CMSInArrearsCouponVector ar schedule pa nominals index lag dayCount gearings
              spreads caps floors meanReversions pricer vol = Inr leg \<longrightarrow>
        cf_accrualEndDate (leg ! j) = sch_dates schedule ! (j + 1) \<and>
        cf_paymentDate (leg ! j) =
          adjust (sch_calendar schedule) (cf_accrualEndDate (leg ! j)) pa) \<and>
     (\<forall>leg. CMSZeroCouponVector ar schedule pa nominals index lag dayCount gearings
              spreads caps floors meanReversions pricer vol = Inr leg \<longrightarrow>
        cf_accrualEndDate (leg ! j) = sch_dates schedule ! (j + 1) \<and>
        cf_paymentDate (leg ! j) =
          adjust (sch_calendar schedule) (sch_dates schedule ! (length (sch_dates schedule)
              - 1)) pa) \<and>
     (couponRates \<noteq> [] \<and> nominals \<noteq> [] \<and>
      (sch_isRegular schedule ! 0 \<longrightarrow> dc_empty fpdc \<or> fpdc = dayCount) \<longrightarrow>
      (\<exists>leg. FixedRateCouponVector ar schedule pa nominals couponRates dayCount fpdc
               = Inr leg)) \<and>
     (nominals \<noteq> [] \<longrightarrow>
      (\<exists>leg. CMSCouponVector ar schedule pa nominals index lag dayCount gearings
               spreads caps floors meanReversions pricer vol = Inr leg) \<and>
      (\<exists>leg. CMSZeroCouponVector ar schedule pa nominals index lag dayCount gearings
               spreads caps floors meanReversions pricer vol = Inr leg) \<and>
      (\<exists>leg. CMSInArrearsCouponVector ar schedule pa nominals index lag dayCount gearings
               spreads caps floors meanReversions pricer vol = Inr leg))"
    (is "?F \<and> ?C \<and> ?A \<and> ?Z \<and> ?RF \<and> ?RC")
proof -
  have nth: "map f [0 ..< length (sch_dates schedule) - 1] ! j = f j"
    for f :: "nat \<Rightarrow> CashFlow"
    using j by simp
  have ?F
  proof (intro allI impI)
    fix leg
    assume ok: "FixedRateCouponVector ar schedule pa nominals couponRates dayCount fpdc =
      Inr leg"
    from FixedRateCouponVector_Inr [OF wf ok] have "leg ! j = spec_FixedRate_coupon ar
      schedule pa nominals couponRates dayCount fpdc j"
      by (simp only: nth)
    then show "cf_accrualEndDate (leg ! j) = sch_dates schedule ! (j + 1) \<and>
      cf_paymentDate (leg ! j) = adjust (sch_calendar schedule) (cf_accrualEndDate (leg !
      j)) pa"
      using j by (simp add: spec_FixedRate_coupon_def spec_CMS_coupon_def)
  qed
  moreover have ?C
  proof (intro allI impI)
    fix leg
    assume ok: "CMSCouponVector ar schedule pa nominals index lag dayCount gearings spreads
      caps floors meanReversions pricer vol = Inr leg"
    from CMSCouponVector_Inr [OF wf ok] have "leg ! j = spec_CMS_coupon ar schedule pa
      nominals index lag dayCount gearings spreads caps floors meanReversions pricer False
      False [vol] j"
      by (simp only: nth)
    then show "cf_accrualEndDate (leg ! j) = sch_dates schedule ! (j + 1) \<and>
      cf_paymentDate (leg ! j) = adjust (sch_calendar schedule) (cf_accrualEndDate (leg !
      j)) pa"
      using j by (simp add: spec_FixedRate_coupon_def spec_CMS_coupon_def)
  qed
  moreover have ?A
  proof (intro allI impI)
    fix leg
    assume ok: "CMSInArrearsCouponVector ar schedule pa nominals index lag dayCount
      gearings spreads caps floors meanReversions pricer vol = Inr leg"
    from CMSInArrearsCouponVector_Inr [OF wf ok] have "leg ! j = spec_CMS_coupon ar
      schedule pa nominals index lag dayCount gearings spreads caps floors meanReversions
      pricer False True [vol] j"
      by (simp only: nth)
    then show "cf_accrualEndDate (leg ! j) = sch_dates schedule ! (j + 1) \<and>
      cf_paymentDate (leg ! j) = adjust (sch_calendar schedule) (cf_accrualEndDate (leg !
      j)) pa"
      using j by (simp add: spec_FixedRate_coupon_def spec_CMS_coupon_def)
  qed
  moreover have ?Z
  proof (intro allI impI)
    fix leg
    assume ok: "CMSZeroCouponVector ar schedule pa nominals index lag dayCount gearings
      spreads caps floors meanReversions pricer vol = Inr leg"
    from CMSZeroCouponVector_Inr [OF wf ok] have "leg ! j = spec_CMS_coupon ar schedule pa
      nominals index lag dayCount gearings spreads caps floors meanReversions pricer True
      False [vol] j"
      by (simp only: nth)
    then show "cf_accrualEndDate (leg ! j) = sch_dates schedule ! (j + 1) \<and>
      cf_paymentDate (leg ! j) = adjust (sch_calendar schedule) (sch_dates schedule !
      (length (sch_dates schedule) - 1)) pa"
      using j by (simp add: spec_FixedRate_coupon_def spec_CMS_coupon_def)
  qed
  moreover have ?RF
    using FixedRateCouponVector_closed [OF wf, of nominals couponRates fpdc dayCount ar pa]
    by simp
  moreover have ?RC
    using CMSCouponVector_closed [OF wf, of nominals ar pa index lag dayCount gearings
        spreads caps floors meanReversions pricer vol]
      CMSZeroCouponVector_closed [OF wf, of nominals ar pa index lag dayCount gearings
        spreads caps floors meanReversions pricer vol]
      CMSInArrearsCouponVector_closed [OF wf, of nominals ar pa index lag dayCount gearings
        spreads caps floors meanReversions pricer vol]
    by simp
  ultimately show ?thesis
    by (intro conjI)
qed

theorem payment_dates_witness:
  "well_formed stub_schedule \<and> (1::nat) < length (sch_dates stub_schedule) - 1 \<and>
   (\<exists>leg. FixedRateCouponVector thirty_day_months stub_schedule Following [1000]
        [0.03, 0.035] (NamedDayCounter ''Actual/360'') NoDayCounter = Inr leg \<and>
      cf_accrualEndDate (leg ! 1) = 40148 \<and> cf_paymentDate (leg ! 1) = 40148) \<and>
   (\<exists>leg. CMSCouponVector thirty_day_months stub_schedule Following [1000] 1 2
        (NamedDayCounter ''Actual/360'') [] [] [] [] [] 1 7 = Inr leg \<and>
      cf_accrualEndDate (leg ! 1) = 40148 \<and> cf_paymentDate (leg ! 1) = 40148) \<and>
   (\<exists>leg. CMSInArrearsCouponVector thirty_day_months stub_schedule Following [1000] 1 2
        (NamedDayCounter ''Actual/360'') [] [] [] [] [] 1 7 = Inr leg \<and>
      cf_accrualEndDate (leg ! 1) = 40148 \<and> cf_paymentDate (leg ! 1) = 40148) \<and>
   (\<exists>leg. CMSZeroCouponVector thirty_day_months stub_schedule Following [1000] 1 2
        (NamedDayCounter ''Actual/360'') [] [] [] [] [] 1 7 = Inr leg \<and>
      cf_accrualEndDate (leg ! 1) = 40148 \<and> cf_paymentDate (leg ! 1) = 40278)"
proof -
  have j: "(1::nat) < length (sch_dates stub_schedule) - 1"
    by (simp add: length_stub_schedule)
  have ne: "[1000::real] \<noteq> []" "[0.03, 0.035::real] \<noteq> []"
    by simp_all
  have dc: "dc_empty NoDayCounter"
    by (simp add: dc_empty_def)
  note inst = payment_dates [OF well_formed_stub_schedule j,
      where ar = thirty_day_months
      and pa = Following and nominals = "[1000]"
      and couponRates = "[0.03, 0.035]" and dayCount = "NamedDayCounter ''Actual/360''"
      and fpdc = NoDayCounter and index = 1 and lag = 2 and gearings = "[]"
      and spreads = "[]" and caps = "[]" and floors = "[]" and meanReversions = "[]"
      and pricer = 1 and vol = 7]
  have dates: "sch_dates stub_schedule ! (1 + 1) = 40148"
    "sch_dates stub_schedule ! (length (sch_dates stub_schedule) - 1) = 40278"
    "adjust (sch_calendar stub_schedule) 40148 Following = 40148"
    "adjust (sch_calendar stub_schedule) 40278 Following = 40278"
    by (simp_all add: stub_schedule_def weekend_calendar_def weekend_adjust_def)
  from inst ne dc obtain legF where F: "FixedRateCouponVector thirty_day_months stub_schedule Following [1000]
        [0.03, 0.035] (NamedDayCounter ''Actual/360'') NoDayCounter = Inr legF"
    by blast
  from inst ne dc obtain legC where C: "CMSCouponVector thirty_day_months stub_schedule Following [1000] 1 2
        (NamedDayCounter ''Actual/360'') [] [] [] [] [] 1 7 = Inr legC"
    by blast
  from inst ne dc obtain legZ where Z: "CMSZeroCouponVector thirty_day_months stub_schedule Following [1000] 1 2
        (NamedDayCounter ''Actual/360'') [] [] [] [] [] 1 7 = Inr legZ"
    by blast
  from inst ne dc obtain legA where A: "CMSInArrearsCouponVector thirty_day_months stub_schedule Following [1000] 1 2
        (NamedDayCounter ''Actual/360'') [] [] [] [] [] 1 7 = Inr legA"
    by blast
  from inst F dates have pF: "cf_accrualEndDate (legF ! 1) = 40148"
    "cf_paymentDate (legF ! 1) = 40148"
    by simp_all
  from inst C dates have pC: "cf_accrualEndDate (legC ! 1) = 40148"
    "cf_paymentDate (legC ! 1) = 40148"
    by simp_all
  from inst A dates have pA: "cf_accrualEndDate (legA ! 1) = 40148"
    "cf_paymentDate (legA ! 1) = 40148"
    by simp_all
  from inst Z dates have pZ: "cf_accrualEndDate (legZ ! 1) = 40148"
    "cf_paymentDate (legZ ! 1) = 40278"
    by simp_all
  from pF pC pA pZ show ?thesis
    using F C A Z j well_formed_stub_schedule by simp
qed

text \<open>
  C5.  In the leg of every builder the reference period of each coupon is as the
  specification says (\<open>reference_period_as_specified\<close>): moved at its start on an
  irregular first period, moved at its end on an irregular last period of a schedule
  with more than two dates, and equal to the accrual period on a regular first or
  last period and on every middle period.  The stub dates are adjusted with the
  schedule's own convention by the fixed-rate builder and with \<open>paymentAdjustment\<close>
  by the CMS builders.  Each builder returns such a leg whenever its preconditions
  hold.
\<close>

theorem reference_periods:
  assumes wf: "well_formed schedule" and j: "j < length (sch_dates schedule) - 1"
  shows
    "(\<forall>leg. FixedRateCouponVector ar schedule pa nominals couponRates dayCount fpdc
       = Inr leg \<longrightarrow>
        reference_period_as_specified ar schedule (sch_businessDayConvention schedule) j
          (leg ! j)) \<and>
     (\<forall>leg. CMSCouponVector ar schedule pa nominals index lag dayCount gearings
       spreads caps floors meanReversions pricer vol = Inr leg \<longrightarrow>
        reference_period_as_specified ar schedule pa j (leg ! j)) \<and>
     (\<forall>leg. CMSZeroCouponVector ar schedule pa nominals index lag dayCount gearings
       spreads caps floors meanReversions pricer vol = Inr leg \<longrightarrow>
        reference_period_as_specified ar schedule pa j (leg ! j)) \<and>
     (\<forall>leg. CMSInArrearsCouponVector ar schedule pa nominals index lag dayCount
       gearings spreads caps floors meanReversions pricer vol = Inr leg \<longrightarrow>
        reference_period_as_specified ar schedule pa j (leg ! j)) \<and>
     (couponRates \<noteq> [] \<and> nominals \<noteq> [] \<and>
      (sch_isRegular schedule ! 0 \<longrightarrow> dc_empty fpdc \<or> fpdc = dayCount) \<longrightarrow>
      (\<exists>leg. FixedRateCouponVector ar schedule pa nominals couponRates dayCount fpdc
               = Inr leg)) \<and>
     (nominals \<noteq> [] \<longrightarrow>
      (\<exists>leg. CMSCouponVector ar schedule pa nominals index lag dayCount gearings
               spreads caps floors meanReversions pricer vol = Inr leg) \<and>
      (\<exists>leg. CMSZeroCouponVector ar schedule pa nominals index lag dayCount gearings
               spreads caps floors meanReversions pricer vol = Inr leg) \<and>
      (\<exists>leg. CMSInArrearsCouponVector ar schedule pa nominals index lag dayCount gearings
               spreads caps floors meanReversions pricer vol = Inr leg))"
    (is "?F \<and> ?C \<and> ?Z \<and> ?A \<and> ?RF \<and> ?RC")
proof -
  have nth: "map f [0 ..< length (sch_dates schedule) - 1] ! j = f j"
    for f :: "nat \<Rightarrow> CashFlow"
    using j by simp
  have ?F
  proof (intro allI impI)
    fix leg
    assume ok: "FixedRateCouponVector ar schedule pa nominals couponRates dayCount fpdc =
      Inr leg"
    from FixedRateCouponVector_Inr [OF wf ok] have "leg ! j = spec_FixedRate_coupon ar
      schedule pa nominals couponRates dayCount fpdc j"
      by (simp only: nth)
    then show "reference_period_as_specified ar schedule (sch_businessDayConvention
      schedule) j (leg ! j)"
      using j by (simp add: reference_period_as_specified_def Let_def spec_FixedRate_coupon_def
          spec_CMS_coupon_def spec_refStart_def spec_refEnd_def first_stub_def last_stub_def)
  qed
  moreover have ?C
  proof (intro allI impI)
    fix leg
    assume ok: "CMSCouponVector ar schedule pa nominals index lag dayCount gearings spreads
      caps floors meanReversions pricer vol = Inr leg"
    from CMSCouponVector_Inr [OF wf ok] have "leg ! j = spec_CMS_coupon ar schedule pa
      nominals index lag dayCount gearings spreads caps floors meanReversions pricer False
      False [vol] j"
      by (simp only: nth)
    then show "reference_period_as_specified ar schedule pa j (leg ! j)"
      using j by (simp add: reference_period_as_specified_def Let_def spec_FixedRate_coupon_def
          spec_CMS_coupon_def spec_refStart_def spec_refEnd_def first_stub_def last_stub_def)
  qed
  moreover have ?Z
  proof (intro allI impI)
    fix leg
    assume ok: "CMSZeroCouponVector ar schedule pa nominals index lag dayCount gearings
      spreads caps floors meanReversions pricer vol = Inr leg"
    from CMSZeroCouponVector_Inr [OF wf ok] have "leg ! j = spec_CMS_coupon ar schedule pa
      nominals index lag dayCount gearings spreads caps floors meanReversions pricer True
      False [vol] j"
      by (simp only: nth)
    then show "reference_period_as_specified ar schedule pa j (leg ! j)"
      using j by (simp add: reference_period_as_specified_def Let_def spec_FixedRate_coupon_def
          spec_CMS_coupon_def spec_refStart_def spec_refEnd_def first_stub_def last_stub_def)
  qed
  moreover have ?A
  proof (intro allI impI)
    fix leg
    assume ok: "CMSInArrearsCouponVector ar schedule pa nominals index lag dayCount
      gearings spreads caps floors meanReversions pricer vol = Inr leg"
    from CMSInArrearsCouponVector_Inr [OF wf ok] have "leg ! j = spec_CMS_coupon ar
      schedule pa nominals index lag dayCount gearings spreads caps floors meanReversions
      pricer False True [vol] j"
      by (simp only: nth)
    then show "reference_period_as_specified ar schedule pa j (leg ! j)"
      using j by (simp add: reference_period_as_specified_def Let_def spec_FixedRate_coupon_def
          spec_CMS_coupon_def spec_refStart_def spec_refEnd_def first_stub_def last_stub_def)
  qed
  moreover have ?RF
    using FixedRateCouponVector_closed [OF wf, of nominals couponRates fpdc dayCount ar pa]
    by simp
  moreover have ?RC
    using CMSCouponVector_closed [OF wf, of nominals ar pa index lag dayCount gearings
        spreads caps floors meanReversions pricer vol]
      CMSZeroCouponVector_closed [OF wf, of nominals ar pa index lag dayCount gearings
        spreads caps floors meanReversions pricer vol]
      CMSInArrearsCouponVector_closed [OF wf, of nominals ar pa index lag dayCount gearings
        spreads caps floors meanReversions pricer vol]
    by simp
  ultimately show ?thesis
    by (intro conjI)
qed

theorem reference_periods_witness:
  "well_formed stub_schedule \<and> well_formed single_period_schedule \<and>
   (\<exists>leg. FixedRateCouponVector thirty_day_months stub_schedule Preceding [1000]
        [0.03, 0.035] (NamedDayCounter ''Actual/360'') NoDayCounter = Inr leg \<and>
      cf_referencePeriodStart (leg ! 0) = 39970 \<and>
      cf_referencePeriodEnd (leg ! 0) = 40058 \<and>
      cf_referencePeriodStart (leg ! 1) = 40058 \<and>
      cf_referencePeriodEnd (leg ! 1) = 40148 \<and>
      cf_referencePeriodStart (leg ! 3) = 40238 \<and>
      cf_referencePeriodEnd (leg ! 3) = 40328) \<and>
   (\<exists>leg. CMSCouponVector thirty_day_months stub_schedule Preceding [1000] 1 2
        (NamedDayCounter ''Actual/360'') [] [] [] [] [] 1 7 = Inr leg \<and>
      cf_referencePeriodStart (leg ! 0) = 39967 \<and>
      cf_referencePeriodEnd (leg ! 0) = 40058 \<and>
      cf_referencePeriodStart (leg ! 1) = 40058 \<and>
      cf_referencePeriodEnd (leg ! 1) = 40148 \<and>
      cf_referencePeriodStart (leg ! 3) = 40238 \<and>
      cf_referencePeriodEnd (leg ! 3) = 40328) \<and>
   (\<exists>leg. CMSZeroCouponVector thirty_day_months stub_schedule Preceding [1000] 1 2
        (NamedDayCounter ''Actual/360'') [] [] [] [] [] 1 7 = Inr leg \<and>
      cf_referencePeriodStart (leg ! 0) = 39967 \<and>
      cf_referencePeriodEnd (leg ! 0) = 40058 \<and>
      cf_referencePeriodStart (leg ! 1) = 40058 \<and>
      cf_referencePeriodEnd (leg ! 1) = 40148 \<and>
      cf_referencePeriodStart (leg ! 3) = 40238 \<and>
      cf_referencePeriodEnd (leg ! 3) = 40328) \<and>
   (\<exists>leg. CMSInArrearsCouponVector thirty_day_months stub_schedule Preceding [1000] 1 2
        (NamedDayCounter ''Actual/360'') [] [] [] [] [] 1 7 = Inr leg \<and>
      cf_referencePeriodStart (leg ! 0) = 39967 \<and>
      cf_referencePeriodEnd (leg ! 0) = 40058 \<and>
      cf_referencePeriodStart (leg ! 1) = 40058 \<and>
      cf_referencePeriodEnd (leg ! 1) = 40148 \<and>
      cf_referencePeriodStart (leg ! 3) = 40238 \<and>
      cf_referencePeriodEnd (leg ! 3) = 40328) \<and>
   (\<exists>leg. FixedRateCouponVector thirty_day_months single_period_schedule Preceding [1000]
        [0.03, 0.035] (NamedDayCounter ''Actual/360'') NoDayCounter = Inr leg \<and>
      cf_referencePeriodStart (leg ! 0) = 40058 \<and>
      cf_referencePeriodEnd (leg ! 0) = 40148)"
proof -
  have j: "(0::nat) < length (sch_dates stub_schedule) - 1"
    "(1::nat) < length (sch_dates stub_schedule) - 1"
    "(3::nat) < length (sch_dates stub_schedule) - 1"
    "(0::nat) < length (sch_dates single_period_schedule) - 1"
    by (simp_all add: length_stub_schedule single_period_schedule_def)
  have ne: "[1000::real] \<noteq> []" "[0.03, 0.035::real] \<noteq> []"
    by simp_all
  have dc: "dc_empty NoDayCounter"
    by (simp add: dc_empty_def)
  note defs = reference_period_as_specified_def Let_def stub_schedule_def
    single_period_schedule_def weekend_calendar_def weekend_adjust_def
    thirty_day_months_def
  note inst0 = reference_periods [OF well_formed_stub_schedule j(1),
      where ar = thirty_day_months
      and pa = Preceding and nominals = "[1000]"
      and couponRates = "[0.03, 0.035]" and dayCount = "NamedDayCounter ''Actual/360''"
      and fpdc = NoDayCounter and index = 1 and lag = 2 and gearings = "[]"
      and spreads = "[]" and caps = "[]" and floors = "[]" and meanReversions = "[]"
      and pricer = 1 and vol = 7]
  note inst1 = reference_periods [OF well_formed_stub_schedule j(2),
      where ar = thirty_day_months
      and pa = Preceding and nominals = "[1000]"
      and couponRates = "[0.03, 0.035]" and dayCount = "NamedDayCounter ''Actual/360''"
      and fpdc = NoDayCounter and index = 1 and lag = 2 and gearings = "[]"
      and spreads = "[]" and caps = "[]" and floors = "[]" and meanReversions = "[]"
      and pricer = 1 and vol = 7]
  note inst3 = reference_periods [OF well_formed_stub_schedule j(3),
      where ar = thirty_day_months
      and pa = Preceding and nominals = "[1000]"
      and couponRates = "[0.03, 0.035]" and dayCount = "NamedDayCounter ''Actual/360''"
      and fpdc = NoDayCounter and index = 1 and lag = 2 and gearings = "[]"
      and spreads = "[]" and caps = "[]" and floors = "[]" and meanReversions = "[]"
      and pricer = 1 and vol = 7]
  note instS = reference_periods [OF well_formed_single_period_schedule j(4),
      where ar = thirty_day_months
      and pa = Preceding and nominals = "[1000]"
      and couponRates = "[0.03, 0.035]" and dayCount = "NamedDayCounter ''Actual/360''"
      and fpdc = NoDayCounter and index = 1 and lag = 2 and gearings = "[]"
      and spreads = "[]" and caps = "[]" and floors = "[]" and meanReversions = "[]"
      and pricer = 1 and vol = 7]
  from inst0 ne dc obtain legF where F: "FixedRateCouponVector thirty_day_months stub_schedule Preceding [1000]
        [0.03, 0.035] (NamedDayCounter ''Actual/360'') NoDayCounter = Inr legF"
    by blast
  from inst0 ne dc obtain legC where C: "CMSCouponVector thirty_day_months stub_schedule Preceding [1000] 1 2
        (NamedDayCounter ''Actual/360'') [] [] [] [] [] 1 7 = Inr legC"
    by blast
  from inst0 ne dc obtain legZ where Z: "CMSZeroCouponVector thirty_day_months stub_schedule Preceding [1000] 1 2
        (NamedDayCounter ''Actual/360'') [] [] [] [] [] 1 7 = Inr legZ"
    by blast
  from inst0 ne dc obtain legA where A: "CMSInArrearsCouponVector thirty_day_months stub_schedule Preceding [1000] 1 2
        (NamedDayCounter ''Actual/360'') [] [] [] [] [] 1 7 = Inr legA"
    by blast
  from instS ne dc obtain legS where S: "FixedRateCouponVector thirty_day_months single_period_schedule Preceding [1000]
        [0.03, 0.035] (NamedDayCounter ''Actual/360'') NoDayCounter = Inr legS"
    by blast
  from inst0 F have "reference_period_as_specified thirty_day_months stub_schedule
      (sch_businessDayConvention stub_schedule) 0 (legF ! 0)"
    by blast
  then have F0: "cf_referencePeriodStart (legF ! 0) = 39970"
    "cf_referencePeriodEnd (legF ! 0) = 40058"
    by (simp_all add: defs)
  from inst1 F have "reference_period_as_specified thirty_day_months stub_schedule
      (sch_businessDayConvention stub_schedule) 1 (legF ! 1)"
    by blast
  then have F1: "cf_referencePeriodStart (legF ! 1) = 40058"
    "cf_referencePeriodEnd (legF ! 1) = 40148"
    by (simp_all add: defs)
  from inst3 F have "reference_period_as_specified thirty_day_months stub_schedule
      (sch_businessDayConvention stub_schedule) 3 (legF ! 3)"
    by blast
  then have F3: "cf_referencePeriodStart (legF ! 3) = 40238"
    "cf_referencePeriodEnd (legF ! 3) = 40328"
    by (simp_all add: defs)
  from inst0 C have "reference_period_as_specified thirty_day_months stub_schedule
      Preceding 0 (legC ! 0)"
    by blast
  then have C0: "cf_referencePeriodStart (legC ! 0) = 39967"
    "cf_referencePeriodEnd (legC ! 0) = 40058"
    by (simp_all add: defs)
  from inst1 C have "reference_period_as_specified thirty_day_months stub_schedule
      Preceding 1 (legC ! 1)"
    by blast
  then have C1: "cf_referencePeriodStart (legC ! 1) = 40058"
    "cf_referencePeriodEnd (legC ! 1) = 40148"
    by (simp_all add: defs)
  from inst3 C have "reference_period_as_specified thirty_day_months stub_schedule
      Preceding 3 (legC ! 3)"
    by blast
  then have C3: "cf_referencePeriodStart (legC ! 3) = 40238"
    "cf_referencePeriodEnd (legC ! 3) = 40328"
    by (simp_all add: defs)
  from inst0 Z have "reference_period_as_specified thirty_day_months stub_schedule
      Preceding 0 (legZ ! 0)"
    by blast
  then have Z0: "cf_referencePeriodStart (legZ ! 0) = 39967"
    "cf_referencePeriodEnd (legZ ! 0) = 40058"
    by (simp_all add: defs)
  from inst1 Z have "reference_period_as_specified thirty_day_months stub_schedule
      Preceding 1 (legZ ! 1)"
    by blast
  then have Z1: "cf_referencePeriodStart (legZ ! 1) = 40058"
    "cf_referencePeriodEnd (legZ ! 1) = 40148"
    by (simp_all add: defs)
  from inst3 Z have "reference_period_as_specified thirty_day_months stub_schedule
      Preceding 3 (legZ ! 3)"
    by blast
  then have Z3: "cf_referencePeriodStart (legZ ! 3) = 40238"
    "cf_referencePeriodEnd (legZ ! 3) = 40328"
    by (simp_all add: defs)
  from inst0 A have "reference_period_as_specified thirty_day_months stub_schedule
      Preceding 0 (legA ! 0)"
    by blast
  then have A0: "cf_referencePeriodStart (legA ! 0) = 39967"
    "cf_referencePeriodEnd (legA ! 0) = 40058"
    by (simp_all add: defs)
  from inst1 A have "reference_period_as_specified thirty_day_months stub_schedule
      Preceding 1 (legA ! 1)"
    by blast
  then have A1: "cf_referencePeriodStart (legA ! 1) = 40058"
    "cf_referencePeriodEnd (legA ! 1) = 40148"
    by (simp_all add: defs)
  from inst3 A have "reference_period_as_specified thirty_day_months stub_schedule
      Preceding 3 (legA ! 3)"
    by blast
  then have A3: "cf_referencePeriodStart (legA ! 3) = 40238"
    "cf_referencePeriodEnd (legA ! 3) = 40328"
    by (simp_all add: defs)
  from instS S have "reference_period_as_specified thirty_day_months
      single_period_schedule (sch_businessDayConvention single_period_schedule) 0
      (legS ! 0)"
    by blast
  then have S0: "cf_referencePeriodStart (legS ! 0) = 40058"
    "cf_referencePeriodEnd (legS ! 0) = 40148"
    by (simp_all add: defs)
  from F0 F1 F3 C0 C1 C3 Z0 Z1 Z3 A0 A1 A3 S0 show ?thesis
    using F C Z A S well_formed_stub_schedule well_formed_single_period_schedule
    by simp
qed

text \<open>
  C8.  Every coupon in the leg of \<open>CMSInArrearsCouponVector\<close> has the in-arrears flag
  set, whichever branch built it; every coupon in the leg of \<open>CMSCouponVector\<close> has
  it unset (the constructor's default for the argument the builder omits).
\<close>

theorem in_arrears_flag:
  assumes wf: "well_formed schedule" and j: "j < length (sch_dates schedule) - 1"
  shows
    "(\<forall>leg. CMSInArrearsCouponVector ar schedule pa nominals index lag dayCount
       gearings spreads caps floors meanReversions pricer vol = Inr leg \<longrightarrow>
        (\<exists>c. leg ! j = CMSCoupon c \<and> cms_isInArrears c)) \<and>
     (\<forall>leg. CMSCouponVector ar schedule pa nominals index lag dayCount gearings
       spreads caps floors meanReversions pricer vol = Inr leg \<longrightarrow>
        (\<exists>c. leg ! j = CMSCoupon c \<and> \<not> cms_isInArrears c))"
    (is "?A \<and> ?C")
proof -
  have nth: "map f [0 ..< length (sch_dates schedule) - 1] ! j = f j"
    for f :: "nat \<Rightarrow> CashFlow"
    using j by simp
  have ?A
  proof (intro allI impI)
    fix leg
    assume ok: "CMSInArrearsCouponVector ar schedule pa nominals index lag dayCount
      gearings spreads caps floors meanReversions pricer vol = Inr leg"
    from CMSInArrearsCouponVector_Inr [OF wf ok] have "leg ! j = spec_CMS_coupon ar
      schedule pa nominals index lag dayCount gearings spreads caps floors meanReversions
      pricer False True [vol] j"
      by (simp only: nth)
    then show "(\<exists>c. leg ! j = CMSCoupon c \<and> cms_isInArrears c)"
      using j by (simp add: spec_CMS_coupon_def)
  qed
  moreover have ?C
  proof (intro allI impI)
    fix leg
    assume ok: "CMSCouponVector ar schedule pa nominals index lag dayCount gearings spreads
      caps floors meanReversions pricer vol = Inr leg"
    from CMSCouponVector_Inr [OF wf ok] have "leg ! j = spec_CMS_coupon ar schedule pa
      nominals index lag dayCount gearings spreads caps floors meanReversions pricer False
      False [vol] j"
      by (simp only: nth)
    then show "(\<exists>c. leg ! j = CMSCoupon c \<and> \<not> cms_isInArrears c)"
      using j by (simp add: spec_CMS_coupon_def)
  qed
  ultimately show ?thesis
    by (intro conjI)
qed

theorem in_arrears_flag_witness:
  "well_formed stub_schedule \<and> (2::nat) < length (sch_dates stub_schedule) - 1 \<and>
   (\<exists>leg c. CMSInArrearsCouponVector thirty_day_months stub_schedule Following [1000] 1 2
        (NamedDayCounter ''Actual/360'') [] [] [] [] [] 1 7 = Inr leg \<and>
      leg ! 2 = CMSCoupon c \<and> cms_isInArrears c) \<and>
   (\<exists>leg c. CMSCouponVector thirty_day_months stub_schedule Following [1000] 1 2
        (NamedDayCounter ''Actual/360'') [] [] [] [] [] 1 7 = Inr leg \<and>
      leg ! 2 = CMSCoupon c \<and> \<not> cms_isInArrears c)"
proof -
  have j: "(2::nat) < length (sch_dates stub_schedule) - 1"
    by (simp add: length_stub_schedule)
  note inst = in_arrears_flag [OF well_formed_stub_schedule j,
      where ar = thirty_day_months and pa = Following and nominals = "[1000]"
      and dayCount = "NamedDayCounter ''Actual/360''"
      and index = 1 and lag = 2 and gearings = "[]"
      and spreads = "[]" and caps = "[]" and floors = "[]" and meanReversions = "[]"
      and pricer = 1 and vol = 7]
  obtain legA where A: "CMSInArrearsCouponVector thirty_day_months stub_schedule Following
      [1000] 1 2 (NamedDayCounter ''Actual/360'') [] [] [] [] [] 1 7 = Inr legA"
    using stub_CMSInArrears_returns by blast
  obtain legC where C: "CMSCouponVector thirty_day_months stub_schedule Following [1000]
      1 2 (NamedDayCounter ''Actual/360'') [] [] [] [] [] 1 7 = Inr legC"
    using stub_CMS_returns by blast
  from inst A obtain c where "legA ! 2 = CMSCoupon c" "cms_isInArrears c"
    by blast
  moreover from inst C obtain c' where "legC ! 2 = CMSCoupon c'" "\<not> cms_isInArrears c'"
    by blast
  ultimately show ?thesis
    using A C j well_formed_stub_schedule by simp
qed

text \<open>
  C7.  A call with an empty \<open>nominals\<close> vector (for the fixed-rate builder also
  with an empty \<open>couponRates\<close> vector) fails, whatever the schedule is, and the leg
  is still empty when the error is raised: no coupon has been constructed.
\<close>

theorem empty_arrays_rejected:
  "(couponRates = [] \<longrightarrow>
      FixedRateCouponVector ar schedule pa nominals couponRates dayCount fpdc =
      Inl (Error ''coupon rates not specified'', [])) \<and>
   (couponRates \<noteq> [] \<and> nominals = [] \<longrightarrow>
      FixedRateCouponVector ar schedule pa nominals couponRates dayCount fpdc =
      Inl (Error ''nominals not specified'', [])) \<and>
   (nominals = [] \<longrightarrow>
      CMSCouponVector ar schedule pa nominals index lag dayCount gearings spreads caps
        floors meanReversions pricer vol = Inl (Error ''no nominal given'', []) \<and>
      CMSZeroCouponVector ar schedule pa nominals index lag dayCount gearings spreads caps
        floors meanReversions pricer vol = Inl (Error ''no nominal given'', []) \<and>
      CMSInArrearsCouponVector ar schedule pa nominals index lag dayCount gearings spreads
        caps floors meanReversions pricer vol = Inl (Error ''no nominal given'', []))"
  using FixedRateCouponVector_no_rates [of ar schedule pa nominals dayCount fpdc]
    FixedRateCouponVector_no_nominals [of couponRates ar schedule pa dayCount fpdc]
    CMSCouponVector_no_nominals [of ar schedule pa index lag dayCount gearings spreads
      caps floors meanReversions pricer vol]
    CMSZeroCouponVector_no_nominals [of ar schedule pa index lag dayCount gearings spreads
      caps floors meanReversions pricer vol]
    CMSInArrearsCouponVector_no_nominals [of ar schedule pa index lag dayCount gearings
      spreads caps floors meanReversions pricer vol]
  by blast

theorem empty_arrays_rejected_witness:
  "FixedRateCouponVector thirty_day_months stub_schedule Following [1000] []
     (NamedDayCounter ''Actual/360'') NoDayCounter =
     Inl (Error ''coupon rates not specified'', []) \<and>
   FixedRateCouponVector thirty_day_months stub_schedule Following [] [0.03]
     (NamedDayCounter ''Actual/360'') NoDayCounter =
     Inl (Error ''nominals not specified'', []) \<and>
   CMSCouponVector thirty_day_months stub_schedule Following [] 1 2
     (NamedDayCounter ''Actual/360'') [] [] [] [] [] 1 7 =
     Inl (Error ''no nominal given'', []) \<and>
   CMSZeroCouponVector thirty_day_months stub_schedule Following [] 1 2
     (NamedDayCounter ''Actual/360'') [] [] [] [] [] 1 7 =
     Inl (Error ''no nominal given'', []) \<and>
   CMSInArrearsCouponVector thirty_day_months stub_schedule Following [] 1 2
     (NamedDayCounter ''Actual/360'') [] [] [] [] [] 1 7 =
     Inl (Error ''no nominal given'', [])"
  using empty_arrays_rejected [where couponRates = "[]" and nominals = "[1000]"
      and ar = thirty_day_months and schedule = stub_schedule and pa = Following
      and dayCount = "NamedDayCounter ''Actual/360''" and fpdc = NoDayCounter]
    empty_arrays_rejected [where couponRates = "[0.03]" and nominals = "[]"
      and ar = thirty_day_months and schedule = stub_schedule and pa = Following
      and dayCount = "NamedDayCounter ''Actual/360''" and fpdc = NoDayCounter
      and index = 1 and lag = 2 and gearings = "[]" and spreads = "[]" and caps = "[]"
      and floors = "[]" and meanReversions = "[]" and pricer = 1 and vol = 7]
  by simp

text \<open>
  C6, as stated: on a regular first period every non-empty first-period day count
  makes \<open>FixedRateCouponVector\<close> fail.  It does not: a first-period day count equal
  to the leg's day count passes the check of lines 51-54.
\<close>

theorem first_period_day_count_counterexample:
  "sch_isRegular single_period_schedule ! 0 \<and>
   \<not> dc_empty (NamedDayCounter ''Actual/360'') \<and>
   FixedRateCouponVector thirty_day_months single_period_schedule Following [1000] [0.03]
     (NamedDayCounter ''Actual/360'') (NamedDayCounter ''Actual/360'') =
   Inr [FixedRateCoupon
     \<lparr>frc_nominal = 1000, frc_paymentDate = 40148, frc_rate = 0.03,
      frc_dayCounter = NamedDayCounter ''Actual/360'',
      frc_accrualStartDate = 40058, frc_accrualEndDate = 40148,
      frc_refPeriodStart = 40058, frc_refPeriodEnd = 40148\<rparr>]"
  by (simp add: FixedRateCouponVector_def FixedRate_first_period_def
      FixedRate_regular_periods.simps FixedRate_last_period_def
      single_period_schedule_def date_def isRegular_def sch_size_def dc_empty_def
      weekend_calendar_def weekend_adjust_def Let_def)

text \<open>
  C6, amended.  On a schedule whose first period is regular, \<open>FixedRateCouponVector\<close>
  (given non-empty nominals and coupon rates) fails with the error of lines 51-54,
  before any coupon is built, exactly when the first-period day count is non-empty
  and differs from the leg's day count; an empty one, or one equal to the leg's day
  count, is accepted and the leg is returned.
\<close>

theorem first_period_day_count_rejected_iff:
  assumes wf: "well_formed schedule"
    and ne: "nominals \<noteq> []" "couponRates \<noteq> []"
    and reg: "sch_isRegular schedule ! 0"
  shows
    "(FixedRateCouponVector ar schedule pa nominals couponRates dayCount fpdc =
        Inl (Error ''regular first coupon does not allow a first-period day count'', []))
       = (\<not> dc_empty fpdc \<and> fpdc \<noteq> dayCount) \<and>
     (\<exists>leg. FixedRateCouponVector ar schedule pa nominals couponRates dayCount fpdc
        = Inr leg)
       = (dc_empty fpdc \<or> fpdc = dayCount)"
proof (cases "dc_empty fpdc \<or> fpdc = dayCount")
  case True
  then have "sch_isRegular schedule ! 0 \<longrightarrow> dc_empty fpdc \<or> fpdc = dayCount"
    by simp
  from FixedRateCouponVector_closed [OF wf ne this, of ar pa] True show ?thesis
    by auto
next
  case False
  then have "\<not> dc_empty fpdc" "fpdc \<noteq> dayCount"
    by simp_all
  from FixedRateCouponVector_first_day_count [OF wf ne reg this, of ar pa] False
  show ?thesis
    by auto
qed

theorem first_period_day_count_rejected_iff_witness:
  "well_formed single_period_schedule \<and> sch_isRegular single_period_schedule ! 0 \<and>
   FixedRateCouponVector thirty_day_months single_period_schedule Following [1000] [0.03]
     (NamedDayCounter ''Actual/360'') (NamedDayCounter ''Actual/365'') =
     Inl (Error ''regular first coupon does not allow a first-period day count'', []) \<and>
   (\<exists>leg. FixedRateCouponVector thirty_day_months single_period_schedule Following [1000]
      [0.03] (NamedDayCounter ''Actual/360'') (NamedDayCounter ''Actual/360'') = Inr leg)"
proof -
  have reg: "sch_isRegular single_period_schedule ! 0"
    by (simp add: single_period_schedule_def)
  have ne: "[1000::real] \<noteq> []" "[0.03::real] \<noteq> []"
    by simp_all
  note inst = first_period_day_count_rejected_iff
    [OF well_formed_single_period_schedule ne reg, of thirty_day_months Following
      "NamedDayCounter ''Actual/360''"]
  show ?thesis
    using inst [of "NamedDayCounter ''Actual/365''"]
      inst [of "NamedDayCounter ''Actual/360''"] reg well_formed_single_period_schedule
    by (simp add: dc_empty_def)
qed

text \<open>
  C9.  None of the three CMS builders ever fails with the cast error of its
  attachment loop, on any input: every cash flow the builder has pushed is a CMS
  coupon fresh from its constructor.  On every successful call each coupon of the
  leg is a CMS coupon to which the handle \<open>vol\<close> has been attached exactly once,
  and on a well-formed schedule the leg has \<open>N - 1\<close> of them.
\<close>

theorem cast_failure_unreachable:
  "(\<forall>l. CMSCouponVector ar schedule pa nominals index lag dayCount gearings spreads caps
        floors meanReversions pricer vol \<noteq>
        Inl (Error ''unexpected error when casting to CMSCoupon'', l)) \<and>
     (\<forall>leg. CMSCouponVector ar schedule pa nominals index lag dayCount gearings spreads caps
        floors meanReversions pricer vol = Inr leg \<longrightarrow>
        list_all (attached_once vol) leg \<and>
        (well_formed schedule \<longrightarrow> length leg = length (sch_dates schedule) - 1)) \<and>
     (\<forall>l. CMSZeroCouponVector ar schedule pa nominals index lag dayCount gearings spreads caps
        floors meanReversions pricer vol \<noteq>
        Inl (Error ''unexpected error when casting to CMSCoupon'', l)) \<and>
     (\<forall>leg. CMSZeroCouponVector ar schedule pa nominals index lag dayCount gearings spreads caps
        floors meanReversions pricer vol = Inr leg \<longrightarrow>
        list_all (attached_once vol) leg \<and>
        (well_formed schedule \<longrightarrow> length leg = length (sch_dates schedule) - 1)) \<and>
     (\<forall>l. CMSInArrearsCouponVector ar schedule pa nominals index lag dayCount gearings
         spreads caps
        floors meanReversions pricer vol \<noteq>
        Inl (Error ''unexpected error when casting to CMSCoupon'', l)) \<and>
     (\<forall>leg. CMSInArrearsCouponVector ar schedule pa nominals index lag dayCount gearings
         spreads caps
        floors meanReversions pricer vol = Inr leg \<longrightarrow>
        list_all (attached_once vol) leg \<and>
        (well_formed schedule \<longrightarrow> length leg = length (sch_dates schedule) - 1))"
    (is "?C1 \<and> ?C2 \<and> ?Z1 \<and> ?Z2 \<and> ?A1 \<and> ?A2")
proof -
  note C = CMSCouponVector_attaches [where ar = ar and schedule = schedule and pa = pa
      and nominals = nominals and index = index and settlementDays = lag
      and dayCounter = dayCount and gearings = gearings and spreads = spreads
      and caps = caps and floors = floors and meanReversions = meanReversions
      and pricer = pricer and vol = vol]
  have ?C1
    using C by (auto simp add: cast_failure_def)
  have ?C2
  proof (intro allI impI conjI)
    fix leg
    assume ok: "CMSCouponVector ar schedule pa nominals index lag dayCount gearings spreads
        caps floors meanReversions pricer vol = Inr leg"
    with C show "list_all (attached_once vol) leg" by simp
    assume wf: "well_formed schedule"
    from CMSCouponVector_Inr [OF wf ok] show "length leg = length (sch_dates schedule) - 1"
      by simp
  qed
  note Z = CMSZeroCouponVector_attaches [where ar = ar and schedule = schedule and pa = pa
      and nominals = nominals and index = index and fixingDays = lag
      and dayCounter = dayCount and gearings = gearings and spreads = spreads
      and caps = caps and floors = floors and meanReversions = meanReversions
      and pricer = pricer and vol = vol]
  have ?Z1
    using Z by (auto simp add: cast_failure_def)
  have ?Z2
  proof (intro allI impI conjI)
    fix leg
    assume ok: "CMSZeroCouponVector ar schedule pa nominals index lag dayCount gearings
        spreads caps floors meanReversions pricer vol = Inr leg"
    with Z show "list_all (attached_once vol) leg" by simp
    assume wf: "well_formed schedule"
    from CMSZeroCouponVector_Inr [OF wf ok] show "length leg = length (sch_dates schedule) - 1"
      by simp
  qed
  note A = CMSInArrearsCouponVector_attaches [where ar = ar and schedule = schedule and pa = pa
      and nominals = nominals and index = index and fixingDays = lag
      and dayCounter = dayCount and gearings = gearings and spreads = spreads
      and caps = caps and floors = floors and meanReversions = meanReversions
      and pricer = pricer and vol = vol]
  have ?A1
    using A by (auto simp add: cast_failure_def)
  have ?A2
  proof (intro allI impI conjI)
    fix leg
    assume ok: "CMSInArrearsCouponVector ar schedule pa nominals index lag dayCount
        gearings spreads caps floors meanReversions pricer vol = Inr leg"
    with A show "list_all (attached_once vol) leg" by simp
    assume wf: "well_formed schedule"
    from CMSInArrearsCouponVector_Inr [OF wf ok] show "length leg = length (sch_dates
        schedule) - 1"
      by simp
  qed
  from \<open>?C1\<close> \<open>?C2\<close> \<open>?Z1\<close> \<open>?Z2\<close> \<open>?A1\<close> \<open>?A2\<close> show ?thesis
    by (intro conjI)
qed

theorem cast_failure_unreachable_witness:
  "well_formed stub_schedule \<and>
   (\<exists>leg c. CMSCouponVector thirty_day_months stub_schedule Following [1000] 1 2
        (NamedDayCounter ''Actual/360'') [] [] [] [] [] 1 7 = Inr leg \<and>
      length leg = 4 \<and> list_all (attached_once 7) leg \<and>
      leg ! 2 = CMSCoupon c \<and> cms_swaptionVol c = [7])"
proof -
  note inst = cast_failure_unreachable [where ar = thirty_day_months
      and schedule = stub_schedule and pa = Following and nominals = "[1000]"
      and dayCount = "NamedDayCounter ''Actual/360''"
      and index = 1 and lag = 2 and gearings = "[]"
      and spreads = "[]" and caps = "[]" and floors = "[]" and meanReversions = "[]"
      and pricer = 1 and vol = 7]
  obtain leg where C: "CMSCouponVector thirty_day_months stub_schedule Following [1000]
      1 2 (NamedDayCounter ''Actual/360'') [] [] [] [] [] 1 7 = Inr leg"
    using stub_CMS_returns by blast
  from inst C well_formed_stub_schedule have all: "list_all (attached_once 7) leg"
    and len: "length leg = 4"
    by (simp_all add: length_stub_schedule)
  from all len have "attached_once 7 (leg ! 2)"
    by (simp add: list_all_length)
  then obtain c where "leg ! 2 = CMSCoupon c" "cms_swaptionVol c = [7]"
    by (cases "leg ! 2") simp_all
  with C all len well_formed_stub_schedule show ?thesis
    by simp
qed

text \<open>
  C10.  The builders adjust the reference date of a stub with different business-day
  conventions: \<open>FixedRateCouponVector\<close> with the convention of the schedule, the
  three CMS builders with \<open>paymentAdjustment\<close>, both for an irregular first period
  and for an irregular last period.  There is a schedule and a payment adjustment
  different from the schedule's convention for which the reference start of the
  first stub in the fixed-rate leg differs from the one in each of the three CMS
  legs.  On a well-formed schedule each builder returns a leg whenever its
  preconditions hold.
\<close>

theorem stub_conventions_differ:
  "(\<forall>leg. well_formed schedule \<and>
          FixedRateCouponVector ar schedule pa nominals couponRates
            dayCount fpdc = Inr leg \<longrightarrow>
      (\<not> sch_isRegular schedule ! 0 \<longrightarrow>
         cf_referencePeriodStart (leg ! 0) =
           adjust (sch_calendar schedule)
             (minus_period ar (sch_dates schedule ! 1) (sch_tenor schedule))
             (sch_businessDayConvention schedule)) \<and>
      (2 < length (sch_dates schedule) \<and>
       \<not> sch_isRegular schedule ! (length (sch_dates schedule) - 2) \<longrightarrow>
         cf_referencePeriodEnd (leg ! (length (sch_dates schedule) - 2)) =
           adjust (sch_calendar schedule)
             (plus_period ar (sch_dates schedule ! (length (sch_dates schedule) - 2))
                (sch_tenor schedule))
             (sch_businessDayConvention schedule))) \<and>
   (\<forall>leg. well_formed schedule \<and>
          CMSCouponVector ar schedule pa nominals index lag dayCount
            gearings spreads caps floors meanReversions pricer vol = Inr leg \<longrightarrow>
      (\<not> sch_isRegular schedule ! 0 \<longrightarrow>
         cf_referencePeriodStart (leg ! 0) =
           adjust (sch_calendar schedule)
             (minus_period ar (sch_dates schedule ! 1) (sch_tenor schedule))
             pa) \<and>
      (2 < length (sch_dates schedule) \<and>
       \<not> sch_isRegular schedule ! (length (sch_dates schedule) - 2) \<longrightarrow>
         cf_referencePeriodEnd (leg ! (length (sch_dates schedule) - 2)) =
           adjust (sch_calendar schedule)
             (plus_period ar (sch_dates schedule ! (length (sch_dates schedule) - 2))
                (sch_tenor schedule))
             pa)) \<and>
   (\<forall>leg. well_formed schedule \<and>
          CMSZeroCouponVector ar schedule pa nominals index lag dayCount
            gearings spreads caps floors meanReversions pricer vol = Inr leg \<longrightarrow>
      (\<not> sch_isRegular schedule ! 0 \<longrightarrow>
         cf_referencePeriodStart (leg ! 0) =
           adjust (sch_calendar schedule)
             (minus_period ar (sch_dates schedule ! 1) (sch_tenor schedule))
             pa) \<and>
      (2 < length (sch_dates schedule) \<and>
       \<not> sch_isRegular schedule ! (length (sch_dates schedule) - 2) \<longrightarrow>
         cf_referencePeriodEnd (leg ! (length (sch_dates schedule) - 2)) =
           adjust (sch_calendar schedule)
             (plus_period ar (sch_dates schedule ! (length (sch_dates schedule) - 2))
                (sch_tenor schedule))
             pa)) \<and>
   (\<forall>leg. well_formed schedule \<and>
          CMSInArrearsCouponVector ar schedule pa nominals index lag dayCount
            gearings spreads caps floors meanReversions pricer vol = Inr leg \<longrightarrow>
      (\<not> sch_isRegular schedule ! 0 \<longrightarrow>
         cf_referencePeriodStart (leg ! 0) =
           adjust (sch_calendar schedule)
             (minus_period ar (sch_dates schedule ! 1) (sch_tenor schedule))
             pa) \<and>
      (2 < length (sch_dates schedule) \<and>
       \<not> sch_isRegular schedule ! (length (sch_dates schedule) - 2) \<longrightarrow>
         cf_referencePeriodEnd (leg ! (length (sch_dates schedule) - 2)) =
           adjust (sch_calendar schedule)
             (plus_period ar (sch_dates schedule ! (length (sch_dates schedule) - 2))
                (sch_tenor schedule))
             pa)) \<and>
   (\<exists>schedule pa legF legC legZ legA.
        well_formed schedule \<and> sch_businessDayConvention schedule \<noteq> pa \<and>
        \<not> sch_isRegular schedule ! 0 \<and>
        FixedRateCouponVector thirty_day_months schedule pa [1000] [0.03]
          NoDayCounter NoDayCounter = Inr legF \<and>
        CMSCouponVector thirty_day_months schedule pa [1000] 1 2 NoDayCounter
          [] [] [] [] [] 1 7 = Inr legC \<and>
        CMSZeroCouponVector thirty_day_months schedule pa [1000] 1 2 NoDayCounter
          [] [] [] [] [] 1 7 = Inr legZ \<and>
        CMSInArrearsCouponVector thirty_day_months schedule pa [1000] 1 2 NoDayCounter
          [] [] [] [] [] 1 7 = Inr legA \<and>
        cf_referencePeriodStart (legF ! 0) \<noteq> cf_referencePeriodStart (legC ! 0) \<and>
        cf_referencePeriodStart (legF ! 0) \<noteq> cf_referencePeriodStart (legZ ! 0) \<and>
        cf_referencePeriodStart (legF ! 0) \<noteq> cf_referencePeriodStart (legA ! 0)) \<and>
   (well_formed schedule \<and> couponRates \<noteq> [] \<and> nominals \<noteq> [] \<and>
    (sch_isRegular schedule ! 0 \<longrightarrow> dc_empty fpdc \<or> fpdc = dayCount) \<longrightarrow>
    (\<exists>leg. FixedRateCouponVector ar schedule pa nominals couponRates dayCount fpdc
             = Inr leg)) \<and>
   (well_formed schedule \<and> nominals \<noteq> [] \<longrightarrow>
    (\<exists>leg. CMSCouponVector ar schedule pa nominals index lag dayCount gearings
             spreads caps floors meanReversions pricer vol = Inr leg) \<and>
    (\<exists>leg. CMSZeroCouponVector ar schedule pa nominals index lag dayCount gearings
             spreads caps floors meanReversions pricer vol = Inr leg) \<and>
    (\<exists>leg. CMSInArrearsCouponVector ar schedule pa nominals index lag dayCount gearings
             spreads caps floors meanReversions pricer vol = Inr leg))"
    (is "?F \<and> ?C \<and> ?Z \<and> ?A \<and> ?E \<and> ?RF \<and> ?RC")
proof -
  have zero: "well_formed schedule \<Longrightarrow>
      map f [0 ..< length (sch_dates schedule) - 1] ! 0 = f 0"
    for f :: "nat \<Rightarrow> CashFlow"
    by (simp add: well_formed_def)
  have final: "2 < length (sch_dates schedule) \<Longrightarrow>
      map f [0 ..< length (sch_dates schedule) - 1] ! (length (sch_dates schedule) - 2) =
      f (length (sch_dates schedule) - 2)"
    for f :: "nat \<Rightarrow> CashFlow"
    by simp
  have F: ?F
  proof (intro allI impI conjI; elim conjE)
    fix leg
    assume wf: "well_formed schedule"
    and ok: "FixedRateCouponVector ar schedule pa nominals couponRates dayCount fpdc =
      Inr leg"
    note r = FixedRateCouponVector_Inr [OF wf ok]
    assume "\<not> sch_isRegular schedule ! 0"
    with r zero [OF wf] show "cf_referencePeriodStart (leg ! 0) = adjust (sch_calendar
      schedule) (minus_period ar (sch_dates schedule ! 1) (sch_tenor schedule))
      (sch_businessDayConvention schedule)"
      by (simp add: spec_FixedRate_coupon_def spec_CMS_coupon_def spec_refStart_def
          first_stub_def)
  next
    fix leg
    assume wf: "well_formed schedule"
    and ok: "FixedRateCouponVector ar schedule pa nominals couponRates dayCount fpdc =
      Inr leg"
    note r = FixedRateCouponVector_Inr [OF wf ok]
    assume N: "2 < length (sch_dates schedule)" and "\<not> sch_isRegular schedule ! (length
        (sch_dates schedule) - 2)"
    with r final [OF N] show "cf_referencePeriodEnd (leg ! (length (sch_dates schedule) -
      2)) = adjust (sch_calendar schedule) (plus_period ar (sch_dates schedule ! (length
      (sch_dates schedule) - 2)) (sch_tenor schedule)) (sch_businessDayConvention
      schedule)"
      by (simp add: spec_FixedRate_coupon_def spec_CMS_coupon_def spec_refEnd_def
          last_stub_def)
  qed
  have C: ?C
  proof (intro allI impI conjI; elim conjE)
    fix leg
    assume wf: "well_formed schedule"
    and ok: "CMSCouponVector ar schedule pa nominals index lag dayCount gearings spreads
      caps floors meanReversions pricer vol = Inr leg"
    note r = CMSCouponVector_Inr [OF wf ok]
    assume "\<not> sch_isRegular schedule ! 0"
    with r zero [OF wf] show "cf_referencePeriodStart (leg ! 0) = adjust (sch_calendar
      schedule) (minus_period ar (sch_dates schedule ! 1) (sch_tenor schedule)) pa"
      by (simp add: spec_FixedRate_coupon_def spec_CMS_coupon_def spec_refStart_def
          first_stub_def)
  next
    fix leg
    assume wf: "well_formed schedule"
    and ok: "CMSCouponVector ar schedule pa nominals index lag dayCount gearings spreads
      caps floors meanReversions pricer vol = Inr leg"
    note r = CMSCouponVector_Inr [OF wf ok]
    assume N: "2 < length (sch_dates schedule)" and "\<not> sch_isRegular schedule ! (length
        (sch_dates schedule) - 2)"
    with r final [OF N] show "cf_referencePeriodEnd (leg ! (length (sch_dates schedule) -
      2)) = adjust (sch_calendar schedule) (plus_period ar (sch_dates schedule ! (length
      (sch_dates schedule) - 2)) (sch_tenor schedule)) pa"
      by (simp add: spec_FixedRate_coupon_def spec_CMS_coupon_def spec_refEnd_def
          last_stub_def)
  qed
  have Z: ?Z
  proof (intro allI impI conjI; elim conjE)
    fix leg
    assume wf: "well_formed schedule"
    and ok: "CMSZeroCouponVector ar schedule pa nominals index lag dayCount gearings
      spreads caps floors meanReversions pricer vol = Inr leg"
    note r = CMSZeroCouponVector_Inr [OF wf ok]
    assume "\<not> sch_isRegular schedule ! 0"
    with r zero [OF wf] show "cf_referencePeriodStart (leg ! 0) = adjust (sch_calendar
      schedule) (minus_period ar (sch_dates schedule ! 1) (sch_tenor schedule)) pa"
      by (simp add: spec_FixedRate_coupon_def spec_CMS_coupon_def spec_refStart_def
          first_stub_def)
  next
    fix leg
    assume wf: "well_formed schedule"
    and ok: "CMSZeroCouponVector ar schedule pa nominals index lag dayCount gearings
      spreads caps floors meanReversions pricer vol = Inr leg"
    note r = CMSZeroCouponVector_Inr [OF wf ok]
    assume N: "2 < length (sch_dates schedule)" and "\<not> sch_isRegular schedule ! (length
        (sch_dates schedule) - 2)"
    with r final [OF N] show "cf_referencePeriodEnd (leg ! (length (sch_dates schedule) -
      2)) = adjust (sch_calendar schedule) (plus_period ar (sch_dates schedule ! (length
      (sch_dates schedule) - 2)) (sch_tenor schedule)) pa"
      by (simp add: spec_FixedRate_coupon_def spec_CMS_coupon_def spec_refEnd_def
          last_stub_def)
  qed
  have A: ?A
  proof (intro allI impI conjI; elim conjE)
    fix leg
    assume wf: "well_formed schedule"
    and ok: "CMSInArrearsCouponVector ar schedule pa nominals index lag dayCount
      gearings spreads caps floors meanReversions pricer vol = Inr leg"
    note r = CMSInArrearsCouponVector_Inr [OF wf ok]
    assume "\<not> sch_isRegular schedule ! 0"
    with r zero [OF wf] show "cf_referencePeriodStart (leg ! 0) = adjust (sch_calendar
      schedule) (minus_period ar (sch_dates schedule ! 1) (sch_tenor schedule)) pa"
      by (simp add: spec_FixedRate_coupon_def spec_CMS_coupon_def spec_refStart_def
          first_stub_def)
  next
    fix leg
    assume wf: "well_formed schedule"
    and ok: "CMSInArrearsCouponVector ar schedule pa nominals index lag dayCount
      gearings spreads caps floors meanReversions pricer vol = Inr leg"
    note r = CMSInArrearsCouponVector_Inr [OF wf ok]
    assume N: "2 < length (sch_dates schedule)" and "\<not> sch_isRegular schedule ! (length
        (sch_dates schedule) - 2)"
    with r final [OF N] show "cf_referencePeriodEnd (leg ! (length (sch_dates schedule) -
      2)) = adjust (sch_calendar schedule) (plus_period ar (sch_dates schedule ! (length
      (sch_dates schedule) - 2)) (sch_tenor schedule)) pa"
      by (simp add: spec_FixedRate_coupon_def spec_CMS_coupon_def spec_refEnd_def
          last_stub_def)
  qed
  have E: ?E
  proof -
    let ?n = "length (sch_dates stub_schedule) - 1"
    let ?legF = "map (spec_FixedRate_coupon thirty_day_months stub_schedule Preceding
      [1000] [0.03] NoDayCounter NoDayCounter) [0 ..< ?n]"
    let ?legC = "map (spec_CMS_coupon thirty_day_months stub_schedule Preceding [1000] 1 2
      NoDayCounter [] [] [] [] [] 1 False False [7]) [0 ..< ?n]"
    let ?legZ = "map (spec_CMS_coupon thirty_day_months stub_schedule Preceding [1000] 1 2
      NoDayCounter [] [] [] [] [] 1 True False [7]) [0 ..< ?n]"
    let ?legA = "map (spec_CMS_coupon thirty_day_months stub_schedule Preceding [1000] 1 2
      NoDayCounter [] [] [] [] [] 1 False True [7]) [0 ..< ?n]"
    have "FixedRateCouponVector thirty_day_months stub_schedule Preceding [1000] [0.03]
        NoDayCounter NoDayCounter = Inr ?legF"
      by (rule FixedRateCouponVector_closed [OF well_formed_stub_schedule]) simp_all
    moreover have "CMSCouponVector thirty_day_months stub_schedule Preceding [1000] 1 2
        NoDayCounter [] [] [] [] [] 1 7 = Inr ?legC"
      by (rule CMSCouponVector_closed [OF well_formed_stub_schedule]) simp
    moreover have "CMSZeroCouponVector thirty_day_months stub_schedule Preceding [1000] 1 2
        NoDayCounter [] [] [] [] [] 1 7 = Inr ?legZ"
      by (rule CMSZeroCouponVector_closed [OF well_formed_stub_schedule]) simp
    moreover have "CMSInArrearsCouponVector thirty_day_months stub_schedule Preceding
        [1000] 1 2 NoDayCounter [] [] [] [] [] 1 7 = Inr ?legA"
      by (rule CMSInArrearsCouponVector_closed [OF well_formed_stub_schedule]) simp
    moreover have "cf_referencePeriodStart (?legF ! 0) = 39970"
      "cf_referencePeriodStart (?legC ! 0) = 39967"
      "cf_referencePeriodStart (?legZ ! 0) = 39967"
      "cf_referencePeriodStart (?legA ! 0) = 39967"
      by (simp_all add: length_stub_schedule spec_FixedRate_coupon_def spec_CMS_coupon_def
          spec_refStart_def first_stub_def stub_schedule_def weekend_calendar_def
          weekend_adjust_def thirty_day_months_def)
    moreover have "sch_businessDayConvention stub_schedule \<noteq> Preceding"
      "\<not> sch_isRegular stub_schedule ! 0"
      by (simp_all add: stub_schedule_def)
    ultimately show ?thesis
      using well_formed_stub_schedule
      by (intro exI [of _ stub_schedule] exI [of _ Preceding] exI [of _ ?legF]
          exI [of _ ?legC] exI [of _ ?legZ] exI [of _ ?legA]) simp
  qed
  have RF: ?RF
  proof (intro impI; elim conjE)
    assume wf: "well_formed schedule" and "couponRates \<noteq> []" "nominals \<noteq> []"
      "sch_isRegular schedule ! 0 \<longrightarrow> dc_empty fpdc \<or> fpdc = dayCount"
    then show "\<exists>leg. FixedRateCouponVector ar schedule pa nominals couponRates dayCount
        fpdc = Inr leg"
      using FixedRateCouponVector_closed [OF wf, of nominals couponRates fpdc dayCount ar pa]
      by simp
  qed
  have RC: ?RC
  proof (intro impI; elim conjE)
    assume wf: "well_formed schedule" and "nominals \<noteq> []"
    then show "(\<exists>leg. CMSCouponVector ar schedule pa nominals index lag dayCount gearings
          spreads caps floors meanReversions pricer vol = Inr leg) \<and>
        (\<exists>leg. CMSZeroCouponVector ar schedule pa nominals index lag dayCount gearings
          spreads caps floors meanReversions pricer vol = Inr leg) \<and>
        (\<exists>leg. CMSInArrearsCouponVector ar schedule pa nominals index lag dayCount
          gearings spreads caps floors meanReversions pricer vol = Inr leg)"
      using CMSCouponVector_closed [OF wf, of nominals ar pa index lag dayCount gearings
          spreads caps floors meanReversions pricer vol]
        CMSZeroCouponVector_closed [OF wf, of nominals ar pa index lag dayCount gearings
          spreads caps floors meanReversions pricer vol]
        CMSInArrearsCouponVector_closed [OF wf, of nominals ar pa index lag dayCount
          gearings spreads caps floors meanReversions pricer vol]
      by simp
  qed
  from F C Z A E RF RC show ?thesis
    by (intro conjI)
qed

theorem stub_conventions_differ_witness:
  "well_formed stub_schedule \<and> \<not> sch_isRegular stub_schedule ! 0 \<and>
   2 < length (sch_dates stub_schedule) \<and>
   \<not> sch_isRegular stub_schedule ! (length (sch_dates stub_schedule) - 2) \<and>
   sch_businessDayConvention stub_schedule \<noteq> Preceding \<and>
   (\<exists>leg. FixedRateCouponVector thirty_day_months stub_schedule Preceding [1000]
        [0.03, 0.035] (NamedDayCounter ''Actual/360'') NoDayCounter = Inr leg \<and>
      cf_referencePeriodStart (leg ! 0) = 39970 \<and>
      cf_referencePeriodEnd (leg ! 3) = 40328) \<and>
   (\<exists>leg. CMSCouponVector thirty_day_months stub_schedule Preceding [1000] 1 2
        (NamedDayCounter ''Actual/360'') [] [] [] [] [] 1 7 = Inr leg \<and>
      cf_referencePeriodStart (leg ! 0) = 39967 \<and>
      cf_referencePeriodEnd (leg ! 3) = 40328) \<and>
   (\<exists>leg. CMSZeroCouponVector thirty_day_months stub_schedule Preceding [1000] 1 2
        (NamedDayCounter ''Actual/360'') [] [] [] [] [] 1 7 = Inr leg \<and>
      cf_referencePeriodStart (leg ! 0) = 39967 \<and>
      cf_referencePeriodEnd (leg ! 3) = 40328) \<and>
   (\<exists>leg. CMSInArrearsCouponVector thirty_day_months stub_schedule Preceding [1000] 1 2
        (NamedDayCounter ''Actual/360'') [] [] [] [] [] 1 7 = Inr leg \<and>
      cf_referencePeriodStart (leg ! 0) = 39967 \<and>
      cf_referencePeriodEnd (leg ! 3) = 40328)"
proof -
  have hyp: "\<not> sch_isRegular stub_schedule ! 0" "2 < length (sch_dates stub_schedule)"
    "\<not> sch_isRegular stub_schedule ! (length (sch_dates stub_schedule) - 2)"
    "sch_businessDayConvention stub_schedule \<noteq> Preceding"
    by (simp_all add: stub_schedule_def)
  have three: "length (sch_dates stub_schedule) - 2 = 3"
    by (simp add: length_stub_schedule)
  have ne: "[1000::real] \<noteq> []" "[0.03, 0.035::real] \<noteq> []"
    by simp_all
  have dc: "dc_empty NoDayCounter"
    by (simp add: dc_empty_def)
  note wf = well_formed_stub_schedule
  note inst = stub_conventions_differ [where ar = thirty_day_months
      and schedule = stub_schedule and pa = Preceding and nominals = "[1000]"
      and couponRates = "[0.03, 0.035]" and dayCount = "NamedDayCounter ''Actual/360''"
      and fpdc = NoDayCounter and index = 1 and lag = 2 and gearings = "[]"
      and spreads = "[]" and caps = "[]" and floors = "[]" and meanReversions = "[]"
      and pricer = 1 and vol = 7]
  note defs = stub_schedule_def weekend_calendar_def weekend_adjust_def
    thirty_day_months_def
  from inst wf ne dc obtain legF where F: "FixedRateCouponVector thirty_day_months stub_schedule Preceding [1000]
        [0.03, 0.035] (NamedDayCounter ''Actual/360'') NoDayCounter = Inr legF"
    by blast
  from inst wf ne dc obtain legC where C: "CMSCouponVector thirty_day_months stub_schedule Preceding [1000] 1 2
        (NamedDayCounter ''Actual/360'') [] [] [] [] [] 1 7 = Inr legC"
    by blast
  from inst wf ne dc obtain legZ where Z: "CMSZeroCouponVector thirty_day_months stub_schedule Preceding [1000] 1 2
        (NamedDayCounter ''Actual/360'') [] [] [] [] [] 1 7 = Inr legZ"
    by blast
  from inst wf ne dc obtain legA where A: "CMSInArrearsCouponVector thirty_day_months stub_schedule Preceding [1000] 1 2
        (NamedDayCounter ''Actual/360'') [] [] [] [] [] 1 7 = Inr legA"
    by blast
  from inst F wf hyp
  have "cf_referencePeriodStart (legF ! 0) =
      adjust (sch_calendar stub_schedule)
        (minus_period thirty_day_months (sch_dates stub_schedule ! 1)
           (sch_tenor stub_schedule)) (sch_businessDayConvention stub_schedule)"
    "cf_referencePeriodEnd (legF ! (length (sch_dates stub_schedule) - 2)) =
      adjust (sch_calendar stub_schedule)
        (plus_period thirty_day_months
           (sch_dates stub_schedule ! (length (sch_dates stub_schedule) - 2))
           (sch_tenor stub_schedule)) (sch_businessDayConvention stub_schedule)"
    by blast+
  then have vF: "cf_referencePeriodStart (legF ! 0) = 39970"
    "cf_referencePeriodEnd (legF ! 3) = 40328"
    unfolding three by (simp_all add: defs)
  from inst C wf hyp
  have "cf_referencePeriodStart (legC ! 0) =
      adjust (sch_calendar stub_schedule)
        (minus_period thirty_day_months (sch_dates stub_schedule ! 1)
           (sch_tenor stub_schedule)) Preceding"
    "cf_referencePeriodEnd (legC ! (length (sch_dates stub_schedule) - 2)) =
      adjust (sch_calendar stub_schedule)
        (plus_period thirty_day_months
           (sch_dates stub_schedule ! (length (sch_dates stub_schedule) - 2))
           (sch_tenor stub_schedule)) Preceding"
    by blast+
  then have vC: "cf_referencePeriodStart (legC ! 0) = 39967"
    "cf_referencePeriodEnd (legC ! 3) = 40328"
    unfolding three by (simp_all add: defs)
  from inst Z wf hyp
  have "cf_referencePeriodStart (legZ ! 0) =
      adjust (sch_calendar stub_schedule)
        (minus_period thirty_day_months (sch_dates stub_schedule ! 1)
           (sch_tenor stub_schedule)) Preceding"
    "cf_referencePeriodEnd (legZ ! (length (sch_dates stub_schedule) - 2)) =
      adjust (sch_calendar stub_schedule)
        (plus_period thirty_day_months
           (sch_dates stub_schedule ! (length (sch_dates stub_schedule) - 2))
           (sch_tenor stub_schedule)) Preceding"
    by blast+
  then have vZ: "cf_referencePeriodStart (legZ ! 0) = 39967"
    "cf_referencePeriodEnd (legZ ! 3) = 40328"
    unfolding three by (simp_all add: defs)
  from inst A wf hyp
  have "cf_referencePeriodStart (legA ! 0) =
      adjust (sch_calendar stub_schedule)
        (minus_period thirty_day_months (sch_dates stub_schedule ! 1)
           (sch_tenor stub_schedule)) Preceding"
    "cf_referencePeriodEnd (legA ! (length (sch_dates stub_schedule) - 2)) =
      adjust (sch_calendar stub_schedule)
        (plus_period thirty_day_months
           (sch_dates stub_schedule ! (length (sch_dates stub_schedule) - 2))
           (sch_tenor stub_schedule)) Preceding"
    by blast+
  then have vA: "cf_referencePeriodStart (legA ! 0) = 39967"
    "cf_referencePeriodEnd (legA ! 3) = 40328"
    unfolding three by (simp_all add: defs)
  from F C Z A vF vC vZ vA hyp wf show ?thesis
    by simp
qed

end
